(* ===== verification/Prelude.thy ===== *)
theory Prelude
  imports Complex_Main "HOL-Library.Word"
begin

text \<open>
  Shared vocabulary of the translator development: the exception monad on sum types that
  every fallible operation of the JavaScript sources is written in, the collections of
  evaluation rules the component theories add to, and generic lemmas on lists and
  association lists that the components share.
\<close>

named_theorems js_eval \<open>evaluation rules of the JavaScript value layer\<close>
named_theorems translator_defs \<open>definitions of the translators unfolded in scenario proofs\<close>

section \<open>The exception monad\<close>

text \<open>
  A JavaScript statement either completes with a value or throws. A throwing computation
  is \<open>Inl e\<close>, a completed one \<open>Inr v\<close>; \<open>bindE\<close> sequences two of them and stops at
  the first throw, as a statement list stops at the first uncaught exception.
\<close>

definition bindE :: "'e + 'a \<Rightarrow> ('a \<Rightarrow> 'e + 'b) \<Rightarrow> 'e + 'b" where
  "bindE m f = (case m of Inl e \<Rightarrow> Inl e | Inr x \<Rightarrow> f x)"

section \<open>Association lists with insertion order\<close>

text \<open>
  A JavaScript object keeps its string-keyed properties in insertion order, so objects are
  association lists. Assigning to a property replaces the value in place when the key is
  present and appends the key otherwise.
\<close>

fun set_prop :: "('k \<times> 'v) list \<Rightarrow> 'k \<Rightarrow> 'v \<Rightarrow> ('k \<times> 'v) list" where
  "set_prop [] k v = [(k, v)]"
| "set_prop ((k', v') # kvs) k v = (if k' = k then (k, v) # kvs else (k', v') # set_prop kvs k v)"

section \<open>Lemmas on the exception monad\<close>

lemma bindE_Inl [simp]: "bindE (Inl e) f = Inl e"
  by (simp add: bindE_def)

lemma bindE_Inr [simp]: "bindE (Inr x) f = f x"
  by (simp add: bindE_def)

lemma bindE_eq_Inr_conv:
  "bindE m f = Inr y \<longleftrightarrow> (\<exists>x. m = Inr x \<and> f x = Inr y)"
  by (cases m) (auto simp: bindE_def)

lemma bindE_eq_Inl_conv:
  "bindE m f = Inl e \<longleftrightarrow> m = Inl e \<or> (\<exists>x. m = Inr x \<and> f x = Inl e)"
  by (cases m) (auto simp: bindE_def)

lemma bindE_Inr_right [simp]: "bindE m Inr = m"
  by (cases m) (auto simp: bindE_def)

lemma bindE_assoc: "bindE (bindE m f) g = bindE m (\<lambda>x. bindE (f x) g)"
  by (cases m) (auto simp: bindE_def)

section \<open>Lemmas on association lists\<close>

lemma map_of_set_prop [simp]: "map_of (set_prop kvs k v) = (map_of kvs)(k \<mapsto> v)"
  by (induction kvs) (auto simp: fun_eq_iff)

lemma map_fst_set_prop_present:
  "k \<in> set (map fst kvs) \<Longrightarrow> map fst (set_prop kvs k v) = map fst kvs"
  by (induction kvs) force+

lemma map_fst_set_prop_absent:
  "k \<notin> set (map fst kvs) \<Longrightarrow> map fst (set_prop kvs k v) = map fst kvs @ [k]"
  by (induction kvs) auto

lemma set_prop_absent: "k \<notin> fst ` set kvs \<Longrightarrow> set_prop kvs k v = kvs @ [(k, v)]"
  by (induction kvs) auto

lemma distinct_set_prop:
  "distinct (map fst kvs) \<Longrightarrow> distinct (map fst (set_prop kvs k v))"
  by (cases "k \<in> set (map fst kvs)") (simp_all add: map_fst_set_prop_present map_fst_set_prop_absent)

section \<open>Lists\<close>

lemma take_append_exact [simp]: "length xs = n \<Longrightarrow> take n (xs @ ys) = xs"
  by simp

lemma drop_append_exact [simp]: "length xs = n \<Longrightarrow> drop n (xs @ ys) = ys"
  by simp

lemma concat_map_fixed_length:
  "(\<And>x. length (f x) = w) \<Longrightarrow> length (concat (map f xs)) = w * length xs"
  by (induction xs) auto

lemma take_concat_fixed:
  "(\<And>x. length (f x) = w) \<Longrightarrow> take (w * n) (concat (map f xs)) = concat (map f (take n xs))"
proof (induction xs arbitrary: n)
  case Nil
  then show ?case by simp
next
  case (Cons x xs)
  then show ?case by (cases n) (simp_all add: take_add)
qed

end
