(* ===== verification/JsValue.thy ===== *)
theory JsValue
  imports Prelude
begin

text \<open>
  The values the translators compute with, and the parts of JavaScript's semantics the
  sources rely on: \<open>typeof\<close>, truthiness (\<open>if (x)\<close>, \<open>x ? a : b\<close>), strict
  equality (\<open>===\<close>), the conversions ToString and ToNumber, the \<open>+\<close> operator with
  its string/number overloading, division by a numeric literal, comparison with a numeric
  literal, and property read and write on objects and arrays. Reading a property of
  \<open>undefined\<close> or \<open>null\<close> throws a TypeError; every other read yields a value,
  \<open>undefined\<close> when the property is absent.

  Numbers are exact rationals (\<open>JNum\<close>) plus \<open>NaN\<close>: the sources only add, halve
  and compare set points and levels, so IEEE rounding and the infinities are not modelled.
  Host objects (a hub translator handed to a device translator) are references
  \<open>JHost n\<close> whose methods are given by the environment of the calling theory.
  ToString of a number is Number::toString on the exact rational: its decimal significand
  and exponent (\<open>decimal_parts\<close>, long division with enough fuel for every double) in
  one of the four formats of ECMA-262 (\<open>format_decimal\<close>).
\<close>

datatype jval =
    JUndef
  | JNull
  | JBool bool
  | JNum rat
  | JNaN
  | JStr string
  | JArr "jval list"
  | JObj "(string \<times> jval) list"
  | JHost nat

datatype js_error =
    TypeError string  \<comment> \<open>runtime TypeError; the string names the property or method\<close>
  | Error string      \<comment> \<open>\<open>throw new Error(msg)\<close>\<close>
  | SyntaxError       \<comment> \<open>\<open>JSON.parse\<close> of a malformed body\<close>
  | Rejected jval     \<comment> \<open>a promise of an external collaborator rejected with a value\<close>

type_synonym 'a js = "js_error + 'a"

section \<open>typeof, truthiness, strict equality\<close>

fun js_typeof :: "jval \<Rightarrow> string" where
  "js_typeof JUndef = ''undefined''"
| "js_typeof JNull = ''object''"
| "js_typeof (JBool _) = ''boolean''"
| "js_typeof (JNum _) = ''number''"
| "js_typeof JNaN = ''number''"
| "js_typeof (JStr _) = ''string''"
| "js_typeof (JArr _) = ''object''"
| "js_typeof (JObj _) = ''object''"
| "js_typeof (JHost _) = ''object''"

fun js_truthy :: "jval \<Rightarrow> bool" where
  "js_truthy JUndef = False"
| "js_truthy JNull = False"
| "js_truthy (JBool b) = b"
| "js_truthy (JNum q) = (q \<noteq> 0)"
| "js_truthy JNaN = False"
| "js_truthy (JStr s) = (s \<noteq> [])"
| "js_truthy (JArr _) = True"
| "js_truthy (JObj _) = True"
| "js_truthy (JHost _) = True"

text \<open>
  \<open>===\<close>: primitives by value (\<open>NaN\<close> equals nothing), host objects by reference.
  Object and array values of the model carry no reference identity; the sources only ever
  compare primitives with \<open>===\<close>, so two such values are taken as different references.
\<close>

fun js_seq :: "jval \<Rightarrow> jval \<Rightarrow> bool" where
  "js_seq JUndef JUndef = True"
| "js_seq JNull JNull = True"
| "js_seq (JBool a) (JBool b) = (a = b)"
| "js_seq (JNum a) (JNum b) = (a = b)"
| "js_seq (JStr a) (JStr b) = (a = b)"
| "js_seq (JHost a) (JHost b) = (a = b)"
| "js_seq _ _ = False"

text \<open>\<open>x == null\<close> (and \<open>x == undefined\<close>): loose equality with the nullish values.\<close>

definition js_nullish :: "jval \<Rightarrow> bool" where
  "js_nullish v \<longleftrightarrow> v = JUndef \<or> v = JNull"

section \<open>ToString\<close>

definition digit_char :: "nat \<Rightarrow> char" where
  "digit_char d = ''0123456789'' ! d"

fun nat_to_string :: "nat \<Rightarrow> string" where
  "nat_to_string n = (if n < 10 then [digit_char n] else nat_to_string (n div 10) @ [digit_char (n mod 10)])"

declare nat_to_string.simps [simp del]

text \<open>
  The fractional digits of \<open>r / d\<close> by long division. Every finite double is a dyadic
  rational, whose expansion ends after at most 1074 digits, so the fuel 1100 used by
  \<open>rat_to_string\<close> never cuts an expansion short (\<open>frac_digits_dyadic\<close> below).
\<close>

fun frac_digits :: "nat \<Rightarrow> nat \<Rightarrow> nat \<Rightarrow> string" where
  "frac_digits 0 r d = []"
| "frac_digits (Suc k) r d =
     (if r = 0 then [] else digit_char (10 * r div d) # frac_digits k (10 * r mod d) d)"

definition strip_zeros :: "string \<Rightarrow> string" where
  "strip_zeros s = rev (dropWhile (\<lambda>c. c = CHR ''0'') (rev s))"

text \<open>
  The decimal significand \<open>s\<close> and exponent \<open>n\<close> of \<open>a / b > 0\<close>, with
  \<open>a / b = 0.s \<times> 10^n\<close> and no leading or trailing zero in \<open>s\<close>: the \<open>k\<close>, \<open>n\<close>
  and \<open>s\<close> of Number::toString (ECMA-262, 6.1.6.1.20), taking the exact decimal
  expansion as the digit string.
\<close>

definition decimal_parts :: "nat \<Rightarrow> nat \<Rightarrow> string \<times> int" where
  "decimal_parts a b =
     (let ip = a div b; fd = frac_digits 1100 (a mod b) b in
      if ip = 0 then (strip_zeros (dropWhile (\<lambda>c. c = CHR ''0'') fd),
                      - int (length (takeWhile (\<lambda>c. c = CHR ''0'') fd)))
      else (strip_zeros (nat_to_string ip @ fd), int (length (nat_to_string ip))))"

definition exp_string :: "int \<Rightarrow> string" where
  "exp_string e = CHR ''e'' # (if e < 0 then CHR ''-'' else CHR ''+'') # nat_to_string (nat \<bar>e\<bar>)"

text \<open>
  Steps 6 to 10 of Number::toString: plain digits up to 21 integer digits, a decimal point
  inside them, up to five leading zeros after \<open>0.\<close>, and exponent notation otherwise.
\<close>

definition format_decimal :: "string \<Rightarrow> int \<Rightarrow> string" where
  "format_decimal s n =
     (let k = int (length s) in
      if k \<le> n \<and> n \<le> 21 then s @ replicate (nat (n - k)) CHR ''0''
      else if 0 < n \<and> n \<le> 21 then take (nat n) s @ CHR ''.'' # drop (nat n) s
      else if - 6 < n \<and> n \<le> 0 then CHR ''0'' # CHR ''.'' # replicate (nat (- n)) CHR ''0'' @ s
      else if k = 1 then s @ exp_string (n - 1)
      else take 1 s @ CHR ''.'' # drop 1 s @ exp_string (n - 1))"

definition rat_to_string :: "rat \<Rightarrow> string" where
  "rat_to_string q = (case quotient_of q of (a, b) \<Rightarrow>
     if a = 0 then ''0''
     else (if a < 0 then ''-'' else []) @
          (case decimal_parts (nat \<bar>a\<bar>) (nat b) of (s, n) \<Rightarrow> format_decimal s n))"

fun join_with :: "string \<Rightarrow> string list \<Rightarrow> string" where
  "join_with sep [] = []"
| "join_with sep [s] = s"
| "join_with sep (s # ss) = s @ sep @ join_with sep ss"

text \<open>ToString; an array prints as \<open>Array.prototype.join\<close> with \<open>,\<close>.\<close>

fun js_to_string :: "jval \<Rightarrow> string" where
  "js_to_string JUndef = ''undefined''"
| "js_to_string JNull = ''null''"
| "js_to_string (JBool b) = (if b then ''true'' else ''false'')"
| "js_to_string (JNum q) = rat_to_string q"
| "js_to_string JNaN = ''NaN''"
| "js_to_string (JStr s) = s"
| "js_to_string (JArr xs) =
     join_with '','' (map (\<lambda>x. if x = JUndef \<or> x = JNull then [] else js_to_string x) xs)"
| "js_to_string (JObj _) = ''[object Object]''"
| "js_to_string (JHost _) = ''[object Object]''"

section \<open>ToNumber\<close>

definition is_digit :: "char \<Rightarrow> bool" where
  "is_digit c \<longleftrightarrow> 48 \<le> (of_char c :: nat) \<and> (of_char c :: nat) \<le> 57"

definition digit_val :: "char \<Rightarrow> nat" where
  "digit_val c = of_char c - 48"

definition digits_nat :: "string \<Rightarrow> nat" where
  "digits_nat ds = foldl (\<lambda>n c. 10 * n + digit_val c) 0 ds"

definition is_js_space :: "char \<Rightarrow> bool" where
  "is_js_space c \<longleftrightarrow> c \<in> {CHR '' '', CHR 0x09, CHR 0x0A, CHR 0x0B, CHR 0x0C, CHR 0x0D}"

definition js_trim :: "string \<Rightarrow> string" where
  "js_trim s = rev (dropWhile is_js_space (rev (dropWhile is_js_space s)))"

definition parse_exponent :: "string \<Rightarrow> int option" where
  "parse_exponent s = (case s of
      [] \<Rightarrow> Some 0
    | c # r \<Rightarrow>
        if c = CHR ''e'' \<or> c = CHR ''E'' then
          (let (sg, ds) = (case r of
                 d # r' \<Rightarrow> if d = CHR ''-'' then (-1, r') else if d = CHR ''+'' then (1, r') else (1, r)
               | [] \<Rightarrow> (1, r))
           in if ds \<noteq> [] \<and> list_all is_digit ds then Some (sg * int (digits_nat ds)) else None)
        else None)"

definition parse_unsigned :: "string \<Rightarrow> rat option" where
  "parse_unsigned s = (let ip = takeWhile is_digit s; r = dropWhile is_digit s;
       (fp, r2) = (case r of
          c # r' \<Rightarrow> if c = CHR ''.'' then (takeWhile is_digit r', dropWhile is_digit r') else ([], r)
        | [] \<Rightarrow> ([], []))
     in if ip = [] \<and> fp = [] then None
        else (case parse_exponent r2 of
                None \<Rightarrow> None
              | Some e \<Rightarrow> Some (of_nat (digits_nat (ip @ fp)) / of_nat (10 ^ length fp) *
                                (if 0 \<le> e then 10 ^ nat e else 1 / 10 ^ nat (- e)))))"

text \<open>
  StringToNumber for decimal literals: surrounding white space is ignored, the empty
  string is 0, a sign, digits with an optional fraction and an optional exponent give their
  value; anything else is NaN. The forms \<open>Infinity\<close>, \<open>0x..\<close>, \<open>0o..\<close> and \<open>0b..\<close>
  are outside the model and read as NaN.
\<close>

definition str_to_number :: "string \<Rightarrow> rat option" where
  "str_to_number s = (let t = js_trim s in
     (case t of
        [] \<Rightarrow> Some 0
      | c # r \<Rightarrow> if c = CHR ''-'' then map_option uminus (parse_unsigned r)
                 else if c = CHR ''+'' then parse_unsigned r
                 else parse_unsigned t))"

text \<open>ToNumber, with \<open>None\<close> for NaN.\<close>

fun js_to_number :: "jval \<Rightarrow> rat option" where
  "js_to_number JUndef = None"
| "js_to_number JNull = Some 0"
| "js_to_number (JBool b) = Some (if b then 1 else 0)"
| "js_to_number (JNum q) = Some q"
| "js_to_number JNaN = None"
| "js_to_number (JStr s) = str_to_number s"
| "js_to_number (JArr xs) = str_to_number (js_to_string (JArr xs))"
| "js_to_number (JObj _) = None"
| "js_to_number (JHost _) = None"

definition num_jval :: "rat option \<Rightarrow> jval" where
  "num_jval r = (case r of Some q \<Rightarrow> JNum q | None \<Rightarrow> JNaN)"

section \<open>Operators\<close>

text \<open>Whether ToPrimitive of the value is a string (objects convert through toString).\<close>

fun prim_is_string :: "jval \<Rightarrow> bool" where
  "prim_is_string (JStr _) = True"
| "prim_is_string (JArr _) = True"
| "prim_is_string (JObj _) = True"
| "prim_is_string (JHost _) = True"
| "prim_is_string _ = False"

text \<open>\<open>a + b\<close>: concatenation when either side is a string after ToPrimitive.\<close>

definition js_add :: "jval \<Rightarrow> jval \<Rightarrow> jval" where
  "js_add a b =
     (if prim_is_string a \<or> prim_is_string b then JStr (js_to_string a @ js_to_string b)
      else num_jval (case (js_to_number a, js_to_number b) of
                       (Some x, Some y) \<Rightarrow> Some (x + y)
                     | _ \<Rightarrow> None))"

text \<open>\<open>a / d\<close> for a non-zero numeric literal \<open>d\<close> (the sources only divide by 2).\<close>

definition js_div_by :: "jval \<Rightarrow> rat \<Rightarrow> jval" where
  "js_div_by a d = num_jval (map_option (\<lambda>x. x / d) (js_to_number a))"

text \<open>\<open>a > d\<close> for a numeric literal \<open>d\<close>: ToNumber of \<open>a\<close>, false on NaN.\<close>

definition js_gt_num :: "jval \<Rightarrow> rat \<Rightarrow> bool" where
  "js_gt_num a d = (case js_to_number a of Some x \<Rightarrow> d < x | None \<Rightarrow> False)"

section \<open>Property access\<close>

text \<open>A canonical array index: a digit string without leading zeros.\<close>

definition array_index :: "string \<Rightarrow> nat option" where
  "array_index p =
     (if p \<noteq> [] \<and> list_all is_digit p \<and> (p = ''0'' \<or> hd p \<noteq> CHR ''0'')
      then Some (digits_nat p) else None)"

definition nth_or_undef :: "'a list \<Rightarrow> string \<Rightarrow> ('a \<Rightarrow> jval) \<Rightarrow> jval" where
  "nth_or_undef xs p f =
     (case array_index p of Some i \<Rightarrow> if i < length xs then f (xs ! i) else JUndef | None \<Rightarrow> JUndef)"

text \<open>\<open>v[p]\<close> and \<open>v.p\<close>.\<close>

fun js_get :: "jval \<Rightarrow> string \<Rightarrow> jval js" where
  "js_get JUndef p = Inl (TypeError p)"
| "js_get JNull p = Inl (TypeError p)"
| "js_get (JObj kvs) p = Inr (case map_of kvs p of Some v \<Rightarrow> v | None \<Rightarrow> JUndef)"
| "js_get (JArr xs) p =
     Inr (if p = ''length'' then JNum (of_nat (length xs)) else nth_or_undef xs p id)"
| "js_get (JStr s) p =
     Inr (if p = ''length'' then JNum (of_nat (length s)) else nth_or_undef s p (\<lambda>c. JStr [c]))"
| "js_get _ p = Inr JUndef"

text \<open>The elements of an array, for the \<open>Array.prototype\<close> methods called on it.\<close>

definition js_array :: "jval \<Rightarrow> string \<Rightarrow> jval list js" where
  "js_array v m = (case v of JArr xs \<Rightarrow> Inr xs | _ \<Rightarrow> Inl (TypeError m))"

text \<open>\<open>xs.find(p)\<close>, with a predicate that may throw.\<close>

fun js_find :: "(jval \<Rightarrow> bool js) \<Rightarrow> jval list \<Rightarrow> jval js" where
  "js_find p [] = Inr JUndef"
| "js_find p (x # xs) = bindE (p x) (\<lambda>b. if b then Inr x else js_find p xs)"

text \<open>The value of a property of an object that is known not to throw.\<close>

definition prop_of :: "jval \<Rightarrow> string \<Rightarrow> jval" where
  "prop_of v p = (case js_get v p of Inr x \<Rightarrow> x | Inl _ \<Rightarrow> JUndef)"

section \<open>Argument validation\<close>

text \<open>
  \<open>validateArgumentType\<close> of the lightbulb translator. The thermostat translator
  has a verbatim copy, \<open>wink_validateArgumentType\<close>, shown equal to this one. \<open>typeof null\<close> is \<open>"object"\<close>, so
  \<open>null\<close> passes a check for an object.
\<close>

definition validateArgumentType :: "jval \<Rightarrow> string \<Rightarrow> string \<Rightarrow> unit js" where
  "validateArgumentType arg argName expectedType =
     (if js_typeof arg = ''undefined'' then
        Inl (Error (''Missing argument: '' @ argName @ ''. '' @ ''Expected type: '' @ expectedType @ ''.''))
      else if js_typeof arg \<noteq> expectedType then
        Inl (Error (''Invalid argument: '' @ argName @ ''. '' @
                    ''Expected type: '' @ expectedType @ '', got: '' @ js_typeof arg))
      else Inr ())"

text \<open>\<open>d.p === v\<close>, the predicate the translators pass to \<open>find\<close>.\<close>

definition js_prop_seq :: "string \<Rightarrow> jval \<Rightarrow> jval \<Rightarrow> bool js" where
  "js_prop_seq p v d = bindE (js_get d p) (\<lambda>x. Inr (js_seq x v))"

section \<open>Evaluation lemmas\<close>

lemma js_add_JStr_left [simp, js_eval]: "js_add (JStr s) v = JStr (s @ js_to_string v)"
  by (simp add: js_add_def)

lemma js_get_JObj [js_eval]:
  "js_get (JObj kvs) p = Inr (case map_of kvs p of Some v \<Rightarrow> v | None \<Rightarrow> JUndef)"
  by simp

lemma js_get_prop_of: "\<not> js_nullish v \<Longrightarrow> js_get v p = Inr (prop_of v p)"
  by (cases v) (auto simp: js_nullish_def prop_of_def)

lemma prop_of_JObj [simp]: "prop_of (JObj kvs) p = (case map_of kvs p of Some v \<Rightarrow> v | None \<Rightarrow> JUndef)"
  by (simp add: prop_of_def)

lemma array_index_zero: "array_index ''0'' = Some 0"
  by (simp add: array_index_def is_digit_def digits_nat_def digit_val_def)

lemma nth_or_undef_zero [simp]: "nth_or_undef (x # xs) ''0'' f = f x"
  by (simp add: nth_or_undef_def array_index_zero)

lemma js_get_JArr_zero: "js_get (JArr (x # xs)) ''0'' = Inr x"
  by simp

lemma prop_of_JArr_length [simp]: "prop_of (JArr xs) ''length'' = JNum (of_nat (length xs))"
  by (simp add: prop_of_def)

lemma prop_of_JArr_zero [simp]: "prop_of (JArr (x # xs)) ''0'' = x"
  by (simp add: prop_of_def)

lemma js_seq_JUndef [simp]: "js_seq v JUndef \<longleftrightarrow> v = JUndef"
  by (cases v) simp_all

lemma js_seq_JNull [simp]: "js_seq v JNull \<longleftrightarrow> v = JNull"
  by (cases v) simp_all

lemma js_seq_JNum [simp]: "js_seq v (JNum q) \<longleftrightarrow> v = JNum q"
  by (cases v) simp_all

lemma js_seq_JStr [simp]: "js_seq v (JStr s) \<longleftrightarrow> v = JStr s"
  by (cases v) simp_all

lemma js_nullish_simps [simp]:
  "js_nullish JUndef" "js_nullish JNull" "\<not> js_nullish (JObj kvs)" "\<not> js_nullish (JStr s)"
  "\<not> js_nullish (JArr xs)" "\<not> js_nullish (JNum q)" "\<not> js_nullish (JBool b)"
  "\<not> js_nullish (JHost n)" "\<not> js_nullish JNaN"
  by (simp_all add: js_nullish_def)

lemma js_get_nullish: "js_nullish v \<Longrightarrow> js_get v p = Inl (TypeError p)"
  by (auto simp: js_nullish_def)

lemma js_get_not_nullish: "\<not> js_nullish v \<Longrightarrow> \<exists>r. js_get v p = Inr r"
  by (cases v) (auto simp: js_nullish_def)


section \<open>Array indices\<close>

text \<open>\<open>a[i]\<close> for a number \<open>i\<close> reads the property named by the decimal string of \<open>i\<close>.\<close>

lemma digit_char_props:
  assumes "d < 10"
  shows "is_digit (digit_char d)" "digit_val (digit_char d) = d" "digit_char d = CHR ''0'' \<longleftrightarrow> d = 0"
proof -
  have "d = 0 \<or> d = 1 \<or> d = 2 \<or> d = 3 \<or> d = 4 \<or> d = 5 \<or> d = 6 \<or> d = 7 \<or> d = 8 \<or> d = 9"
    using assms by arith
  then show "is_digit (digit_char d)" "digit_val (digit_char d) = d" "digit_char d = CHR ''0'' \<longleftrightarrow> d = 0"
    by (auto simp: digit_char_def is_digit_def digit_val_def)
qed

lemma nat_to_string_digits: "nat_to_string n \<noteq> [] \<and> list_all is_digit (nat_to_string n) \<and> digits_nat (nat_to_string n) = n"
proof (induction n rule: nat_to_string.induct)
  case (1 n)
  show ?case
  proof (cases "n < 10")
    case True
    then show ?thesis by (simp add: nat_to_string.simps digits_nat_def digit_char_props)
  next
    case False
    then have "digits_nat (nat_to_string (n div 10) @ [digit_char (n mod 10)]) = 10 * (n div 10) + n mod 10"
      using 1 by (simp add: digits_nat_def digit_char_props)
    then show ?thesis using 1 False by (simp add: nat_to_string.simps digit_char_props)
  qed
qed

lemma nat_to_string_hd: "0 < n \<Longrightarrow> hd (nat_to_string n) \<noteq> CHR ''0''"
proof (induction n rule: nat_to_string.induct)
  case (1 n)
  then show ?case
    using nat_to_string_digits [of "n div 10"]
    by (cases "n < 10") (simp_all add: nat_to_string.simps digit_char_props)
qed

lemma array_index_nat_to_string [simp]: "array_index (nat_to_string n) = Some n"
proof -
  have "nat_to_string 0 = ''0''" by (simp add: nat_to_string.simps digit_char_def)
  then show ?thesis using nat_to_string_digits [of n] nat_to_string_hd [of n]
    by (cases "n = 0") (auto simp: array_index_def)
qed

lemma nat_to_string_not_length [simp]: "nat_to_string i \<noteq> ''length''"
  using nat_to_string_digits [of i] by (auto simp: is_digit_def)

lemma nth_or_undef_nat_to_string [simp]:
  "nth_or_undef xs (nat_to_string i) f = (if i < length xs then f (xs ! i) else JUndef)"
  by (simp add: nth_or_undef_def)

lemma js_get_JArr_index: "js_get (JArr xs) (nat_to_string i) = Inr (if i < length xs then xs ! i else JUndef)"
  by simp


section \<open>Enough fuel for the decimal expansion\<close>

text \<open>
  The long division in \<open>frac_digits\<close> stops once the remainder is 0. When
  \<open>10^m * r\<close> is a multiple of \<open>d\<close>, the remainder is 0 after \<open>m\<close> digits, and more fuel
  does not change the result.
\<close>

lemma frac_digits_stops:
  assumes "r < d" "(10 ^ m * r) mod d = 0" "m \<le> n"
  shows "frac_digits n r d = frac_digits m r d"
  using assms
proof (induction m arbitrary: r n)
  case 0
  then show ?case by (cases n) simp_all
next
  case (Suc m)
  then obtain n' where n: "n = Suc n'" "m \<le> n'" by (cases n) auto
  have pos: "0 < d" using Suc.prems(1) by simp
  have "(10 ^ m * (10 * r mod d)) mod d = (10 ^ m * (10 * r)) mod d"
    by (simp add: mod_mult_right_eq)
  also have "10 ^ m * (10 * r) = 10 ^ Suc m * r"
    by simp
  finally have step: "(10 ^ m * (10 * r mod d)) mod d = (10 ^ Suc m * r) mod d" .
  then have "frac_digits n' (10 * r mod d) d = frac_digits m (10 * r mod d) d"
    using Suc.IH [of "10 * r mod d" n'] Suc.prems(2) n(2) pos step by simp
  then show ?case using n(1) by simp
qed

lemma frac_digits_dyadic:
  assumes "r < 2 ^ j" "j \<le> n"
  shows "frac_digits n r (2 ^ j) = frac_digits j r (2 ^ j)"
proof -
  have "2 ^ j dvd (10::nat) ^ j"
    by (rule dvd_power_same) simp
  then have "(10 ^ j * r) mod 2 ^ j = 0"
    by (simp add: dvd_mult2 dvd_imp_mod_0)
  then show ?thesis by (rule frac_digits_stops [OF assms(1) _ assms(2)])
qed

section \<open>Number ToString on integers and at the boundaries\<close>

lemma frac_digits_zero [simp]: "frac_digits n 0 d = []"
  by (cases n) simp_all

lemma length_nat_to_string: "n < 10 ^ k \<Longrightarrow> 0 < k \<Longrightarrow> length (nat_to_string n) \<le> k"
proof (induction n arbitrary: k rule: nat_to_string.induct)
  case (1 n)
  show ?case
  proof (cases "n < 10")
    case True
    then show ?thesis using 1(3) nat_to_string.simps [of n] by simp
  next
    case False
    obtain k' where k1: "k = Suc k'" using 1(3) by (cases k) auto
    have k2: "0 < k'"
    proof (rule ccontr)
      assume "\<not> 0 < k'"
      then show False using 1(2) k1 False by simp
    qed
    note k = k1 k2
    have "n div 10 < 10 ^ k'" using 1(2) k(1) by (simp add: div_less_iff_less_mult mult.commute)
    then have "length (nat_to_string (n div 10)) \<le> k'" using 1(1) False k(2) by blast
    then show ?thesis using False k(1) nat_to_string.simps [of n] by simp
  qed
qed

lemma strip_zeros_pad:
  "strip_zeros s @ replicate (length s - length (strip_zeros s)) CHR ''0'' = s"
proof -
  let ?P = "\<lambda>c. c = CHR ''0''"
  let ?t = "takeWhile ?P (rev s)" and ?d = "dropWhile ?P (rev s)"
  have t: "?t = replicate (length ?t) CHR ''0''"
    by (rule replicate_length_same [symmetric]) (auto dest: set_takeWhileD)
  have "rev s = ?t @ ?d" by simp
  then have "s = rev ?d @ rev ?t" by (metis rev_append rev_rev_ident)
  also have "rev ?t = replicate (length ?t) CHR ''0''" by (subst t) simp
  finally have s: "s = rev ?d @ replicate (length ?t) CHR ''0''" .
  have "length s - length (strip_zeros s) = length ?t"
    by (subst (1) s) (simp add: strip_zeros_def)
  then show ?thesis using s by (simp add: strip_zeros_def)
qed

lemma js_to_string_nat: "n < 10 ^ 21 \<Longrightarrow> js_to_string (JNum (of_nat n)) = nat_to_string n"
proof (cases "n = 0")
  case True
  then show ?thesis using nat_to_string.simps [of 0] by (simp add: rat_to_string_def digit_char_def)
next
  case False
  assume lt: "n < 10 ^ 21"
  let ?s = "nat_to_string n"
  have len: "length ?s \<le> 21" using length_nat_to_string [OF lt] by simp
  have k: "length (strip_zeros ?s) \<le> length ?s"
    unfolding strip_zeros_def using length_dropWhile_le [of _ "rev ?s"] by simp
  have "format_decimal (strip_zeros ?s) (int (length ?s)) = ?s"
    using len k strip_zeros_pad [of ?s] by (simp add: format_decimal_def Let_def nat_diff_distrib')
  then show ?thesis using False
    by (simp add: rat_to_string_def decimal_parts_def)
qed

lemma quotient_of_frac: "0 < b \<Longrightarrow> quotient_of (of_int a / of_int b) = Rat.normalize (a, b)"
  by (simp add: Fract_of_int_quotient [symmetric] quotient_of_Fract)

lemma quotient_of_numeral_div:
  "quotient_of (numeral a / numeral b) = Rat.normalize (numeral a, numeral b)"
  "quotient_of (- (numeral a / numeral b)) = Rat.normalize (- numeral a, numeral b)"
  "quotient_of (1 / numeral b) = Rat.normalize (1, numeral b)"
  using quotient_of_frac [of "numeral b" "numeral a"] quotient_of_frac [of "numeral b" "- numeral a"]
    quotient_of_frac [of "numeral b" 1] by simp_all

lemma frac_digits_numeral:
  "frac_digits (numeral n) r d =
     (if r = 0 then [] else digit_char (10 * r div d) # frac_digits (pred_numeral n) (10 * r mod d) d)"
  by (simp add: numeral_eq_Suc)

lemma replicate_numeral_Cons: "replicate (numeral n) x = x # replicate (pred_numeral n) x"
  by (simp add: numeral_eq_Suc)

text \<open>
  Two boundary cases of Number::toString: \<open>1e21\<close> is the first integer printed in
  exponent notation and \<open>1e-7\<close> the first power of ten below 1 that is.
\<close>

lemma rat_to_string_boundaries:
  "rat_to_string (10 ^ 21) = ''1e+21''"
  "rat_to_string (1 / 10 ^ 7) = ''1e-7''"
  by (simp_all add: rat_to_string_def decimal_parts_def format_decimal_def exp_string_def strip_zeros_def
      Let_def nat_to_string.simps digit_char_def frac_digits_numeral replicate_numeral_Cons
      quotient_of_numeral_div Rat.normalize_def)

end
