(* ===== verification/Guid.thy ===== *)
theory Guid
  imports JsValue
begin

text \<open>
  The Identity Deriver of the Insteon lightbulb translator (\<open>generateGUID\<close>,
  src/org.opent2t.sample.lamp.superpopular/com.insteon.lightbulb/js/thingTranslator.js,
  lines 41--44): the SHA-1 digest of \<open>'Insteon' + stringID\<close> as lower-case hex,
  cut into the groups 8-4-4-4-12. The digest function of Node's crypto module is a
  parameter \<open>sha1\<close> (a library the source only calls); everything after it is modelled.
  The theory proves the shape of every identity, a decoder that recovers the first
  128 bits of the digest from the identity, and from it that two identities are equal
  exactly when the 128-bit digest prefixes are. Because the id is joined with \<open>+\<close>, a
  numeric control id below \<open>10^21\<close> and its decimal string give the same identity.
\<close>

type_synonym digest_fn = "string \<Rightarrow> 8 word list"

section \<open>Hex digest and \<open>substr\<close>\<close>

definition hex_digits :: string where
  "hex_digits = ''0123456789abcdef''"

definition hex_char :: "nat \<Rightarrow> char" where
  "hex_char n = hex_digits ! n"

text \<open>\<open>digest('hex')\<close>: two lower-case hex digits per byte, high nibble first.\<close>

definition byte_hex :: "8 word \<Rightarrow> string" where
  "byte_hex b = [hex_char (unat b div 16), hex_char (unat b mod 16)]"

definition hex_digest :: "8 word list \<Rightarrow> string" where
  "hex_digest bs = concat (map byte_hex bs)"

text \<open>\<open>s.substr(start, length)\<close> for non-negative arguments: both clamp at the end.\<close>

definition js_substr :: "string \<Rightarrow> nat \<Rightarrow> nat \<Rightarrow> string" where
  "js_substr s start len = take len (drop start s)"

section \<open>generateGUID\<close>

definition guid_format :: "string \<Rightarrow> string" where
  "guid_format guid =
     js_substr guid 0 8 @ ''-'' @ js_substr guid 8 4 @ ''-'' @ js_substr guid 12 4 @ ''-'' @
     js_substr guid 16 4 @ ''-'' @ js_substr guid 20 12"

definition generateGUID :: "digest_fn \<Rightarrow> jval \<Rightarrow> string" where
  "generateGUID sha1 stringID =
     guid_format (hex_digest (sha1 (js_to_string (js_add (JStr ''Insteon'') stringID))))"

section \<open>Decoding an identity\<close>

text \<open>
  The inverse direction is not in the source; it is the specification-side decoder
  through which injectivity is stated.
\<close>

definition hex_val :: "char \<Rightarrow> nat option" where
  "hex_val c = map_of (zip hex_digits [0..<16]) c"

fun unhex :: "string \<Rightarrow> 8 word list option" where
  "unhex [] = Some []"
| "unhex [c] = None"
| "unhex (a # b # r) =
     (case (hex_val a, hex_val b) of
        (Some x, Some y) \<Rightarrow> map_option (\<lambda>bs. word_of_nat (16 * x + y) # bs) (unhex r)
      | _ \<Rightarrow> None)"

definition is_guid_shape :: "string \<Rightarrow> bool" where
  "is_guid_shape g \<longleftrightarrow> length g = 36 \<and> g ! 8 = CHR ''-'' \<and> g ! 13 = CHR ''-'' \<and>
     g ! 18 = CHR ''-'' \<and> g ! 23 = CHR ''-''"

definition guid_hex :: "string \<Rightarrow> string" where
  "guid_hex g = take 8 g @ take 4 (drop 9 g) @ take 4 (drop 14 g) @ take 4 (drop 19 g) @ drop 24 g"

definition guid_decode :: "string \<Rightarrow> 8 word list option" where
  "guid_decode g = (if is_guid_shape g then unhex (guid_hex g) else None)"

text \<open>A fixed stand-in digest of SHA-1's length, for the example instances below.\<close>

definition demo_digest :: digest_fn where
  "demo_digest s = map (\<lambda>i. word_of_nat (i + length s)) [0..<20]"

section \<open>Hex digest lemmas\<close>

lemma hex_val_hex_char: "n < 16 \<Longrightarrow> hex_val (hex_char n) = Some n"
proof -
  have "list_all (\<lambda>n. hex_val (hex_char n) = Some n) [0..<16]"
    by code_simp
  moreover assume "n < 16"
  ultimately show ?thesis by (simp add: list_all_iff)
qed

lemma hex_char_mem: "n < 16 \<Longrightarrow> hex_char n \<in> set hex_digits"
  unfolding hex_char_def by (rule nth_mem) (simp add: hex_digits_def)

lemma byte_nibbles: "unat (b :: 8 word) div 16 < 16" "unat b mod 16 < 16"
  using unsigned_less [of b, where ?'a = nat] by simp_all

lemma byte_hex_length [simp]: "length (byte_hex b) = 2"
  by (simp add: byte_hex_def)

lemma length_hex_digest [simp]: "length (hex_digest bs) = 2 * length bs"
  by (simp add: hex_digest_def concat_map_fixed_length)

lemma set_hex_digest: "set (hex_digest bs) \<subseteq> set hex_digits"
  by (auto simp: hex_digest_def byte_hex_def hex_char_mem byte_nibbles)

lemma take_hex_digest: "take (2 * n) (hex_digest bs) = hex_digest (take n bs)"
  unfolding hex_digest_def by (rule take_concat_fixed) simp

lemma unhex_byte_hex: "unhex (byte_hex b @ r) = map_option (\<lambda>bs. b # bs) (unhex r)"
proof -
  have "word_of_nat (16 * (unat b div 16) + unat b mod 16) = b"
    by simp
  with byte_nibbles show ?thesis
    by (simp add: byte_hex_def hex_val_hex_char)
qed

lemma unhex_hex_digest: "unhex (hex_digest bs) = Some bs"
  by (induction bs) (simp_all add: hex_digest_def unhex_byte_hex)

section \<open>Shape and decoding of formatted identities\<close>

lemma guid_format_pieces:
  assumes "32 \<le> length h"
  shows "guid_hex (guid_format h) = take 32 h \<and> is_guid_shape (guid_format h)"
proof -
  have "take 32 h = take 8 h @ take 4 (drop 8 h) @ take 4 (drop 12 h) @ take 4 (drop 16 h) @
                    take 12 (drop 20 h)"
    using take_add [of 8 24 h] take_add [of 4 20 "drop 8 h"] take_add [of 4 16 "drop 12 h"]
      take_add [of 4 12 "drop 16 h"] by simp
  then show ?thesis using assms
    by (simp add: guid_hex_def guid_format_def js_substr_def is_guid_shape_def nth_append min_def)
      linarith
qed

lemma set_guid_format: "set (guid_format h) \<subseteq> set h \<union> {CHR ''-''}"
  by (auto simp: guid_format_def js_substr_def dest: in_set_takeD in_set_dropD)

lemma guid_format_take32: "guid_format h = guid_format (take 32 h)"
  by (simp add: guid_format_def js_substr_def take_drop min_def)

lemma guid_format_hex_take: "guid_format (hex_digest bs) = guid_format (hex_digest (take 16 bs))"
  using guid_format_take32 [of "hex_digest bs"] take_hex_digest [of 16 bs] by simp

lemma guid_decode_format:
  assumes "16 \<le> length bs"
  shows "guid_decode (guid_format (hex_digest bs)) = Some (take 16 bs)"
proof -
  from assms have "32 \<le> length (hex_digest bs)" by simp
  then have "guid_hex (guid_format (hex_digest bs)) = take 32 (hex_digest bs)"
    and "is_guid_shape (guid_format (hex_digest bs))"
    using guid_format_pieces by blast+
  moreover have "take 32 (hex_digest bs) = hex_digest (take 16 bs)"
    using take_hex_digest [of 16 bs] by simp
  ultimately show ?thesis by (simp add: guid_decode_def unhex_hex_digest)
qed

text \<open>What \<open>generateGUID\<close> hashes: the namespace tag followed by ToString of the id.\<close>

lemma generateGUID_eq:
  "generateGUID sha1 v = guid_format (hex_digest (sha1 (''Insteon'' @ js_to_string v)))"
  by (simp add: generateGUID_def)

lemma generateGUID_length:
  "16 \<le> length (sha1 (''Insteon'' @ js_to_string v)) \<Longrightarrow> length (generateGUID sha1 v) = 36"
  using guid_format_pieces [of "hex_digest (sha1 (''Insteon'' @ js_to_string v))"]
  by (simp add: generateGUID_eq is_guid_shape_def)

lemma demo_digest_length [simp]: "length (demo_digest s) = 20"
  by (simp add: demo_digest_def)

section \<open>Properties of generateGUID\<close>

text \<open>
  C36 (round trip): whenever the digest has at least 128 bits (SHA-1 has 160), the
  identity decodes back to the first 16 bytes of the digest of \<open>'Insteon' + id\<close>.
\<close>

theorem generateGUID_decode:
  assumes "16 \<le> length (sha1 (''Insteon'' @ js_to_string v))"
  shows "guid_decode (generateGUID sha1 v) = Some (take 16 (sha1 (''Insteon'' @ js_to_string v)))"
  using assms by (simp add: generateGUID_eq guid_decode_format)

theorem generateGUID_decode_witness:
  "16 \<le> length (demo_digest (''Insteon'' @ js_to_string (JStr ''X1''))) \<and>
   guid_decode (generateGUID demo_digest (JStr ''X1'')) =
     Some (take 16 (demo_digest (''Insteon'' @ js_to_string (JStr ''X1''))))"
  using generateGUID_decode [of demo_digest "JStr ''X1''"] by (simp add: demo_digest_def)

text \<open>
  Injectivity: two device ids get the same identity exactly when the 128-bit prefixes
  of the digests of \<open>'Insteon' + id\<close> agree; distinct identities are never merged by
  the formatting, and a collision needs a collision of the truncated digest.
\<close>

theorem generateGUID_eq_iff:
  assumes "16 \<le> length (sha1 (''Insteon'' @ js_to_string a))"
      and "16 \<le> length (sha1 (''Insteon'' @ js_to_string b))"
  shows "generateGUID sha1 a = generateGUID sha1 b \<longleftrightarrow>
         take 16 (sha1 (''Insteon'' @ js_to_string a)) = take 16 (sha1 (''Insteon'' @ js_to_string b))"
proof
  assume "generateGUID sha1 a = generateGUID sha1 b"
  then have "guid_decode (generateGUID sha1 a) = guid_decode (generateGUID sha1 b)" by simp
  with assms show "take 16 (sha1 (''Insteon'' @ js_to_string a)) = take 16 (sha1 (''Insteon'' @ js_to_string b))"
    by (simp add: generateGUID_eq guid_decode_format)
next
  assume "take 16 (sha1 (''Insteon'' @ js_to_string a)) = take 16 (sha1 (''Insteon'' @ js_to_string b))"
  then show "generateGUID sha1 a = generateGUID sha1 b"
    by (metis generateGUID_eq guid_format_hex_take)
qed

theorem generateGUID_eq_iff_witness:
  "16 \<le> length (demo_digest (''Insteon'' @ js_to_string (JStr ''X1''))) \<and>
   16 \<le> length (demo_digest (''Insteon'' @ js_to_string (JStr ''X22''))) \<and>
   generateGUID demo_digest (JStr ''X1'') \<noteq> generateGUID demo_digest (JStr ''X22'')"
proof -
  have l: "16 \<le> length (demo_digest (''Insteon'' @ js_to_string (JStr ''X1'')))"
          "16 \<le> length (demo_digest (''Insteon'' @ js_to_string (JStr ''X22'')))"
    by (simp_all add: demo_digest_def)
  have "take 16 (demo_digest (''Insteon'' @ js_to_string (JStr ''X1''))) \<noteq>
        take 16 (demo_digest (''Insteon'' @ js_to_string (JStr ''X22'')))"
    by (simp add: demo_digest_def upt_rec)
  with generateGUID_eq_iff [OF l] l show ?thesis by simp
qed

text \<open>
  Format: every identity is 36 characters of lower-case hex digits with hyphens at
  positions 8, 13, 18 and 23 (the 8-4-4-4-12 grouping).
\<close>

theorem generateGUID_shape:
  assumes "16 \<le> length (sha1 (''Insteon'' @ js_to_string v))"
  shows "is_guid_shape (generateGUID sha1 v) \<and> set (generateGUID sha1 v) \<subseteq> set (hex_digits @ ''-'')"
proof -
  from assms have "32 \<le> length (hex_digest (sha1 (''Insteon'' @ js_to_string v)))" by simp
  then have "is_guid_shape (generateGUID sha1 v)"
    using guid_format_pieces by (simp add: generateGUID_eq)
  moreover have "set (generateGUID sha1 v) \<subseteq> set (hex_digits @ ''-'')"
    using set_guid_format set_hex_digest by (fastforce simp: generateGUID_eq)
  ultimately show ?thesis ..
qed

theorem generateGUID_shape_witness:
  "16 \<le> length (demo_digest (''Insteon'' @ js_to_string (JStr ''X1''))) \<and>
   is_guid_shape (generateGUID demo_digest (JStr ''X1'')) \<and>
   set (generateGUID demo_digest (JStr ''X1'')) \<subseteq> set (hex_digits @ ''-'')"
  using generateGUID_shape [of demo_digest "JStr ''X1''"] by (simp add: demo_digest_def)

text \<open>
  C37 (numeric and string ids collide): the tag and the id are joined by \<open>+\<close>, so the
  id is first converted by ToString. Every natural number below \<open>10^21\<close> (the range
  Number::toString prints as plain digits) gets the same identity as its decimal string,
  whatever the digest: the numeric id \<open>5\<close> and the string id \<open>'5'\<close> are one device.
\<close>

theorem generateGUID_number_collision:
  assumes "n < 10 ^ 21"
  shows "generateGUID sha1 (JNum (of_nat n)) = generateGUID sha1 (JStr (nat_to_string n))"
  using js_to_string_nat [OF assms] by (simp add: generateGUID_eq)

theorem generateGUID_number_collision_witness:
  "(5::nat) < 10 ^ 21 \<and> generateGUID demo_digest (JNum 5) = generateGUID demo_digest (JStr ''5'')"
  using generateGUID_number_collision [of 5 demo_digest]
  by (simp add: nat_to_string.simps [of 5] digit_char_def)

end
