(* ===== verification/InsteonLightbulb.thy ===== *)
theory InsteonLightbulb
  imports Guid
begin

text \<open>
  The Insteon lightbulb translator,
  src/org.opent2t.sample.lamp.superpopular/com.insteon.lightbulb/js/thingTranslator.js:
  the Resource Locator \<open>findResource\<close>, the Schema Normalizer
  \<open>providerSchemaToPlatformSchema\<close>, the Reverse Mapper
  \<open>resourceSchemaToProviderSchema\<close>, the module-level variables \<open>controlId\<close> and
  \<open>insteonHub\<close> as a record, and the methods of the \<open>Translator\<close> class as operations
  on that record and on the state of the hub, an external collaborator reached through
  \<open>hub_env\<close>. A promise is modelled by its outcome: the call of an asynchronous hub
  method returns the next hub state and either the resolved value or the error it is
  rejected with, and a \<open>.then\<close> continuation runs on the resolved value.
\<close>

section \<open>Resource Locator\<close>

definition findResource :: "jval \<Rightarrow> jval \<Rightarrow> jval \<Rightarrow> jval js" where
  "findResource schema di resourceId =
     bindE (js_get schema ''entities'') (\<lambda>es. bindE (js_array es ''find'') (\<lambda>esl.
     bindE (js_find (js_prop_seq ''di'' di) esl) (\<lambda>entity.
     if \<not> js_truthy entity then Inl (Error (''Entity - '' @ js_to_string di @ '' not found.''))
     else bindE (js_get entity ''resources'') (\<lambda>rs. bindE (js_array rs ''find'') (\<lambda>rsl.
          bindE (js_find (js_prop_seq ''id'' resourceId) rsl) (\<lambda>resource.
          if \<not> js_truthy resource
          then Inl (Error (''Resource with resourceId '' @ [CHR 0x22] @ js_to_string resourceId @
                           [CHR 0x22] @ '' not found.''))
          else Inr resource))))))"

section \<open>Schema Normalizer\<close>

definition power_base :: "(string \<times> jval) list" where
  "power_base =
     [(''href'', JStr ''/power''), (''rt'', JArr [JStr ''oic.r.switch.binary'']),
      (''if'', JArr [JStr ''oic.if.a'', JStr ''oic.if.baseline''])]"

definition dim_base :: "(string \<times> jval) list" where
  "dim_base =
     [(''href'', JStr ''/dim''), (''rt'', JArr [JStr ''oic.r.light.dimming'']),
      (''if'', JArr [JStr ''oic.if.a'', JStr ''oic.if.baseline''])]"

text \<open>The two resources, with the values filled in when \<open>expand\<close> is truthy.\<close>

definition lamp_resources :: "jval \<Rightarrow> jval \<Rightarrow> ((string \<times> jval) list \<times> (string \<times> jval) list) js" where
  "lamp_resources providerSchema expand =
     (if js_truthy expand then
        bindE (js_get providerSchema ''Power'') (\<lambda>pw. bindE (js_get providerSchema ''Level'') (\<lambda>lvl.
          Inr (set_prop (set_prop power_base ''id'' (JStr ''power'')) ''value'' (JBool (js_seq pw (JStr ''on''))),
               set_prop (set_prop (set_prop dim_base ''id'' (JStr ''dim'')) ''dimmingSetting'' lvl)
                 ''range'' (JArr [JNum 0, JNum 100]))))
      else Inr (power_base, dim_base))"

text \<open>The platform object literal the normalizer returns.\<close>

definition platform_literal ::
  "jval \<Rightarrow> jval \<Rightarrow> jval \<Rightarrow> (string \<times> jval) list \<Rightarrow> (string \<times> jval) list \<Rightarrow> jval" where
  "platform_literal guid deviceId name powerRes dimRes =
     JObj
       [(''opent2t'', JObj [(''schema'', JStr ''org.opent2t.sample.lamp.superpopular''),
                           (''translator'', JStr ''opent2t-translator-com-insteon-lightbulb''),
                           (''controlId'', deviceId)]),
        (''pi'', guid),
        (''mnmn'', JStr ''Undefined''),
        (''mnmo'', JStr ''Undefined''),
        (''n'', name),
        (''rt'', JArr [JStr ''org.opent2t.sample.lamp.superpopular'']),
        (''entities'', JArr
           [JObj [(''rt'', JArr [JStr ''opent2t.d.light'']),
                  (''di'', guid),
                  (''icv'', JStr ''core.1.1.0''),
                  (''dmv'', JStr ''res.1.1.0''),
                  (''resources'', JArr [JObj powerRes, JObj dimRes])]])]"

definition providerSchemaToPlatformSchema :: "digest_fn \<Rightarrow> jval \<Rightarrow> jval \<Rightarrow> jval js" where
  "providerSchemaToPlatformSchema sha1 providerSchema expand =
     bindE (lamp_resources providerSchema expand) (\<lambda>(powerRes, dimRes).
     bindE (js_get providerSchema ''DeviceID'') (\<lambda>deviceId.
     let guid = JStr (generateGUID sha1 deviceId) in
     bindE (js_get providerSchema ''DeviceName'') (\<lambda>name.
     Inr (platform_literal guid deviceId name powerRes dimRes))))"

section \<open>Reverse Mapper\<close>

definition resourceSchemaToProviderSchema :: "jval \<Rightarrow> jval \<Rightarrow> jval js" where
  "resourceSchemaToProviderSchema resourceId resourceSchema =
     (if js_seq resourceId (JStr ''power'') then
        bindE (js_get resourceSchema ''value'') (\<lambda>v.
          Inr (JObj [(''command'', JStr (if js_truthy v then ''on'' else ''off''))]))
      else if js_seq resourceId (JStr ''dim'') then
        bindE (js_get resourceSchema ''dimmingSetting'') (\<lambda>d.
          Inr (JObj [(''command'', JStr (if js_gt_num d 0 then ''on'' else ''off'')), (''level'', d)]))
      else if js_seq resourceId (JStr ''n'') then
        bindE (js_get resourceSchema ''n'') (\<lambda>n. Inr (JObj [(''DeviceName'', n)]))
      else Inl (Error ''Invalid resourceId''))"

section \<open>Module state and the hub interface\<close>

text \<open>
  \<open>var controlId; var insteonHub;\<close> are module-level: every \<open>Translator\<close> instance of
  the module reads and writes the same two variables, so the record below is the whole
  state of all instances together.
\<close>

record insteon_module =
  controlId :: jval
  insteonHub :: jval

definition insteon_module_init :: insteon_module where
  "insteon_module_init = \<lparr>controlId = JUndef, insteonHub = JUndef\<rparr>"

text \<open>The methods the translator calls on the hub object it was given.\<close>

datatype hub_call =
    GetDeviceDetailsAsync jval
  | PutDeviceDetailsAsync jval jval
  | PostSubscribe jval
  | Unsubscribe jval

fun hub_method :: "hub_call \<Rightarrow> string" where
  "hub_method (GetDeviceDetailsAsync _) = ''getDeviceDetailsAsync''"
| "hub_method (PutDeviceDetailsAsync _ _) = ''putDeviceDetailsAsync''"
| "hub_method (PostSubscribe _) = ''postSubscribe''"
| "hub_method (Unsubscribe _) = ''_unsubscribe''"

text \<open>
  The behaviour of the hub objects: \<open>env n c w\<close> runs method call \<open>c\<close> on the host
  object \<open>JHost n\<close> in hub state \<open>w\<close>. Calling a method on anything that is not a
  host object throws a TypeError (reading it from \<open>undefined\<close>, or calling a
  non-function).
\<close>

type_synonym 'w hub_env = "nat \<Rightarrow> hub_call \<Rightarrow> 'w \<Rightarrow> 'w \<times> jval js"

definition call_hub :: "'w hub_env \<Rightarrow> jval \<Rightarrow> hub_call \<Rightarrow> 'w \<Rightarrow> 'w \<times> jval js" where
  "call_hub env hub c w = (case hub of JHost n \<Rightarrow> env n c w | _ \<Rightarrow> (w, Inl (TypeError (hub_method c))))"

text \<open>A \<open>.then\<close> continuation after a hub call.\<close>

definition then_hub :: "'w \<times> jval js \<Rightarrow> (jval \<Rightarrow> jval js) \<Rightarrow> 'w \<times> jval js" where
  "then_hub r f = (case r of (w', x) \<Rightarrow> (w', bindE x f))"

section \<open>The Translator class\<close>

text \<open>\<open>constructor(deviceInfo)\<close>.\<close>

definition lightbulb_Translator :: "jval \<Rightarrow> insteon_module \<Rightarrow> insteon_module js" where
  "lightbulb_Translator deviceInfo m =
     bindE (validateArgumentType deviceInfo ''deviceInfo'' ''object'') (\<lambda>_.
     bindE (js_get deviceInfo ''deviceInfo'') (\<lambda>info.
     bindE (js_get info ''opent2t'') (\<lambda>ot.
     bindE (js_get ot ''controlId'') (\<lambda>cid.
     bindE (js_get deviceInfo ''hub'') (\<lambda>hub.
     Inr (m\<lparr>controlId := cid, insteonHub := hub\<rparr>))))))"

text \<open>\<open>get(expand, payload)\<close>: a truthy payload is normalized directly, otherwise the hub is asked.\<close>

definition lightbulb_get ::
  "digest_fn \<Rightarrow> 'w hub_env \<Rightarrow> jval \<Rightarrow> jval \<Rightarrow> insteon_module \<Rightarrow> 'w \<Rightarrow> 'w \<times> jval js" where
  "lightbulb_get sha1 env expand payload m w =
     (if js_truthy payload then (w, providerSchemaToPlatformSchema sha1 payload expand)
      else then_hub (call_hub env (insteonHub m) (GetDeviceDetailsAsync (controlId m)) w)
             (\<lambda>response. providerSchemaToPlatformSchema sha1 response expand))"

definition getDeviceResource ::
  "digest_fn \<Rightarrow> 'w hub_env \<Rightarrow> jval \<Rightarrow> jval \<Rightarrow> insteon_module \<Rightarrow> 'w \<Rightarrow> 'w \<times> jval js" where
  "getDeviceResource sha1 env di resourceId m w =
     then_hub (lightbulb_get sha1 env (JBool True) JUndef m w)
       (\<lambda>response. findResource response di resourceId)"

text \<open>
  \<open>postDeviceResource(di, resourceId, payload)\<close>: only when \<open>di\<close> is the identity of
  the current control id is the update sent; otherwise the method returns \<open>undefined\<close>.
\<close>

definition postDeviceResource ::
  "digest_fn \<Rightarrow> 'w hub_env \<Rightarrow> jval \<Rightarrow> jval \<Rightarrow> jval \<Rightarrow> insteon_module \<Rightarrow> 'w \<Rightarrow> 'w \<times> jval js" where
  "postDeviceResource sha1 env di resourceId payload m w =
     (if js_seq di (JStr (generateGUID sha1 (controlId m))) then
        (case resourceSchemaToProviderSchema resourceId payload of
           Inl e \<Rightarrow> (w, Inl e)
         | Inr putPayload \<Rightarrow>
             then_hub (call_hub env (insteonHub m) (PutDeviceDetailsAsync (controlId m) putPayload) w)
               (\<lambda>response. bindE (providerSchemaToPlatformSchema sha1 response (JBool True))
                              (\<lambda>schema. findResource schema di resourceId)))
      else (w, Inr JUndef))"

text \<open>The per-property methods.\<close>

definition getDevicesPower where
  "getDevicesPower sha1 env deviceId = getDeviceResource sha1 env deviceId (JStr ''power'')"

definition postDevicesPower where
  "postDevicesPower sha1 env deviceId payload = postDeviceResource sha1 env deviceId (JStr ''power'') payload"

definition getDevicesColourMode where
  "getDevicesColourMode sha1 env deviceId = getDeviceResource sha1 env deviceId (JStr ''colourMode'')"

definition getDevicesColourRGB where
  "getDevicesColourRGB sha1 env deviceId = getDeviceResource sha1 env deviceId (JStr ''colourRgb'')"

definition postDevicesColourRGB where
  "postDevicesColourRGB sha1 env deviceId payload = postDeviceResource sha1 env deviceId (JStr ''colourRgb'') payload"

definition getDevicesDim where
  "getDevicesDim sha1 env deviceId = getDeviceResource sha1 env deviceId (JStr ''dim'')"

definition postDevicesDim where
  "postDevicesDim sha1 env deviceId payload = postDeviceResource sha1 env deviceId (JStr ''dim'') payload"

definition getDevicesColourChroma where
  "getDevicesColourChroma sha1 env deviceId = getDeviceResource sha1 env deviceId (JStr ''colourChroma'')"

definition postDevicesColourChroma where
  "postDevicesColourChroma sha1 env deviceId payload =
     postDeviceResource sha1 env deviceId (JStr ''colourChroma'') payload"

definition postSubscribe :: "'w hub_env \<Rightarrow> jval \<Rightarrow> insteon_module \<Rightarrow> 'w \<Rightarrow> 'w \<times> jval js" where
  "postSubscribe env subscriptionInfo m w = call_hub env (insteonHub m) (PostSubscribe subscriptionInfo) w"

definition deleteSubscribe :: "'w hub_env \<Rightarrow> jval \<Rightarrow> insteon_module \<Rightarrow> 'w \<Rightarrow> 'w \<times> jval js" where
  "deleteSubscribe env subscriptionInfo m w = call_hub env (insteonHub m) (Unsubscribe subscriptionInfo) w"

section \<open>A conforming Insteon hub\<close>

text \<open>
  The Insteon hub translator is not part of the sources. Its contract (the spec's
  \<open>fetchDeviceState\<close> and \<open>applyDeviceUpdate\<close> followed by a re-fetch) is modelled by a
  hub holding one device record: a read returns the record; a write applies
  \<open>command\<close> to \<open>Power\<close>, \<open>level\<close> to \<open>Level\<close> and \<open>DeviceName\<close> to
  \<open>DeviceName\<close>, and returns the updated record.
\<close>

definition insteon_apply :: "jval \<Rightarrow> jval \<Rightarrow> jval" where
  "insteon_apply upd dev =
     (case (upd, dev) of
        (JObj u, JObj d) \<Rightarrow>
          (let d1 = (case map_of u ''command'' of Some c \<Rightarrow> set_prop d ''Power'' c | None \<Rightarrow> d);
               d2 = (case map_of u ''level'' of Some l \<Rightarrow> set_prop d1 ''Level'' l | None \<Rightarrow> d1);
               d3 = (case map_of u ''DeviceName'' of Some n \<Rightarrow> set_prop d2 ''DeviceName'' n | None \<Rightarrow> d2)
           in JObj d3)
      | _ \<Rightarrow> dev)"

fun insteon_hub :: "jval hub_env" where
  "insteon_hub n (GetDeviceDetailsAsync cid) dev = (dev, Inr dev)"
| "insteon_hub n (PutDeviceDetailsAsync cid upd) dev = (insteon_apply upd dev, Inr (insteon_apply upd dev))"
| "insteon_hub n (PostSubscribe info) dev = (dev, Inr JUndef)"
| "insteon_hub n (Unsubscribe info) dev = (dev, Inr JUndef)"

section \<open>Example inputs\<close>

text \<open>The vendor payload of the spec's scenario, and a module state controlling that device.\<close>

definition lamp_payload :: jval where
  "lamp_payload =
     JObj [(''DeviceID'', JStr ''X1''), (''DeviceName'', JStr ''Lamp''), (''Power'', JStr ''on''),
           (''Level'', JNum 50)]"

definition lamp_module :: insteon_module where
  "lamp_module = \<lparr>controlId = JStr ''X1'', insteonHub = JHost 0\<rparr>"

section \<open>Closed forms of the normalizer\<close>

text \<open>The two resources as the normalizer builds them from a payload that is an object.\<close>

definition lamp_values :: "jval \<Rightarrow> jval \<Rightarrow> (string \<times> jval) list \<times> (string \<times> jval) list" where
  "lamp_values p e =
     (if js_truthy e then
        (power_base @ [(''id'', JStr ''power''), (''value'', JBool (js_seq (prop_of p ''Power'') (JStr ''on'')))],
         dim_base @ [(''id'', JStr ''dim''), (''dimmingSetting'', prop_of p ''Level''),
                     (''range'', JArr [JNum 0, JNum 100])])
      else (power_base, dim_base))"

text \<open>
  A hub wrapper that records every method call in order, so that what the translator sends
  to the vendor can be stated as a sequence of calls.
\<close>

definition logged_hub :: "'w hub_env \<Rightarrow> (hub_call list \<times> 'w) hub_env" where
  "logged_hub env n c s = (case env n c (snd s) of (w', r) \<Rightarrow> ((fst s @ [c], w'), r))"

text \<open>
  The value-carrying keys of a resource, and the graph with them removed from every
  resource: the specification's "same topology, only the values differ".
\<close>

definition value_keys :: "string list" where
  "value_keys = [''id'', ''value'', ''dimmingSetting'', ''range'']"

fun strip_values :: "jval \<Rightarrow> jval" where
  "strip_values (JObj kvs) = JObj (filter (\<lambda>kv. fst kv \<notin> set value_keys) kvs)"
| "strip_values v = v"

definition map_prop :: "string \<Rightarrow> (jval \<Rightarrow> jval) \<Rightarrow> jval \<Rightarrow> jval" where
  "map_prop k f v =
     (case v of JObj kvs \<Rightarrow> JObj (map (\<lambda>(k', x). if k' = k then (k', f x) else (k', x)) kvs) | _ \<Rightarrow> v)"

definition map_elems :: "(jval \<Rightarrow> jval) \<Rightarrow> jval \<Rightarrow> jval" where
  "map_elems f v = (case v of JArr xs \<Rightarrow> JArr (map f xs) | _ \<Rightarrow> v)"

definition strip_resource_values :: "jval \<Rightarrow> jval" where
  "strip_resource_values =
     map_prop ''entities'' (map_elems (map_prop ''resources'' (map_elems strip_values)))"

text \<open>
  The shape the specification's data model gives a platform graph, as a check on a
  value: a platform has a string identity \<open>pi\<close>, its type tags and a non-empty array
  of entities. An entity has a string id \<open>di\<close> and an array of resources with distinct
  ids. A resource has a string \<open>id\<close> and arrays of string type and interface tags.
\<close>

definition is_str :: "jval \<Rightarrow> bool" where
  "is_str v = (case v of JStr _ \<Rightarrow> True | _ \<Rightarrow> False)"

definition is_str_array :: "jval \<Rightarrow> bool" where
  "is_str_array v = (case v of JArr xs \<Rightarrow> list_all is_str xs | _ \<Rightarrow> False)"

definition is_resource :: "jval \<Rightarrow> bool" where
  "is_resource r = (case r of
     JObj _ \<Rightarrow> is_str (prop_of r ''id'') \<and> is_str_array (prop_of r ''rt'') \<and> is_str_array (prop_of r ''if'')
   | _ \<Rightarrow> False)"

definition is_entity :: "jval \<Rightarrow> bool" where
  "is_entity en = (case en of
     JObj _ \<Rightarrow> is_str (prop_of en ''di'') \<and>
       (case prop_of en ''resources'' of
          JArr rs \<Rightarrow> list_all is_resource rs \<and> distinct (map (\<lambda>r. prop_of r ''id'') rs)
        | _ \<Rightarrow> False)
   | _ \<Rightarrow> False)"

definition is_platform :: "jval \<Rightarrow> bool" where
  "is_platform g = (case g of
     JObj _ \<Rightarrow> is_str (prop_of g ''pi'') \<and> is_str_array (prop_of g ''rt'') \<and>
       (case prop_of g ''entities'' of JArr es \<Rightarrow> es \<noteq> [] \<and> list_all is_entity es | _ \<Rightarrow> False)
   | _ \<Rightarrow> False)"

lemmas platform_type_defs = is_platform_def is_entity_def is_resource_def is_str_array_def is_str_def

lemma lamp_resources_nullish:
  "js_nullish p \<Longrightarrow>
   lamp_resources p e = (if js_truthy e then Inl (TypeError ''Power'') else Inr (power_base, dim_base))"
  by (auto simp: lamp_resources_def js_nullish_def)

lemma lamp_resources_ok: "\<not> js_nullish p \<Longrightarrow> lamp_resources p e = Inr (lamp_values p e)"
  by (simp add: lamp_resources_def lamp_values_def js_get_prop_of power_base_def dim_base_def)

lemma normalize_nullish:
  "js_nullish p \<Longrightarrow>
   providerSchemaToPlatformSchema sha1 p e = Inl (TypeError (if js_truthy e then ''Power'' else ''DeviceID''))"
  by (simp add: providerSchemaToPlatformSchema_def lamp_resources_nullish js_get_nullish)

lemma normalize_ok:
  "\<not> js_nullish p \<Longrightarrow> providerSchemaToPlatformSchema sha1 p e =
     Inr (platform_literal (JStr (generateGUID sha1 (prop_of p ''DeviceID''))) (prop_of p ''DeviceID'')
            (prop_of p ''DeviceName'') (fst (lamp_values p e)) (snd (lamp_values p e)))"
  by (simp add: providerSchemaToPlatformSchema_def lamp_resources_ok js_get_prop_of split: prod.splits)

lemma normalize_Inr_iff:
  "providerSchemaToPlatformSchema sha1 p e = Inr g \<longleftrightarrow>
     \<not> js_nullish p \<and>
     g = platform_literal (JStr (generateGUID sha1 (prop_of p ''DeviceID''))) (prop_of p ''DeviceID'')
           (prop_of p ''DeviceName'') (fst (lamp_values p e)) (snd (lamp_values p e))"
  by (cases "js_nullish p") (auto simp: normalize_nullish normalize_ok)

lemmas locate_simps = findResource_def platform_literal_def js_array_def js_prop_seq_def lamp_values_def
  power_base_def dim_base_def

section \<open>Properties of the Resource Locator\<close>

text \<open>
  C3 (lookup failure, entity): on any graph the normalizer builds, a \<open>di\<close> other than the
  identity of the payload's \<open>DeviceID\<close> fails with the message \<open>Entity - di not found.\<close>
\<close>

theorem findResource_entity_not_found:
  assumes "providerSchemaToPlatformSchema sha1 p e = Inr g"
    and "\<not> js_seq (JStr (generateGUID sha1 (prop_of p ''DeviceID''))) di"
  shows "findResource g di rid = Inl (Error (''Entity - '' @ js_to_string di @ '' not found.''))"
  using assms by (simp add: normalize_Inr_iff locate_simps)

theorem findResource_entity_not_found_witness:
  "providerSchemaToPlatformSchema demo_digest lamp_payload (JBool True) =
     Inr (projr (providerSchemaToPlatformSchema demo_digest lamp_payload (JBool True))) \<and>
   \<not> js_seq (JStr (generateGUID demo_digest (prop_of lamp_payload ''DeviceID''))) (JStr ''X2'') \<and>
   findResource (projr (providerSchemaToPlatformSchema demo_digest lamp_payload (JBool True))) (JStr ''X2'')
     (JStr ''power'') = Inl (Error (''Entity - '' @ js_to_string (JStr ''X2'') @ '' not found.''))"
proof -
  have n: "providerSchemaToPlatformSchema demo_digest lamp_payload (JBool True) =
     Inr (projr (providerSchemaToPlatformSchema demo_digest lamp_payload (JBool True)))"
    by (simp add: normalize_ok lamp_payload_def)
  have d: "\<not> js_seq (JStr (generateGUID demo_digest (prop_of lamp_payload ''DeviceID''))) (JStr ''X2'')"
  proof -
    have "length (generateGUID demo_digest (JStr ''X1'')) = 36"
      by (rule generateGUID_length) simp
    then show ?thesis by (auto simp: lamp_payload_def)
  qed
  show ?thesis using findResource_entity_not_found [OF n d] n d by simp
qed

text \<open>
  C4 (lookup failure, resource): on an expanded graph, the entity found, a resource id other
  than \<open>power\<close> and \<open>dim\<close> fails with \<open>Resource with resourceId "rid" not found.\<close>
\<close>

theorem findResource_resource_not_found:
  assumes "providerSchemaToPlatformSchema sha1 p (JBool True) = Inr g"
    and "\<not> js_seq (JStr ''power'') rid" and "\<not> js_seq (JStr ''dim'') rid"
  shows "findResource g (JStr (generateGUID sha1 (prop_of p ''DeviceID''))) rid =
           Inl (Error (''Resource with resourceId '' @ [CHR 0x22] @ js_to_string rid @ [CHR 0x22] @
                       '' not found.''))"
  using assms by (simp add: normalize_Inr_iff locate_simps)

theorem findResource_resource_not_found_witness:
  "providerSchemaToPlatformSchema demo_digest lamp_payload (JBool True) =
     Inr (projr (providerSchemaToPlatformSchema demo_digest lamp_payload (JBool True))) \<and>
   \<not> js_seq (JStr ''power'') (JStr ''colourRgb'') \<and> \<not> js_seq (JStr ''dim'') (JStr ''colourRgb'') \<and>
   findResource (projr (providerSchemaToPlatformSchema demo_digest lamp_payload (JBool True)))
     (JStr (generateGUID demo_digest (prop_of lamp_payload ''DeviceID''))) (JStr ''colourRgb'') =
   Inl (Error (''Resource with resourceId '' @ [CHR 0x22] @ js_to_string (JStr ''colourRgb'') @ [CHR 0x22] @
               '' not found.''))"
proof -
  have n: "providerSchemaToPlatformSchema demo_digest lamp_payload (JBool True) =
     Inr (projr (providerSchemaToPlatformSchema demo_digest lamp_payload (JBool True)))"
    by (simp add: normalize_ok lamp_payload_def)
  have r: "\<not> js_seq (JStr ''power'') (JStr ''colourRgb'')" "\<not> js_seq (JStr ''dim'') (JStr ''colourRgb'')"
    by simp_all
  show ?thesis using findResource_resource_not_found [OF n r] n r by simp
qed

text \<open>
  C7 (non-expanded graphs cannot be searched): the normalizer only sets a resource's
  \<open>id\<close> when \<open>expand\<close> is truthy, and the locator matches on \<open>id\<close>; so on a
  non-expanded graph every lookup of a resource by name fails, although the spec says
  that graph has the same resource topology.
\<close>

theorem findResource_unexpanded:
  assumes "providerSchemaToPlatformSchema sha1 p e = Inr g" and "\<not> js_truthy e"
  shows "findResource g (JStr (generateGUID sha1 (prop_of p ''DeviceID''))) (JStr rid) =
           Inl (Error (''Resource with resourceId '' @ [CHR 0x22] @ rid @ [CHR 0x22] @ '' not found.''))"
  using assms by (simp add: normalize_Inr_iff locate_simps)

theorem findResource_unexpanded_witness:
  "providerSchemaToPlatformSchema demo_digest lamp_payload (JBool False) =
     Inr (projr (providerSchemaToPlatformSchema demo_digest lamp_payload (JBool False))) \<and>
   \<not> js_truthy (JBool False) \<and>
   findResource (projr (providerSchemaToPlatformSchema demo_digest lamp_payload (JBool False)))
     (JStr (generateGUID demo_digest (prop_of lamp_payload ''DeviceID''))) (JStr ''power'') =
   Inl (Error (''Resource with resourceId '' @ [CHR 0x22] @ ''power'' @ [CHR 0x22] @ '' not found.''))"
proof -
  have n: "providerSchemaToPlatformSchema demo_digest lamp_payload (JBool False) =
     Inr (projr (providerSchemaToPlatformSchema demo_digest lamp_payload (JBool False)))"
    by (simp add: normalize_ok lamp_payload_def)
  have f: "\<not> js_truthy (JBool False)" by simp
  show ?thesis using findResource_unexpanded [OF n f, of "''power''"] n by simp
qed

lemma lightbulb_Translator_Inr:
  "lightbulb_Translator d m = Inr m' \<Longrightarrow>
     m' = m\<lparr>controlId := prop_of (prop_of (prop_of d ''deviceInfo'') ''opent2t'') ''controlId'',
            insteonHub := prop_of d ''hub''\<rparr>"
  by (auto simp: lightbulb_Translator_def bindE_eq_Inr_conv prop_of_def split: if_splits)

lemma lightbulb_Translator_any:
  "lightbulb_Translator d m = Inr m' \<Longrightarrow>
     lightbulb_Translator d m0 = Inr (m0\<lparr>controlId := prop_of (prop_of (prop_of d ''deviceInfo'') ''opent2t'') ''controlId'',
            insteonHub := prop_of d ''hub''\<rparr>)"
  by (auto simp: lightbulb_Translator_def bindE_eq_Inr_conv prop_of_def split: if_splits)

lemma insteon_apply_obj:
  "insteon_apply (JObj u) (JObj d) = JObj
     (let d1 = (case map_of u ''command'' of Some c \<Rightarrow> set_prop d ''Power'' c | None \<Rightarrow> d);
          d2 = (case map_of u ''level'' of Some l \<Rightarrow> set_prop d1 ''Level'' l | None \<Rightarrow> d1)
      in (case map_of u ''DeviceName'' of Some n \<Rightarrow> set_prop d2 ''DeviceName'' n | None \<Rightarrow> d2))"
  by (simp add: insteon_apply_def Let_def)

lemmas op_simps = postDeviceResource_def getDeviceResource_def lightbulb_get_def call_hub_def then_hub_def

lemmas roundtrip_simps = op_simps resourceSchemaToProviderSchema_def js_get_prop_of insteon_apply_obj
  normalize_ok locate_simps

section \<open>The specification's scenario\<close>

text \<open>
  C1 (reading a lamp): whatever object the hub reports for the current control id,
  \<open>get(true)\<close> resolves to a platform whose identity \<open>pi\<close> is the GUID of
  \<open>'Insteon' + DeviceID\<close>, with exactly one entity holding exactly two resources.
  Locating \<open>power\<close> under that identity gives the value \<open>Power === 'on'\<close>, and
  locating \<open>dim\<close> gives the \<open>dimmingSetting\<close> \<open>Level\<close>. The hub's state is as the
  read left it. The spec's scenario \<open>{DeviceID: "X1", DeviceName: "Lamp", Power: "on",
  Level: 50}\<close> is the witness.
\<close>

theorem lamp_scenario_get:
  assumes "insteonHub m = JHost h" "env h (GetDeviceDetailsAsync (controlId m)) w = (w', Inr p)"
    and "\<not> js_nullish p"
  shows "\<exists>g. lightbulb_get sha1 env (JBool True) JUndef m w = (w', Inr g) \<and>
    prop_of g ''pi'' = JStr (generateGUID sha1 (prop_of p ''DeviceID'')) \<and>
    prop_of (prop_of g ''entities'') ''length'' = JNum 1 \<and>
    prop_of (prop_of (prop_of (prop_of g ''entities'') ''0'') ''resources'') ''length'' = JNum 2 \<and>
    bindE (findResource g (prop_of g ''pi'') (JStr ''power'')) (\<lambda>r. js_get r ''value'') =
      Inr (JBool (js_seq (prop_of p ''Power'') (JStr ''on''))) \<and>
    bindE (findResource g (prop_of g ''pi'') (JStr ''dim'')) (\<lambda>r. js_get r ''dimmingSetting'') =
      Inr (prop_of p ''Level'')"
  using assms by (simp add: op_simps normalize_ok locate_simps)

theorem lamp_scenario_get_witness:
  "\<exists>g. lightbulb_get demo_digest insteon_hub (JBool True) JUndef lamp_module lamp_payload = (lamp_payload, Inr g) \<and>
    prop_of g ''pi'' = JStr (generateGUID demo_digest (JStr ''X1'')) \<and>
    prop_of (prop_of g ''entities'') ''length'' = JNum 1 \<and>
    prop_of (prop_of (prop_of (prop_of g ''entities'') ''0'') ''resources'') ''length'' = JNum 2 \<and>
    bindE (findResource g (prop_of g ''pi'') (JStr ''power'')) (\<lambda>r. js_get r ''value'') = Inr (JBool True) \<and>
    bindE (findResource g (prop_of g ''pi'') (JStr ''dim'')) (\<lambda>r. js_get r ''dimmingSetting'') = Inr (JNum 50)"
  using lamp_scenario_get [of lamp_module 0 insteon_hub lamp_payload lamp_payload lamp_payload demo_digest]
  by (simp add: lamp_module_def lamp_payload_def)

text \<open>
  C2 (reverse mapping, power): posting to \<open>power\<close> of the controlled device sends the hub
  exactly one update, \<open>{command: "on"}\<close> when the posted \<open>value\<close> is truthy and
  \<open>{command: "off"}\<close> otherwise; nothing else of the device is written.
\<close>

theorem postDevicesPower_sends_command:
  assumes "\<not> js_nullish payload"
  shows "fst (fst (postDevicesPower sha1 (logged_hub env) (JStr (generateGUID sha1 cid)) payload
            \<lparr>controlId = cid, insteonHub = JHost n\<rparr> ([], w))) =
         [PutDeviceDetailsAsync cid
            (JObj [(''command'', JStr (if js_truthy (prop_of payload ''value'') then ''on'' else ''off''))])]"
  using assms
  by (simp add: postDevicesPower_def op_simps resourceSchemaToProviderSchema_def js_get_prop_of
      logged_hub_def split: prod.splits)

theorem postDevicesPower_sends_command_witness:
  "\<not> js_nullish (JObj [(''value'', JBool True)]) \<and>
   fst (fst (postDevicesPower demo_digest (logged_hub insteon_hub) (JStr (generateGUID demo_digest (JStr ''X1'')))
      (JObj [(''value'', JBool True)]) \<lparr>controlId = JStr ''X1'', insteonHub = JHost 0\<rparr> ([], lamp_payload))) =
   [PutDeviceDetailsAsync (JStr ''X1'') (JObj [(''command'', JStr ''on'')])]"
  using postDevicesPower_sends_command [of "JObj [(''value'', JBool True)]" demo_digest insteon_hub
      "JStr ''X1''" 0 lamp_payload]
  by simp

text \<open>
  Reverse mapping, dim: a write of \<open>dimmingSetting\<close> becomes the partial vendor update
  \<open>{command, level}\<close>: the level is copied unchanged and the command is \<open>"on"\<close>
  exactly when the level compares greater than 0 (after JavaScript's ToNumber).
\<close>

theorem reverse_dim:
  assumes "\<not> js_nullish s"
  shows "resourceSchemaToProviderSchema (JStr ''dim'') s =
    Inr (JObj [(''command'', JStr (if js_gt_num (prop_of s ''dimmingSetting'') 0 then ''on'' else ''off'')),
               (''level'', prop_of s ''dimmingSetting'')])"
  using assms by (simp add: resourceSchemaToProviderSchema_def js_get_prop_of)

theorem reverse_dim_witness:
  "\<not> js_nullish (JObj [(''dimmingSetting'', JNum 0)]) \<and>
   resourceSchemaToProviderSchema (JStr ''dim'') (JObj [(''dimmingSetting'', JNum 0)]) =
     Inr (JObj [(''command'', JStr ''off''), (''level'', JNum 0)])"
  using reverse_dim [of "JObj [(''dimmingSetting'', JNum 0)]"] by (simp add: js_gt_num_def)

text \<open>
  C27 (unknown resource): the colour resources the translator exposes methods for are not
  mapped by the Reverse Mapper: posting to \<open>colourRgb\<close> of the controlled device throws
  \<open>Invalid resourceId\<close> before any hub call, leaving the hub state unchanged.
\<close>

theorem postDevicesColourRGB_invalid:
  "postDevicesColourRGB sha1 env (JStr (generateGUID sha1 (controlId m))) payload m w =
     (w, Inl (Error ''Invalid resourceId''))"
  by (simp add: postDevicesColourRGB_def postDeviceResource_def resourceSchemaToProviderSchema_def)

section \<open>Round trips through a conforming hub\<close>

text \<open>
  C8 (round trip, power): posting \<open>{value: v}\<close> to \<open>power\<close> of the device whose
  record carries the controlled \<open>DeviceID\<close> sets the vendor's \<open>Power\<close> and returns the
  re-read \<open>power\<close> resource, whose value is the truthiness of \<open>v\<close>.
\<close>

theorem power_roundtrip:
  assumes "map_of d ''DeviceID'' = Some cid" and "\<not> js_nullish payload"
  shows "postDeviceResource sha1 insteon_hub (JStr (generateGUID sha1 cid)) (JStr ''power'') payload
           \<lparr>controlId = cid, insteonHub = JHost n\<rparr> (JObj d) =
         (JObj (set_prop d ''Power'' (JStr (if js_truthy (prop_of payload ''value'') then ''on'' else ''off''))),
          Inr (JObj (power_base @ [(''id'', JStr ''power''),
                                   (''value'', JBool (js_truthy (prop_of payload ''value'')))])))"
  using assms by (simp add: roundtrip_simps)

theorem power_roundtrip_witness:
  "map_of [(''DeviceID'', JStr ''X1''), (''DeviceName'', JStr ''Lamp''), (''Power'', JStr ''on''),
           (''Level'', JNum 50)] ''DeviceID'' = Some (JStr ''X1'') \<and>
   \<not> js_nullish (JObj [(''value'', JNum 0)]) \<and>
   postDeviceResource demo_digest insteon_hub (JStr (generateGUID demo_digest (JStr ''X1''))) (JStr ''power'')
     (JObj [(''value'', JNum 0)]) \<lparr>controlId = JStr ''X1'', insteonHub = JHost 0\<rparr>
     (JObj [(''DeviceID'', JStr ''X1''), (''DeviceName'', JStr ''Lamp''), (''Power'', JStr ''on''),
            (''Level'', JNum 50)]) =
   (JObj [(''DeviceID'', JStr ''X1''), (''DeviceName'', JStr ''Lamp''), (''Power'', JStr ''off''),
          (''Level'', JNum 50)],
    Inr (JObj (power_base @ [(''id'', JStr ''power''), (''value'', JBool False)])))"
  using power_roundtrip [of "[(''DeviceID'', JStr ''X1''), (''DeviceName'', JStr ''Lamp''), (''Power'', JStr ''on''),
           (''Level'', JNum 50)]" "JStr ''X1''" "JObj [(''value'', JNum 0)]" demo_digest 0]
  by simp

text \<open>
  C28 (round trip, dim): posting \<open>{dimmingSetting: l}\<close> sets the vendor's \<open>Level\<close> to
  \<open>l\<close> and its \<open>Power\<close> to on exactly when \<open>l > 0\<close>, and returns the re-read
  \<open>dim\<close> resource carrying \<open>dimmingSetting l\<close>.
\<close>

theorem dim_roundtrip:
  assumes "map_of d ''DeviceID'' = Some cid" and "\<not> js_nullish payload"
  shows "postDeviceResource sha1 insteon_hub (JStr (generateGUID sha1 cid)) (JStr ''dim'') payload
           \<lparr>controlId = cid, insteonHub = JHost n\<rparr> (JObj d) =
         (JObj (set_prop (set_prop d ''Power''
                   (JStr (if js_gt_num (prop_of payload ''dimmingSetting'') 0 then ''on'' else ''off'')))
                  ''Level'' (prop_of payload ''dimmingSetting'')),
          Inr (JObj (dim_base @ [(''id'', JStr ''dim''), (''dimmingSetting'', prop_of payload ''dimmingSetting''),
                                 (''range'', JArr [JNum 0, JNum 100])])))"
  using assms by (simp add: roundtrip_simps)

theorem dim_roundtrip_witness:
  "map_of [(''DeviceID'', JStr ''X1'')] ''DeviceID'' = Some (JStr ''X1'') \<and>
   \<not> js_nullish (JObj [(''dimmingSetting'', JNum 30)]) \<and>
   postDeviceResource demo_digest insteon_hub (JStr (generateGUID demo_digest (JStr ''X1''))) (JStr ''dim'')
     (JObj [(''dimmingSetting'', JNum 30)]) \<lparr>controlId = JStr ''X1'', insteonHub = JHost 0\<rparr>
     (JObj [(''DeviceID'', JStr ''X1'')]) =
   (JObj [(''DeviceID'', JStr ''X1''), (''Power'', JStr ''on''), (''Level'', JNum 30)],
    Inr (JObj (dim_base @ [(''id'', JStr ''dim''), (''dimmingSetting'', JNum 30),
                           (''range'', JArr [JNum 0, JNum 100])])))"
  using dim_roundtrip [of "[(''DeviceID'', JStr ''X1'')]" "JStr ''X1''" "JObj [(''dimmingSetting'', JNum 30)]"
      demo_digest 0]
  by (simp add: js_gt_num_def)

text \<open>
  C29 (write then failure): posting a new name \<open>n\<close> renames the device at the hub, and then
  the method fails: the re-read graph has no resource \<open>n\<close>, so the caller gets
  \<open>Resource with resourceId "n" not found.\<close> for a write that took effect.
\<close>

theorem post_name_fails_after_write:
  assumes "map_of d ''DeviceID'' = Some cid" and "\<not> js_nullish payload"
  shows "postDeviceResource sha1 insteon_hub (JStr (generateGUID sha1 cid)) (JStr ''n'') payload
           \<lparr>controlId = cid, insteonHub = JHost n\<rparr> (JObj d) =
         (JObj (set_prop d ''DeviceName'' (prop_of payload ''n'')),
          Inl (Error (''Resource with resourceId '' @ [CHR 0x22] @ ''n'' @ [CHR 0x22] @ '' not found.'')))"
  using assms by (simp add: roundtrip_simps)

theorem post_name_fails_after_write_witness:
  "map_of [(''DeviceID'', JStr ''X1''), (''DeviceName'', JStr ''Lamp'')] ''DeviceID'' = Some (JStr ''X1'') \<and>
   \<not> js_nullish (JObj [(''n'', JStr ''Kitchen'')]) \<and>
   postDeviceResource demo_digest insteon_hub (JStr (generateGUID demo_digest (JStr ''X1''))) (JStr ''n'')
     (JObj [(''n'', JStr ''Kitchen'')]) \<lparr>controlId = JStr ''X1'', insteonHub = JHost 0\<rparr>
     (JObj [(''DeviceID'', JStr ''X1''), (''DeviceName'', JStr ''Lamp'')]) =
   (JObj [(''DeviceID'', JStr ''X1''), (''DeviceName'', JStr ''Kitchen'')],
    Inl (Error (''Resource with resourceId '' @ [CHR 0x22] @ ''n'' @ [CHR 0x22] @ '' not found.'')))"
  using post_name_fails_after_write [of "[(''DeviceID'', JStr ''X1''), (''DeviceName'', JStr ''Lamp'')]"
      "JStr ''X1''" "JObj [(''n'', JStr ''Kitchen'')]" demo_digest 0]
  by simp

section \<open>Entity mismatch and the shared module state\<close>

text \<open>
  C30 (unknown entity on write): a write addressed to any \<open>di\<close> other than the identity of
  the current control id calls no hub method and resolves to \<open>undefined\<close> instead of
  failing, whatever the resource and payload.
\<close>

theorem postDeviceResource_other_di:
  assumes "\<not> js_seq di (JStr (generateGUID sha1 (controlId m)))"
  shows "postDeviceResource sha1 env di rid payload m w = (w, Inr JUndef)"
  using assms by (simp add: postDeviceResource_def)

theorem postDeviceResource_other_di_witness:
  "\<not> js_seq (JStr ''X1'') (JStr (generateGUID demo_digest (controlId lamp_module))) \<and>
   postDeviceResource demo_digest insteon_hub (JStr ''X1'') (JStr ''power'') (JObj [(''value'', JBool True)])
     lamp_module lamp_payload = (lamp_payload, Inr JUndef)"
proof -
  have "length (generateGUID demo_digest (JStr ''X1'')) = 36"
    by (rule generateGUID_length) simp
  then have h: "\<not> js_seq (JStr ''X1'') (JStr (generateGUID demo_digest (controlId lamp_module)))"
    by (auto simp: lamp_module_def)
  show ?thesis using postDeviceResource_other_di [OF h, of insteon_hub "JStr ''power''"
      "JObj [(''value'', JBool True)]" lamp_payload] h by simp
qed

text \<open>
  C31 (shared module state): \<open>controlId\<close> and \<open>insteonHub\<close> are module variables, so
  constructing a second translator leaves no trace of the first one. When the two
  configurations have different identities, a write addressed to the identity of the
  first configuration's control id makes no hub call and resolves to \<open>undefined\<close>: it is
  silently dropped.
\<close>

theorem second_translator_drops_first:
  assumes "lightbulb_Translator d1 m0 = Inr m1" and "lightbulb_Translator d2 m1 = Inr m2"
    and "generateGUID sha1 (prop_of (prop_of (prop_of d1 ''deviceInfo'') ''opent2t'') ''controlId'') \<noteq>
         generateGUID sha1 (prop_of (prop_of (prop_of d2 ''deviceInfo'') ''opent2t'') ''controlId'')"
  shows "lightbulb_Translator d2 m0 = Inr m2 \<and>
    postDeviceResource sha1 env
      (JStr (generateGUID sha1 (prop_of (prop_of (prop_of d1 ''deviceInfo'') ''opent2t'') ''controlId'')))
      rid payload m2 w = (w, Inr JUndef)"
  using lightbulb_Translator_Inr [OF assms(1)] lightbulb_Translator_Inr [OF assms(2)]
    lightbulb_Translator_any [OF assms(2), of m0] assms(3)
  by (simp add: postDeviceResource_def)

theorem second_translator_drops_first_witness:
  "lightbulb_Translator (JObj [(''deviceInfo'', JObj [(''opent2t'', JObj [(''controlId'', JStr ''X1'')])]),
                              (''hub'', JHost 0)]) insteon_module_init = Inr lamp_module \<and>
   lightbulb_Translator (JObj [(''deviceInfo'', JObj [(''opent2t'', JObj [(''controlId'', JStr ''X22'')])]),
                              (''hub'', JHost 0)]) lamp_module =
     Inr \<lparr>controlId = JStr ''X22'', insteonHub = JHost 0\<rparr> \<and>
   generateGUID demo_digest (JStr ''X1'') \<noteq> generateGUID demo_digest (JStr ''X22'') \<and>
   postDeviceResource demo_digest insteon_hub (JStr (generateGUID demo_digest (JStr ''X1'')))
     (JStr ''power'') (JObj [(''value'', JBool True)]) \<lparr>controlId = JStr ''X22'', insteonHub = JHost 0\<rparr>
     lamp_payload = (lamp_payload, Inr JUndef)"
proof -
  have c1: "lightbulb_Translator (JObj [(''deviceInfo'', JObj [(''opent2t'', JObj [(''controlId'', JStr ''X1'')])]),
                              (''hub'', JHost 0)]) insteon_module_init = Inr lamp_module"
    by (simp add: lightbulb_Translator_def validateArgumentType_def insteon_module_init_def lamp_module_def)
  have c2: "lightbulb_Translator (JObj [(''deviceInfo'', JObj [(''opent2t'', JObj [(''controlId'', JStr ''X22'')])]),
                              (''hub'', JHost 0)]) lamp_module = Inr \<lparr>controlId = JStr ''X22'', insteonHub = JHost 0\<rparr>"
    by (simp add: lightbulb_Translator_def validateArgumentType_def lamp_module_def)
  have g: "generateGUID demo_digest (JStr ''X1'') \<noteq> generateGUID demo_digest (JStr ''X22'')"
    by code_simp
  show ?thesis
    using second_translator_drops_first [OF c1 c2, of demo_digest insteon_hub "JStr ''power''"
        "JObj [(''value'', JBool True)]" lamp_payload] c1 c2 g by simp
qed

section \<open>The constructor\<close>

text \<open>
  C32 (construction): the constructor checks only that \<open>deviceInfo\<close> has type object,
  then copies \<open>deviceInfo.deviceInfo.opent2t.controlId\<close> and \<open>deviceInfo.hub\<close> into
  the module state without checking either, so a configuration without a control id
  is accepted (the control id becomes \<open>undefined\<close>).
\<close>

theorem lightbulb_Translator_ok:
  assumes "js_typeof d = ''object''" and "\<not> js_nullish d"
    and "\<not> js_nullish (prop_of d ''deviceInfo'')"
    and "\<not> js_nullish (prop_of (prop_of d ''deviceInfo'') ''opent2t'')"
  shows "lightbulb_Translator d m =
    Inr (m\<lparr>controlId := prop_of (prop_of (prop_of d ''deviceInfo'') ''opent2t'') ''controlId'',
           insteonHub := prop_of d ''hub''\<rparr>)"
  using assms by (simp add: lightbulb_Translator_def validateArgumentType_def js_get_prop_of)

theorem lightbulb_Translator_ok_witness:
  "js_typeof (JObj [(''deviceInfo'', JObj [(''opent2t'', JObj [])]), (''hub'', JHost 0)]) = ''object'' \<and>
   \<not> js_nullish (JObj [(''deviceInfo'', JObj [(''opent2t'', JObj [])]), (''hub'', JHost 0)]) \<and>
   \<not> js_nullish (prop_of (JObj [(''deviceInfo'', JObj [(''opent2t'', JObj [])]), (''hub'', JHost 0)]) ''deviceInfo'') \<and>
   \<not> js_nullish (prop_of (prop_of (JObj [(''deviceInfo'', JObj [(''opent2t'', JObj [])]), (''hub'', JHost 0)])
                   ''deviceInfo'') ''opent2t'') \<and>
   lightbulb_Translator (JObj [(''deviceInfo'', JObj [(''opent2t'', JObj [])]), (''hub'', JHost 0)])
     insteon_module_init = Inr \<lparr>controlId = JUndef, insteonHub = JHost 0\<rparr>"
  using lightbulb_Translator_ok [of "JObj [(''deviceInfo'', JObj [(''opent2t'', JObj [])]), (''hub'', JHost 0)]"
      insteon_module_init]
  by (simp add: insteon_module_init_def)

text \<open>
  Null configuration: \<open>typeof null\<close> is \<open>"object"\<close>, so \<open>null\<close> passes the
  argument check and construction then fails with a TypeError instead of the
  \<open>Invalid argument\<close> error.
\<close>

theorem lightbulb_Translator_null:
  "validateArgumentType JNull ''deviceInfo'' ''object'' = Inr () \<and>
   lightbulb_Translator JNull m = Inl (TypeError ''deviceInfo'')"
  by (simp add: lightbulb_Translator_def validateArgumentType_def)

section \<open>Expanded and non-expanded graphs\<close>

text \<open>
  C5 (expand subset): for a falsy \<open>expand\<close> the normalizer returns exactly the expanded
  graph with the keys \<open>id\<close>, \<open>value\<close>, \<open>dimmingSetting\<close> and \<open>range\<close> removed from
  every resource; on an \<open>undefined\<close>/\<open>null\<close> payload both fail, at the first property
  each reads.
\<close>

theorem normalize_unexpanded_is_stripped:
  assumes "\<not> js_truthy e"
  shows "providerSchemaToPlatformSchema sha1 p e =
     map_sum (\<lambda>_. TypeError ''DeviceID'') strip_resource_values (providerSchemaToPlatformSchema sha1 p (JBool True))"
proof (cases "js_nullish p")
  case True
  with assms show ?thesis by (simp add: normalize_nullish)
next
  case False
  with assms show ?thesis
    by (simp add: normalize_ok strip_resource_values_def map_prop_def map_elems_def platform_literal_def
        lamp_values_def power_base_def dim_base_def value_keys_def)
qed

theorem normalize_unexpanded_is_stripped_witness:
  "\<not> js_truthy JUndef \<and>
   providerSchemaToPlatformSchema demo_digest lamp_payload JUndef =
     map_sum (\<lambda>_. TypeError ''DeviceID'') strip_resource_values
       (providerSchemaToPlatformSchema demo_digest lamp_payload (JBool True))"
  using normalize_unexpanded_is_stripped [of JUndef demo_digest lamp_payload] by simp


section \<open>The shape of the normalized graph\<close>

text \<open>
  C6 (type of the normalized graph): every graph the normalizer returns has the shape
  of the data model exactly when it was built expanded. Unexpanded resources have no
  \<open>id\<close>, so they are not resources in the sense of the specification.
\<close>

theorem normalize_platform_type:
  assumes "providerSchemaToPlatformSchema sha1 p e = Inr g"
  shows "is_platform g \<longleftrightarrow> js_truthy e"
  using assms
  by (auto simp: normalize_Inr_iff platform_literal_def lamp_values_def power_base_def dim_base_def
      platform_type_defs)

theorem normalize_platform_type_witness:
  "providerSchemaToPlatformSchema demo_digest lamp_payload (JBool True) =
     Inr (projr (providerSchemaToPlatformSchema demo_digest lamp_payload (JBool True))) \<and>
   is_platform (projr (providerSchemaToPlatformSchema demo_digest lamp_payload (JBool True)))"
  using normalize_platform_type [of demo_digest lamp_payload "JBool True"
      "projr (providerSchemaToPlatformSchema demo_digest lamp_payload (JBool True))"]
  by (simp add: normalize_ok lamp_payload_def)

end
