(* ===== verification/WinkThermostat.thy ===== *)
theory WinkThermostat
  imports JsValue
begin

text \<open>
  The Wink thermostat translator,
  src/org.opent2t.sample.thermostat.superpopular/com.wink.thermostat/js/thingTranslator.js:
  the State Reconciler \<open>StateReader\<close>, the Schema Normalizer
  \<open>deviceSchemaToTranslatorSchema\<close> with its derived target temperature, the Reverse
  Mapper \<open>translatorSchemaToDeviceSchema\<close>, the module variables \<open>deviceId\<close>,
  \<open>deviceType\<close> and \<open>winkHelper\<close> as a record, and the \<open>Translator\<close> methods. The
  Wink helper (opent2t-translator-helper-wink) is an external collaborator reached through
  \<open>wink_env\<close>; \<open>console.log\<close> calls have no effect on the model. \<open>wink_service\<close>
  models a conforming helper from the spec. Over it, the lemmas prove the round trip
  of every writable field and the commutation of writes to disjoint fields.
\<close>

section \<open>Argument validation\<close>

text \<open>The file's own copy of \<open>validateArgumentType\<close>, identical to the lightbulb's.\<close>

definition wink_validateArgumentType :: "jval \<Rightarrow> string \<Rightarrow> string \<Rightarrow> unit js" where
  "wink_validateArgumentType arg argName expectedType =
     (if js_typeof arg = ''undefined'' then
        Inl (Error (''Missing argument: '' @ argName @ ''. '' @ ''Expected type: '' @ expectedType @ ''.''))
      else if js_typeof arg \<noteq> expectedType then
        Inl (Error (''Invalid argument: '' @ argName @ ''. '' @
                    ''Expected type: '' @ expectedType @ '', got: '' @ js_typeof arg))
      else Inr ())"

section \<open>State Reconciler\<close>

record state_reader =
  desired_state :: jval
  last_reading :: jval

text \<open>\<open>get(state)\<close>: the desired value unless it is \<open>undefined\<close>, else the last reading.\<close>

definition StateReader_get :: "state_reader \<Rightarrow> string \<Rightarrow> jval js" where
  "StateReader_get r state =
     bindE (js_get (desired_state r) state) (\<lambda>d.
       if \<not> js_seq d JUndef then Inr d else js_get (last_reading r) state)"

section \<open>Schema Normalizer\<close>

text \<open>The object literal \<open>result\<close>, built from the values the normalizer has read.\<close>

definition thermostat_literal ::
  "jval \<Rightarrow> jval \<Rightarrow> jval \<Rightarrow> jval \<Rightarrow> jval \<Rightarrow> jval \<Rightarrow> jval \<Rightarrow> jval \<Rightarrow> jval \<Rightarrow> jval \<Rightarrow> jval \<Rightarrow>
   jval \<Rightarrow> jval \<Rightarrow> (string \<times> jval) list" where
  "thermostat_literal objectType objectId name maxSetPoint minSetPoint temperatureUnits temperature usersAway hasFan
     ecoTarget modesAllowed mode fanTimerActive =
     [(''id'', js_add (js_add objectType (JStr ''.'')) objectId),
      (''n'', name),
      (''rt'', JStr ''org.opent2t.sample.thermostat.superpopular''),
      (''targetTemperature'', JObj [(''temperature'', js_div_by (js_add maxSetPoint minSetPoint) 2), (''units'', temperatureUnits)]),
      (''targetTemperatureHigh'', JObj [(''temperature'', maxSetPoint), (''units'', temperatureUnits)]),
      (''targetTemperatureLow'', JObj [(''temperature'', minSetPoint), (''units'', temperatureUnits)]),
      (''ambientTemperature'', JObj [(''temperature'', temperature), (''units'', temperatureUnits)]),
      (''awayMode'', usersAway),
      (''hasFan'', hasFan),
      (''ecoMode'', ecoTarget),
      (''hvacMode'', JObj [(''supportedModes'', modesAllowed), (''modes'', JArr [mode])]),
      (''fanTimerActive'', fanTimerActive)]"

definition deviceSchemaToTranslatorSchema :: "jval \<Rightarrow> jval js" where
  "deviceSchemaToTranslatorSchema deviceSchema =
     bindE (js_get deviceSchema ''desired_state'') (\<lambda>ds.
     bindE (js_get deviceSchema ''last_reading'') (\<lambda>lr.
     let stateReader = \<lparr>desired_state = ds, last_reading = lr\<rparr> in
     bindE (StateReader_get stateReader ''max_set_point'') (\<lambda>maxSetPoint.
     bindE (StateReader_get stateReader ''min_set_point'') (\<lambda>minSetPoint.
     bindE (StateReader_get stateReader ''units'') (\<lambda>units.
     bindE (js_get units ''temperature'') (\<lambda>temperatureUnits.
     bindE (js_get deviceSchema ''object_type'') (\<lambda>objectType.
     bindE (js_get deviceSchema ''object_id'') (\<lambda>objectId.
     bindE (js_get deviceSchema ''name'') (\<lambda>name.
     bindE (StateReader_get stateReader ''temperature'') (\<lambda>temperature.
     bindE (StateReader_get stateReader ''users_away'') (\<lambda>usersAway.
     bindE (StateReader_get stateReader ''has_fan'') (\<lambda>hasFan.
     bindE (StateReader_get stateReader ''eco_target'') (\<lambda>ecoTarget.
     bindE (StateReader_get stateReader ''modes_allowed'') (\<lambda>modesAllowed.
     bindE (StateReader_get stateReader ''mode'') (\<lambda>mode.
     bindE (StateReader_get stateReader ''fan_timer_active'') (\<lambda>fanTimerActive.
     let result = thermostat_literal objectType objectId name maxSetPoint minSetPoint temperatureUnits temperature
                    usersAway hasFan ecoTarget modesAllowed mode fanTimerActive in
     bindE (StateReader_get stateReader ''external_temperature'') (\<lambda>ext.
       if \<not> js_seq ext JNull then
         bindE (StateReader_get stateReader ''external_temperature'') (\<lambda>ext'.
           Inr (JObj (set_prop result ''externalTemperature''
                        (JObj [(''temperature'', ext'), (''units'', temperatureUnits)]))))
       else Inr (JObj result))))))))))))))))))"

section \<open>Reverse Mapper\<close>

text \<open>
  \<open>result\<close> and its \<open>desired_state\<close> are one object reached twice (\<open>var desired_state =
  result.desired_state\<close>); the model builds the desired state first and places it in
  \<open>result\<close>, whose own key \<open>name\<close> comes after \<open>desired_state\<close>.
\<close>

definition put_if_defined ::
  "jval \<Rightarrow> string \<Rightarrow> (jval \<Rightarrow> jval js) \<Rightarrow> (string \<times> jval) list \<Rightarrow> (string \<times> jval) list js" where
  "put_if_defined v key f acc =
     (if \<not> js_seq v JUndef then bindE (f v) (\<lambda>x. Inr (set_prop acc key x)) else Inr acc)"

definition translatorSchemaToDeviceSchema :: "jval \<Rightarrow> jval js" where
  "translatorSchemaToDeviceSchema translatorSchema =
     bindE (js_get translatorSchema ''n'') (\<lambda>n.
     let nameField = (if \<not> js_seq n JUndef then [(''name'', n)] else []) in
     bindE (js_get translatorSchema ''targetTemperatureHigh'') (\<lambda>high.
     bindE (put_if_defined high ''max_set_point'' (\<lambda>h. js_get h ''temperature'') []) (\<lambda>ds1.
     bindE (js_get translatorSchema ''targetTemperatureLow'') (\<lambda>low.
     bindE (put_if_defined low ''min_set_point'' (\<lambda>l. js_get l ''temperature'') ds1) (\<lambda>ds2.
     bindE (js_get translatorSchema ''awayMode'') (\<lambda>away.
     bindE (put_if_defined away ''users_away'' Inr ds2) (\<lambda>ds3.
     bindE (js_get translatorSchema ''hvacMode'') (\<lambda>hvac.
     bindE (put_if_defined hvac ''mode'' (\<lambda>h. bindE (js_get h ''modes'') (\<lambda>ms. js_get ms ''0'')) ds3) (\<lambda>ds4.
     Inr (JObj ((''desired_state'', JObj ds4) # nameField)))))))))))"

section \<open>Module state and the Wink helper\<close>

text \<open>
  \<open>var deviceId; var deviceType = 'thermostats'; var winkHelper;\<close>: module-level, shared
  by every instance. \<open>winkHelper\<close> is \<open>None\<close> before a constructor has run and
  \<open>Some token\<close> for \<open>new WinkHelper(token)\<close>.
\<close>

record wink_module =
  deviceId :: jval
  deviceType :: string
  winkHelper :: "jval option"

definition wink_module_init :: wink_module where
  "wink_module_init = \<lparr>deviceId = JUndef, deviceType = ''thermostats'', winkHelper = None\<rparr>"

datatype wink_call =
    WGetDeviceDetails string jval
  | WPutDeviceDetails string jval jval

text \<open>\<open>env token c w\<close>: the helper built with \<open>token\<close> runs call \<open>c\<close> in service state \<open>w\<close>.\<close>

type_synonym 'w wink_env = "jval \<Rightarrow> wink_call \<Rightarrow> 'w \<Rightarrow> 'w \<times> jval js"

definition call_wink :: "'w wink_env \<Rightarrow> wink_module \<Rightarrow> wink_call \<Rightarrow> 'w \<Rightarrow> 'w \<times> jval js" where
  "call_wink env m c w =
     (case winkHelper m of
        Some token \<Rightarrow> env token c w
      | None \<Rightarrow> (w, Inl (TypeError (case c of WGetDeviceDetails _ _ \<Rightarrow> ''getDeviceDetailsAsync''
                                          | WPutDeviceDetails _ _ _ \<Rightarrow> ''putDeviceDetailsAsync''))))"

definition wink_then :: "'w \<times> jval js \<Rightarrow> (jval \<Rightarrow> jval js) \<Rightarrow> 'w \<times> jval js" where
  "wink_then r f = (case r of (w', x) \<Rightarrow> (w', bindE x f))"

text \<open>\<open>response.data\<close>, normalized.\<close>

definition normalize_response :: "jval \<Rightarrow> jval js" where
  "normalize_response response = bindE (js_get response ''data'') deviceSchemaToTranslatorSchema"

text \<open>\<open>x.p.temperature\<close> of a normalized schema.\<close>

definition temperature_of :: "string \<Rightarrow> jval \<Rightarrow> jval js" where
  "temperature_of p schema = bindE (js_get schema p) (\<lambda>x. js_get x ''temperature'')"

section \<open>The Translator class\<close>

definition thermostat_Translator :: "jval \<Rightarrow> wink_module \<Rightarrow> wink_module js" where
  "thermostat_Translator device m =
     bindE (wink_validateArgumentType device ''device'' ''object'') (\<lambda>_.
     bindE (js_get device ''props'') (\<lambda>props.
     bindE (wink_validateArgumentType props ''device.props'' ''object'') (\<lambda>_.
     bindE (js_get props ''access_token'') (\<lambda>token.
     bindE (wink_validateArgumentType token ''device.props.access_token'' ''string'') (\<lambda>_.
     bindE (js_get props ''id'') (\<lambda>pid.
     bindE (wink_validateArgumentType pid ''device.props.id'' ''string'') (\<lambda>_.
     Inr (m\<lparr>deviceId := pid, winkHelper := Some token\<rparr>))))))))"

definition getThermostatResURI :: "'w wink_env \<Rightarrow> wink_module \<Rightarrow> 'w \<Rightarrow> 'w \<times> jval js" where
  "getThermostatResURI env m w =
     wink_then (call_wink env m (WGetDeviceDetails (deviceType m) (deviceId m)) w) normalize_response"

definition postThermostatResURI :: "'w wink_env \<Rightarrow> jval \<Rightarrow> wink_module \<Rightarrow> 'w \<Rightarrow> 'w \<times> jval js" where
  "postThermostatResURI env postPayload m w =
     (case translatorSchemaToDeviceSchema postPayload of
        Inl e \<Rightarrow> (w, Inl e)
      | Inr putPayload \<Rightarrow>
          wink_then (call_wink env m (WPutDeviceDetails (deviceType m) (deviceId m) putPayload) w)
            normalize_response)"

definition getAmbientTemperature :: "'w wink_env \<Rightarrow> wink_module \<Rightarrow> 'w \<Rightarrow> 'w \<times> jval js" where
  "getAmbientTemperature env m w =
     wink_then (call_wink env m (WGetDeviceDetails (deviceType m) (deviceId m)) w)
       (\<lambda>response. bindE (normalize_response response) (temperature_of ''ambientTemperature''))"

definition getTargetTemperature :: "'w wink_env \<Rightarrow> wink_module \<Rightarrow> 'w \<Rightarrow> 'w \<times> jval js" where
  "getTargetTemperature env m w =
     wink_then (call_wink env m (WGetDeviceDetails (deviceType m) (deviceId m)) w)
       (\<lambda>response. bindE (normalize_response response) (temperature_of ''targetTemperature''))"

definition getTargetTemperatureHigh :: "'w wink_env \<Rightarrow> wink_module \<Rightarrow> 'w \<Rightarrow> 'w \<times> jval js" where
  "getTargetTemperatureHigh env m w =
     wink_then (call_wink env m (WGetDeviceDetails (deviceType m) (deviceId m)) w)
       (\<lambda>response. bindE (normalize_response response) (temperature_of ''targetTemperatureHigh''))"

text \<open>\<open>setTargetTemperatureHigh(value)\<close>: the payload carries \<open>units: 'C'\<close>.\<close>

definition setTargetTemperatureHigh :: "'w wink_env \<Rightarrow> jval \<Rightarrow> wink_module \<Rightarrow> 'w \<Rightarrow> 'w \<times> jval js" where
  "setTargetTemperatureHigh env value m w =
     (let postPayload = JObj [(''targetTemperatureHigh'', JObj [(''temperature'', value), (''units'', JStr ''C'')])] in
      case translatorSchemaToDeviceSchema postPayload of
        Inl e \<Rightarrow> (w, Inl e)
      | Inr putPayload \<Rightarrow>
          wink_then (call_wink env m (WPutDeviceDetails (deviceType m) (deviceId m) putPayload) w)
            (\<lambda>response. bindE (normalize_response response) (temperature_of ''targetTemperatureHigh'')))"

definition getTargetTemperatureLow :: "'w wink_env \<Rightarrow> wink_module \<Rightarrow> 'w \<Rightarrow> 'w \<times> jval js" where
  "getTargetTemperatureLow env m w =
     wink_then (call_wink env m (WGetDeviceDetails (deviceType m) (deviceId m)) w)
       (\<lambda>response. bindE (normalize_response response) (temperature_of ''targetTemperatureLow''))"

definition setTargetTemperatureLow :: "'w wink_env \<Rightarrow> jval \<Rightarrow> wink_module \<Rightarrow> 'w \<Rightarrow> 'w \<times> jval js" where
  "setTargetTemperatureLow env value m w =
     (let postPayload = JObj [(''targetTemperatureLow'', JObj [(''temperature'', value), (''units'', JStr ''C'')])] in
      case translatorSchemaToDeviceSchema postPayload of
        Inl e \<Rightarrow> (w, Inl e)
      | Inr putPayload \<Rightarrow>
          wink_then (call_wink env m (WPutDeviceDetails (deviceType m) (deviceId m) putPayload) w)
            (\<lambda>response. bindE (normalize_response response) (temperature_of ''targetTemperatureLow'')))"

section \<open>A conforming Wink service\<close>

text \<open>
  The Wink service is not part of the sources. Following the Wink API the helper wraps, a
  PUT merges the posted \<open>desired_state\<close> into the device's \<open>desired_state\<close> key by key
  and replaces \<open>name\<close>, and both calls answer \<open>{data: device}\<close>.
\<close>

definition merge_props :: "(string \<times> jval) list \<Rightarrow> (string \<times> jval) list \<Rightarrow> (string \<times> jval) list" where
  "merge_props upd d = fold (\<lambda>(k, v) acc. set_prop acc k v) upd d"

definition wink_apply :: "jval \<Rightarrow> jval \<Rightarrow> jval" where
  "wink_apply put dev =
     (case (put, dev) of
        (JObj p, JObj d) \<Rightarrow>
          (let d1 = (case (map_of p ''desired_state'', map_of d ''desired_state'') of
                       (Some (JObj pd), Some (JObj dd)) \<Rightarrow> set_prop d ''desired_state'' (JObj (merge_props pd dd))
                     | _ \<Rightarrow> d)
           in JObj (case map_of p ''name'' of Some n \<Rightarrow> set_prop d1 ''name'' n | None \<Rightarrow> d1))
      | _ \<Rightarrow> dev)"

fun wink_service :: "jval wink_env" where
  "wink_service token (WGetDeviceDetails ty i) dev = (dev, Inr (JObj [(''data'', dev)]))"
| "wink_service token (WPutDeviceDetails ty i put) dev =
     (wink_apply put dev, Inr (JObj [(''data'', wink_apply put dev)]))"

section \<open>Observations on the normalizer and examples\<close>

text \<open>
  \<open>reconciled dev k\<close> is what the State Reconciler answers for field \<open>k\<close> of a device
  whose two halves are objects; \<open>wink_wf\<close> is the shape under which the normalizer
  completes (both halves and the reconciled \<open>units\<close> are not nullish), and
  \<open>wink_view\<close> the translator object it then returns.
\<close>

definition reconciled :: "jval \<Rightarrow> string \<Rightarrow> jval" where
  "reconciled dev k =
     (if prop_of (prop_of dev ''desired_state'') k = JUndef then prop_of (prop_of dev ''last_reading'') k
      else prop_of (prop_of dev ''desired_state'') k)"

definition wink_wf :: "jval \<Rightarrow> bool" where
  "wink_wf dev \<longleftrightarrow> \<not> js_nullish dev \<and> \<not> js_nullish (prop_of dev ''desired_state'') \<and>
     \<not> js_nullish (prop_of dev ''last_reading'') \<and> \<not> js_nullish (reconciled dev ''units'')"

definition wink_view :: "jval \<Rightarrow> jval" where
  "wink_view dev =
     (let u = prop_of (reconciled dev ''units'') ''temperature'';
          result = thermostat_literal (prop_of dev ''object_type'') (prop_of dev ''object_id'') (prop_of dev ''name'')
            (reconciled dev ''max_set_point'') (reconciled dev ''min_set_point'') u (reconciled dev ''temperature'')
            (reconciled dev ''users_away'') (reconciled dev ''has_fan'') (reconciled dev ''eco_target'')
            (reconciled dev ''modes_allowed'') (reconciled dev ''mode'') (reconciled dev ''fan_timer_active'')
      in if reconciled dev ''external_temperature'' = JNull then JObj result
         else JObj (set_prop result ''externalTemperature''
                      (JObj [(''temperature'', reconciled dev ''external_temperature''), (''units'', u)])))"

text \<open>
  The specification's State Reconciler on partial maps: a field is read from the desired
  state when it is present there and otherwise from the observed state, which is
  \<open>map_add\<close>. \<open>obj_view v\<close> is the partial map of the fields of \<open>v\<close> that are present
  and not \<open>undefined\<close>; \<open>present\<close> reads a field value the same way.
\<close>

definition obj_view :: "jval \<Rightarrow> string \<Rightarrow> jval option" where
  "obj_view v k = (if prop_of v k = JUndef then None else Some (prop_of v k))"

definition present :: "jval \<Rightarrow> jval option" where
  "present v = (if v = JUndef then None else Some v)"

text \<open>The entries the Reverse Mapper writes for a field of the payload that is present.\<close>

definition field_if :: "jval \<Rightarrow> string \<Rightarrow> jval \<Rightarrow> (string \<times> jval) list" where
  "field_if src k v = (if src = JUndef then [] else [(k, v)])"

text \<open>
  The \<open>desired_state\<close> entries the Reverse Mapper writes for a payload, in its order
  (high, low, away, mode), and the payloads on which it completes (\<open>mappable\<close>).
  \<open>written_fields\<close> lists the writable fields a payload sets.
\<close>

definition desired_entries :: "jval \<Rightarrow> (string \<times> jval) list" where
  "desired_entries t =
     field_if (prop_of t ''targetTemperatureHigh'') ''max_set_point''
       (prop_of (prop_of t ''targetTemperatureHigh'') ''temperature'') @
     field_if (prop_of t ''targetTemperatureLow'') ''min_set_point''
       (prop_of (prop_of t ''targetTemperatureLow'') ''temperature'') @
     field_if (prop_of t ''awayMode'') ''users_away'' (prop_of t ''awayMode'') @
     field_if (prop_of t ''hvacMode'') ''mode'' (prop_of (prop_of (prop_of t ''hvacMode'') ''modes'') ''0'')"

definition mappable :: "jval \<Rightarrow> bool" where
  "mappable t \<longleftrightarrow> \<not> js_nullish t \<and>
     prop_of t ''targetTemperatureHigh'' \<noteq> JNull \<and> prop_of t ''targetTemperatureLow'' \<noteq> JNull \<and>
     prop_of t ''hvacMode'' \<noteq> JNull \<and>
     (prop_of t ''hvacMode'' \<noteq> JUndef \<longrightarrow> \<not> js_nullish (prop_of (prop_of t ''hvacMode'') ''modes''))"

definition written_fields :: "jval \<Rightarrow> string list" where
  "written_fields t =
     filter (\<lambda>f. prop_of t f \<noteq> JUndef) [''n'', ''targetTemperatureHigh'', ''targetTemperatureLow'', ''awayMode'', ''hvacMode'']"

text \<open>A Wink environment that also records the calls it receives, in order.\<close>

definition logged_wink :: "'w wink_env \<Rightarrow> (wink_call list \<times> 'w) wink_env" where
  "logged_wink env tok c s = (case env tok c (snd s) of (w', r) \<Rightarrow> ((fst s @ [c], w'), r))"

text \<open>A thermostat as the Wink API returns it, and a configured module.\<close>

definition thermo_fields :: "(string \<times> jval) list" where
  "thermo_fields =
     [(''object_type'', JStr ''thermostat''), (''object_id'', JStr ''42''), (''name'', JStr ''Hall''),
      (''desired_state'', JObj [(''max_set_point'', JNum 24), (''min_set_point'', JNum 19)]),
      (''last_reading'', JObj [(''max_set_point'', JNum 23), (''min_set_point'', JNum 18),
         (''units'', JObj [(''temperature'', JStr ''c'')]), (''temperature'', JNum 21),
         (''external_temperature'', JNull)])]"

definition thermo_module :: wink_module where
  "thermo_module = \<lparr>deviceId = JStr ''42'', deviceType = ''thermostats'', winkHelper = Some (JStr ''tok'')\<rparr>"

section \<open>Lemmas\<close>

lemma StateReader_get_dev:
  assumes "\<not> js_nullish (prop_of dev ''desired_state'')" "\<not> js_nullish (prop_of dev ''last_reading'')"
  shows "StateReader_get \<lparr>desired_state = prop_of dev ''desired_state'', last_reading = prop_of dev ''last_reading''\<rparr> k =
         Inr (reconciled dev k)"
  using assms by (simp add: StateReader_get_def reconciled_def js_get_prop_of)

lemma normalize_wf: "wink_wf dev \<Longrightarrow> deviceSchemaToTranslatorSchema dev = Inr (wink_view dev)"
  by (simp add: wink_wf_def deviceSchemaToTranslatorSchema_def js_get_prop_of StateReader_get_dev wink_view_def Let_def)

lemma js_trim_Cons: "\<not> is_js_space c \<Longrightarrow> js_trim (c # r) = c # rev (dropWhile is_js_space (rev r))"
  by (simp add: js_trim_def dropWhile_append)

lemma str_to_number_u: "str_to_number (CHR ''u'' # s) = None"
proof -
  have u: "\<not> is_js_space CHR ''u''" "\<not> is_digit CHR ''u''"
    by (simp_all add: is_js_space_def is_digit_def)
  then show ?thesis
    by (simp add: str_to_number_def js_trim_Cons parse_unsigned_def)
qed

lemma div_add_undefined: "js_div_by (js_add JUndef x) d = JNaN"
  by (cases x) (simp_all add: js_add_def js_div_by_def num_jval_def str_to_number_u)

lemma js_div_add_num: "js_div_by (js_add (JNum a) (JNum b)) d = JNum ((a + b) / d)"
  by (simp add: js_add_def js_div_by_def num_jval_def)

lemma put_if_defined_new:
  "k \<notin> fst ` set acc \<Longrightarrow> (v \<noteq> JUndef \<Longrightarrow> f v = Inr x) \<Longrightarrow>
   put_if_defined v k f acc = Inr (acc @ field_if v k x)"
  by (simp add: put_if_defined_def field_if_def set_prop_absent)

lemma prop_of_undef [simp]: "prop_of JUndef k = JUndef"
  by (simp add: prop_of_def)

text \<open>The Wink service's merge of a \<open>desired_state\<close>: later entries win, other keys stay.\<close>

lemma map_of_merge_props: "map_of (merge_props upd d) = map_of d ++ map_of (rev upd)"
  unfolding merge_props_def
  by (induction upd arbitrary: d) (auto simp: map_add_def fun_eq_iff split: option.splits)

lemma merge_props_other: "k \<notin> fst ` set upd \<Longrightarrow> map_of (merge_props upd d) k = map_of d k"
proof -
  assume "k \<notin> fst ` set upd"
  then have "map_of (rev upd) k = None" by (simp add: map_of_eq_None_iff)
  then show ?thesis by (simp add: map_of_merge_props map_add_def)
qed

lemma merge_props_written:
  "distinct (map fst upd) \<Longrightarrow> (k, v) \<in> set upd \<Longrightarrow> map_of (merge_props upd d) k = Some v"
  by (simp add: map_of_merge_props map_add_def map_of_is_SomeI rev_map [symmetric])

text \<open>The closed form of the Reverse Mapper on the payloads it accepts.\<close>

lemma translatorSchemaToDeviceSchema_fields:
  assumes "mappable t"
  shows "translatorSchemaToDeviceSchema t =
    Inr (JObj ((''desired_state'', JObj (desired_entries t)) # field_if (prop_of t ''n'') ''name'' (prop_of t ''n'')))"
proof -
  have nn: "v \<noteq> JUndef \<Longrightarrow> v \<noteq> JNull \<Longrightarrow> \<not> js_nullish v" for v by (simp add: js_nullish_def)
  show ?thesis using assms unfolding mappable_def
    by (simp add: translatorSchemaToDeviceSchema_def js_get_prop_of put_if_defined_new nn field_if_def
        desired_entries_def)
qed

lemma desired_entries_keys:
  "fst ` set (desired_entries t) \<subseteq> {''max_set_point'', ''min_set_point'', ''users_away'', ''mode''}"
  "distinct (map fst (desired_entries t))"
  by (auto simp: desired_entries_def field_if_def)

lemma desired_entries_key_iff:
  "k \<in> fst ` set (desired_entries t) \<longleftrightarrow>
     (k = ''max_set_point'' \<and> prop_of t ''targetTemperatureHigh'' \<noteq> JUndef) \<or>
     (k = ''min_set_point'' \<and> prop_of t ''targetTemperatureLow'' \<noteq> JUndef) \<or>
     (k = ''users_away'' \<and> prop_of t ''awayMode'' \<noteq> JUndef) \<or>
     (k = ''mode'' \<and> prop_of t ''hvacMode'' \<noteq> JUndef)"
  by (auto simp: desired_entries_def field_if_def)

lemma written_fields_disjoint:
  assumes "set (written_fields ta) \<inter> set (written_fields tb) = {}"
  shows "fst ` set (desired_entries ta) \<inter> fst ` set (desired_entries tb) = {}"
    and "field_if (prop_of ta ''n'') ''name'' (prop_of ta ''n'') = [] \<or>
         field_if (prop_of tb ''n'') ''name'' (prop_of tb ''n'') = []"
proof -
  have w: "prop_of ta f = JUndef \<or> prop_of tb f = JUndef"
    if "f \<in> set [''n'', ''targetTemperatureHigh'', ''targetTemperatureLow'', ''awayMode'', ''hvacMode'']" for f
    using assms that unfolding written_fields_def by auto
  show "fst ` set (desired_entries ta) \<inter> fst ` set (desired_entries tb) = {}"
    unfolding disjoint_iff desired_entries_key_iff
    using w [of "''targetTemperatureHigh''"] w [of "''targetTemperatureLow''"] w [of "''awayMode''"]
      w [of "''hvacMode''"]
    by auto
  show "field_if (prop_of ta ''n'') ''name'' (prop_of ta ''n'') = [] \<or>
        field_if (prop_of tb ''n'') ''name'' (prop_of tb ''n'') = []"
    using w [of "''n''"] by (auto simp: field_if_def)
qed

text \<open>What a PUT of the Reverse Mapper's shape does to the device at the Wink service.\<close>

lemma wink_apply_put:
  assumes "map_of d ''desired_state'' = Some (JObj dd)"
  shows "wink_apply (JObj ((''desired_state'', JObj ds) # nf)) (JObj d) =
    JObj (let d1 = set_prop d ''desired_state'' (JObj (merge_props ds dd))
          in case map_of nf ''name'' of Some n \<Rightarrow> set_prop d1 ''name'' n | None \<Rightarrow> d1)"
  using assms by (simp add: wink_apply_def Let_def)

lemma post_world_fields:
  assumes "map_of d ''desired_state'' = Some (JObj dd)" "winkHelper m = Some tok"
    and "translatorSchemaToDeviceSchema t = Inr (JObj ((''desired_state'', JObj ds) # nf))"
  obtains d' where "fst (postThermostatResURI wink_service t m (JObj d)) = JObj d'"
    and "snd (postThermostatResURI wink_service t m (JObj d)) = deviceSchemaToTranslatorSchema (JObj d')"
    and "map_of d' ''desired_state'' = Some (JObj (merge_props ds dd))"
    and "\<And>k. k \<noteq> ''desired_state'' \<Longrightarrow> map_of d' k = (map_of d ++ (map_of nf |` {''name''})) k"
proof
  let ?d' = "let d1 = set_prop d ''desired_state'' (JObj (merge_props ds dd))
             in case map_of nf ''name'' of Some n \<Rightarrow> set_prop d1 ''name'' n | None \<Rightarrow> d1"
  show "fst (postThermostatResURI wink_service t m (JObj d)) = JObj ?d'"
    using assms by (simp add: postThermostatResURI_def call_wink_def wink_then_def wink_apply_put split: prod.splits)
  show "snd (postThermostatResURI wink_service t m (JObj d)) = deviceSchemaToTranslatorSchema (JObj ?d')"
    using assms by (simp add: postThermostatResURI_def call_wink_def wink_then_def wink_apply_put
        normalize_response_def split: prod.splits)
  show "map_of ?d' ''desired_state'' = Some (JObj (merge_props ds dd))"
    by (simp add: Let_def split: option.splits)
  show "map_of ?d' k = (map_of d ++ (map_of nf |` {''name''})) k" if "k \<noteq> ''desired_state''" for k
    using that by (auto simp: Let_def map_add_def restrict_map_def split: option.splits)
qed

text \<open>The normalizer reads fields, not key order: devices with the same fields normalize alike.\<close>

lemma deviceSchemaToTranslatorSchema_cong:
  assumes "\<And>k. k \<noteq> ''desired_state'' \<Longrightarrow> map_of x k = map_of y k"
    and "map_of x ''desired_state'' = Some (JObj a)" "map_of y ''desired_state'' = Some (JObj b)"
    and "map_of a = map_of b"
  shows "deviceSchemaToTranslatorSchema (JObj x) = deviceSchemaToTranslatorSchema (JObj y)"
proof -
  have g: "js_get (JObj x) k = js_get (JObj y) k" if "k \<noteq> ''desired_state''" for k
    using assms(1) [OF that] by simp
  have s: "StateReader_get \<lparr>desired_state = JObj a, last_reading = lr\<rparr> k =
           StateReader_get \<lparr>desired_state = JObj b, last_reading = lr\<rparr> k" for lr k
    using assms(4) by (simp add: StateReader_get_def)
  have d: "js_get (JObj x) ''desired_state'' = Inr (JObj a)" "js_get (JObj y) ''desired_state'' = Inr (JObj b)"
    using assms(2,3) by simp_all
  have l: "js_get (JObj x) ''last_reading'' = js_get (JObj y) ''last_reading''"
    "js_get (JObj x) ''object_type'' = js_get (JObj y) ''object_type''"
    "js_get (JObj x) ''object_id'' = js_get (JObj y) ''object_id''"
    "js_get (JObj x) ''name'' = js_get (JObj y) ''name''"
    by (rule g, simp)+
  show ?thesis
    unfolding deviceSchemaToTranslatorSchema_def Let_def d bindE_Inr s l ..
qed

text \<open>Two PUTs with disjoint \<open>desired_state\<close> keys, at most one of them renaming, commute.\<close>

lemma wink_posts_commute_puts:
  assumes "map_of d ''desired_state'' = Some (JObj dd)" "winkHelper m = Some tok"
    and "translatorSchemaToDeviceSchema t1 = Inr (JObj ((''desired_state'', JObj ds1) # nf1))"
    and "translatorSchemaToDeviceSchema t2 = Inr (JObj ((''desired_state'', JObj ds2) # nf2))"
    and "fst ` set ds1 \<inter> fst ` set ds2 = {}" "nf1 = [] \<or> nf2 = []"
  shows "deviceSchemaToTranslatorSchema
           (fst (postThermostatResURI wink_service t2 m (fst (postThermostatResURI wink_service t1 m (JObj d))))) =
         deviceSchemaToTranslatorSchema
           (fst (postThermostatResURI wink_service t1 m (fst (postThermostatResURI wink_service t2 m (JObj d)))))"
proof -
  have dom: "dom (map_of (rev ds1)) \<inter> dom (map_of (rev ds2)) = {}"
    using assms(5) by (simp add: dom_map_of_conv_image_fst)
  have a: "map_of (merge_props ds2 (merge_props ds1 dd)) = map_of (merge_props ds1 (merge_props ds2 dd))"
    by (simp only: map_of_merge_props map_add_assoc [symmetric] map_add_comm [OF dom])
  obtain d1 where w1: "fst (postThermostatResURI wink_service t1 m (JObj d)) = JObj d1"
    and m1: "map_of d1 ''desired_state'' = Some (JObj (merge_props ds1 dd))"
    and f1: "\<And>k. k \<noteq> ''desired_state'' \<Longrightarrow> map_of d1 k = (map_of d ++ (map_of nf1 |` {''name''})) k"
    using post_world_fields [OF assms(1,2,3)] by blast
  obtain d12 where w12: "fst (postThermostatResURI wink_service t2 m (JObj d1)) = JObj d12"
    and m12: "map_of d12 ''desired_state'' = Some (JObj (merge_props ds2 (merge_props ds1 dd)))"
    and f12: "\<And>k. k \<noteq> ''desired_state'' \<Longrightarrow> map_of d12 k = (map_of d1 ++ (map_of nf2 |` {''name''})) k"
    using post_world_fields [OF m1 assms(2,4)] by blast
  obtain d2 where w2: "fst (postThermostatResURI wink_service t2 m (JObj d)) = JObj d2"
    and m2: "map_of d2 ''desired_state'' = Some (JObj (merge_props ds2 dd))"
    and f2: "\<And>k. k \<noteq> ''desired_state'' \<Longrightarrow> map_of d2 k = (map_of d ++ (map_of nf2 |` {''name''})) k"
    using post_world_fields [OF assms(1,2,4)] by blast
  obtain d21 where w21: "fst (postThermostatResURI wink_service t1 m (JObj d2)) = JObj d21"
    and m21: "map_of d21 ''desired_state'' = Some (JObj (merge_props ds1 (merge_props ds2 dd)))"
    and f21: "\<And>k. k \<noteq> ''desired_state'' \<Longrightarrow> map_of d21 k = (map_of d2 ++ (map_of nf1 |` {''name''})) k"
    using post_world_fields [OF m2 assms(2,3)] by blast
  have "map_of d12 k = map_of d21 k" if "k \<noteq> ''desired_state''" for k
    using assms(6) that by (auto simp: f12 f21 f1 f2 map_add_def split: option.splits)
  then show ?thesis
    unfolding w1 w12 w2 w21 by (rule deviceSchemaToTranslatorSchema_cong [OF _ m12 m21 a])
qed

lemma thermostat_Translator_Inr:
  assumes "thermostat_Translator dev m = Inr m'"
  shows "m' = m\<lparr>deviceId := prop_of (prop_of dev ''props'') ''id'',
                 winkHelper := Some (prop_of (prop_of dev ''props'') ''access_token'')\<rparr> \<and>
         thermostat_Translator dev m0 = Inr (m0\<lparr>deviceId := prop_of (prop_of dev ''props'') ''id'',
                 winkHelper := Some (prop_of (prop_of dev ''props'') ''access_token'')\<rparr>)"
  using assms
  by (auto simp: thermostat_Translator_def bindE_eq_Inr_conv wink_validateArgumentType_def prop_of_def
      split: if_splits)

text \<open>The two copies of the validation helper agree.\<close>

lemma wink_validateArgumentType_eq: "wink_validateArgumentType = validateArgumentType"
  by (simp add: fun_eq_iff wink_validateArgumentType_def validateArgumentType_def)

lemmas view_simps = normalize_wf wink_view_def temperature_of_def thermostat_literal_def Let_def

lemmas thermo_example_simps = thermo_fields_def thermo_module_def wink_wf_def reconciled_def

text \<open>
  State Reconciler, per field: when the desired state is an object, reading a field
  answers the desired value unless that value is \<open>undefined\<close>, and otherwise reads the
  last reading; each field is decided on its own.
\<close>

theorem StateReader_get_per_field:
  assumes "\<not> js_nullish (desired_state r)"
  shows "StateReader_get r k = (if prop_of (desired_state r) k = JUndef then js_get (last_reading r) k
                                else Inr (prop_of (desired_state r) k))"
  using assms by (simp add: StateReader_get_def js_get_prop_of)

theorem StateReader_get_per_field_witness:
  "\<not> js_nullish (desired_state \<lparr>desired_state = JObj [(''a'', JNum 1)],
                                 last_reading = JObj [(''a'', JNum 2), (''b'', JNum 3)]\<rparr>) \<and>
   StateReader_get \<lparr>desired_state = JObj [(''a'', JNum 1)], last_reading = JObj [(''a'', JNum 2), (''b'', JNum 3)]\<rparr> ''a''
     = Inr (JNum 1) \<and>
   StateReader_get \<lparr>desired_state = JObj [(''a'', JNum 1)], last_reading = JObj [(''a'', JNum 2), (''b'', JNum 3)]\<rparr> ''b''
     = Inr (JNum 3)"
  using StateReader_get_per_field
    [of "\<lparr>desired_state = JObj [(''a'', JNum 1)], last_reading = JObj [(''a'', JNum 2), (''b'', JNum 3)]\<rparr>" "''a''"]
    StateReader_get_per_field
    [of "\<lparr>desired_state = JObj [(''a'', JNum 1)], last_reading = JObj [(''a'', JNum 2), (''b'', JNum 3)]\<rparr>" "''b''"]
  by simp

text \<open>
  C9 (the reconciler refines the specification's merge): when both halves are objects,
  \<open>StateReader.get\<close> completes, and the field it answers, read as present or absent,
  is the one the partial map \<open>observed ++ desired\<close> gives.
\<close>

theorem StateReader_get_refines:
  assumes "\<not> js_nullish (desired_state r)" "\<not> js_nullish (last_reading r)"
  shows "map_sum id present (StateReader_get r k) = Inr ((obj_view (last_reading r) ++ obj_view (desired_state r)) k)"
  using assms by (auto simp: StateReader_get_def js_get_prop_of obj_view_def present_def map_add_def)

theorem StateReader_get_refines_witness:
  "map_sum id present (StateReader_get \<lparr>desired_state = JObj [(''a'', JNum 1), (''c'', JUndef)],
                                        last_reading = JObj [(''a'', JNum 2), (''b'', JNum 3)]\<rparr> ''b'') =
   Inr (Some (JNum 3))"
  using StateReader_get_refines
    [of "\<lparr>desired_state = JObj [(''a'', JNum 1), (''c'', JUndef)], last_reading = JObj [(''a'', JNum 2), (''b'', JNum 3)]\<rparr>" "''b''"]
  by (simp add: obj_view_def map_add_def)

text \<open>
  C10 (derived target temperature): on a well-formed device whose reconciled set points are
  numbers \<open>a\<close> and \<open>b\<close>, the normalized \<open>targetTemperature\<close> is their midpoint.
\<close>

theorem wink_target_midpoint:
  assumes "wink_wf dev" "reconciled dev ''max_set_point'' = JNum a" "reconciled dev ''min_set_point'' = JNum b"
  shows "bindE (deviceSchemaToTranslatorSchema dev) (temperature_of ''targetTemperature'') = Inr (JNum ((a + b) / 2))"
  using assms by (simp add: view_simps js_div_add_num)

theorem wink_target_midpoint_witness:
  "wink_wf (JObj thermo_fields) \<and> reconciled (JObj thermo_fields) ''max_set_point'' = JNum 24 \<and>
   reconciled (JObj thermo_fields) ''min_set_point'' = JNum 19 \<and>
   bindE (deviceSchemaToTranslatorSchema (JObj thermo_fields)) (temperature_of ''targetTemperature'') =
     Inr (JNum (43 / 2))"
  using wink_target_midpoint [of "JObj thermo_fields" 24 19] by (simp add: thermo_example_simps)

text \<open>
  C33 (missing set point): when the reconciled \<open>max_set_point\<close> is absent the normalizer
  still completes; \<open>targetTemperature\<close> is \<open>NaN\<close> and \<open>targetTemperatureHigh\<close> is
  \<open>undefined\<close>, where the spec expects a missing high set point to be reported.
\<close>

theorem wink_missing_max_NaN:
  assumes "wink_wf dev" "reconciled dev ''max_set_point'' = JUndef"
  shows "bindE (deviceSchemaToTranslatorSchema dev) (temperature_of ''targetTemperature'') = Inr JNaN \<and>
         bindE (deviceSchemaToTranslatorSchema dev) (temperature_of ''targetTemperatureHigh'') = Inr JUndef"
  using assms by (simp add: view_simps div_add_undefined)

theorem wink_missing_max_NaN_witness:
  "wink_wf (JObj [(''desired_state'', JObj []), (''last_reading'', JObj [(''units'', JObj [])])]) \<and>
   reconciled (JObj [(''desired_state'', JObj []), (''last_reading'', JObj [(''units'', JObj [])])]) ''max_set_point'' = JUndef \<and>
   bindE (deviceSchemaToTranslatorSchema (JObj [(''desired_state'', JObj []), (''last_reading'', JObj [(''units'', JObj [])])]))
         (temperature_of ''targetTemperature'') = Inr JNaN \<and>
   bindE (deviceSchemaToTranslatorSchema (JObj [(''desired_state'', JObj []), (''last_reading'', JObj [(''units'', JObj [])])]))
         (temperature_of ''targetTemperatureHigh'') = Inr JUndef"
  using wink_missing_max_NaN [of "JObj [(''desired_state'', JObj []), (''last_reading'', JObj [(''units'', JObj [])])]"]
  by (simp add: wink_wf_def reconciled_def)

text \<open>
  C39 (missing units): when neither half of the device has \<open>units\<close>, the normalizer throws
  the \<open>TypeError\<close> of reading \<open>temperature\<close> of \<open>undefined\<close>.
\<close>

theorem wink_units_missing:
  assumes "\<not> js_nullish dev" "\<not> js_nullish (prop_of dev ''desired_state'')" "\<not> js_nullish (prop_of dev ''last_reading'')"
    and "js_nullish (reconciled dev ''units'')"
  shows "deviceSchemaToTranslatorSchema dev = Inl (TypeError ''temperature'')"
  using assms by (simp add: deviceSchemaToTranslatorSchema_def js_get_prop_of StateReader_get_dev js_get_nullish)

theorem wink_units_missing_witness:
  "deviceSchemaToTranslatorSchema (JObj [(''desired_state'', JObj []), (''last_reading'', JObj [])]) =
     Inl (TypeError ''temperature'')"
  using wink_units_missing [of "JObj [(''desired_state'', JObj []), (''last_reading'', JObj [])]"]
  by (simp add: reconciled_def)

text \<open>
  C12 (Reverse Mapper): on an object payload whose present fields are objects, the device
  payload has a \<open>desired_state\<close> with exactly the entries of the fields present, in the
  order high, low, away, mode, and a \<open>name\<close> when \<open>n\<close> is present.
\<close>

theorem reverse_partial_update:
  assumes "\<not> js_nullish t"
    and "prop_of t ''targetTemperatureHigh'' \<noteq> JNull" and "prop_of t ''targetTemperatureLow'' \<noteq> JNull"
    and "prop_of t ''hvacMode'' \<noteq> JNull"
    and "prop_of t ''hvacMode'' \<noteq> JUndef \<Longrightarrow> \<not> js_nullish (prop_of (prop_of t ''hvacMode'') ''modes'')"
  shows "translatorSchemaToDeviceSchema t =
    Inr (JObj ((''desired_state'', JObj (
           field_if (prop_of t ''targetTemperatureHigh'') ''max_set_point''
             (prop_of (prop_of t ''targetTemperatureHigh'') ''temperature'') @
           field_if (prop_of t ''targetTemperatureLow'') ''min_set_point''
             (prop_of (prop_of t ''targetTemperatureLow'') ''temperature'') @
           field_if (prop_of t ''awayMode'') ''users_away'' (prop_of t ''awayMode'') @
           field_if (prop_of t ''hvacMode'') ''mode'' (prop_of (prop_of (prop_of t ''hvacMode'') ''modes'') ''0'')))
         # field_if (prop_of t ''n'') ''name'' (prop_of t ''n'')))"
  using translatorSchemaToDeviceSchema_fields [of t] assms
  by (simp add: mappable_def desired_entries_def)

theorem reverse_partial_update_witness:
  "translatorSchemaToDeviceSchema
     (JObj [(''n'', JStr ''Den''), (''targetTemperatureHigh'', JObj [(''temperature'', JNum 25)]),
            (''hvacMode'', JObj [(''modes'', JArr [JStr ''heat_only''])])]) =
   Inr (JObj [(''desired_state'', JObj [(''max_set_point'', JNum 25), (''mode'', JStr ''heat_only'')]),
              (''name'', JStr ''Den'')])"
  using reverse_partial_update
    [of "JObj [(''n'', JStr ''Den''), (''targetTemperatureHigh'', JObj [(''temperature'', JNum 25)]),
               (''hvacMode'', JObj [(''modes'', JArr [JStr ''heat_only''])])]"]
  by (simp add: field_if_def)

text \<open>
  Derived fields not writable: a payload carrying only \<open>targetTemperature\<close>,
  \<open>ecoMode\<close> and \<open>fanTimerActive\<close> maps to an empty \<open>desired_state\<close>.
\<close>

theorem reverse_drops_derived:
  "translatorSchemaToDeviceSchema (JObj [(''targetTemperature'', x), (''ecoMode'', y), (''fanTimerActive'', z)]) =
     Inr (JObj [(''desired_state'', JObj [])])"
  by (simp add: translatorSchemaToDeviceSchema_def put_if_defined_def)

text \<open>
  C38 (set high sends the raw value): on a configured module \<open>setTargetTemperatureHigh v\<close>
  sends exactly one PUT, whose \<open>desired_state\<close> is \<open>max_set_point: v\<close>; the
  \<open>units: 'C'\<close> of its payload is not sent.
\<close>

theorem setTargetTemperatureHigh_sends_raw:
  assumes "winkHelper m = Some tok"
  shows "fst (fst (setTargetTemperatureHigh (logged_wink env) v m ([], w))) =
    [WPutDeviceDetails (deviceType m) (deviceId m)
       (JObj [(''desired_state'', JObj [(''max_set_point'', v)])])]"
  using assms by (simp add: setTargetTemperatureHigh_def translatorSchemaToDeviceSchema_def put_if_defined_def
      call_wink_def wink_then_def logged_wink_def split: prod.splits)

theorem setTargetTemperatureHigh_sends_raw_witness:
  "fst (fst (setTargetTemperatureHigh (logged_wink wink_service) (JNum 70) thermo_module ([], JObj thermo_fields))) =
    [WPutDeviceDetails ''thermostats'' (JStr ''42'')
       (JObj [(''desired_state'', JObj [(''max_set_point'', JNum 70)])])]"
  using setTargetTemperatureHigh_sends_raw [of thermo_module "JStr ''tok''" wink_service "JNum 70" "JObj thermo_fields"]
  by (simp add: thermo_module_def)

text \<open>
  C11 (round trip, every writable field): posting a payload the Reverse Mapper accepts to a
  well-formed device through the Wink service, and normalizing the answer, reads back
  every field the payload specifies: the name, both set points, \<open>awayMode\<close> and the
  first of the \<open>hvacMode\<close> modes. When both set points are numbers, the derived target
  temperature is their midpoint.
\<close>

theorem wink_roundtrip:
  assumes "wink_wf (JObj d)" "map_of d ''desired_state'' = Some (JObj dd)" "winkHelper m = Some tok"
    and "mappable t"
  shows "let r = snd (postThermostatResURI wink_service t m (JObj d));
             hi = prop_of (prop_of t ''targetTemperatureHigh'') ''temperature'';
             lo = prop_of (prop_of t ''targetTemperatureLow'') ''temperature'';
             md = prop_of (prop_of (prop_of t ''hvacMode'') ''modes'') ''0''
         in (prop_of t ''n'' \<noteq> JUndef \<longrightarrow> bindE r (\<lambda>s. js_get s ''n'') = Inr (prop_of t ''n'')) \<and>
            (hi \<noteq> JUndef \<longrightarrow> bindE r (temperature_of ''targetTemperatureHigh'') = Inr hi) \<and>
            (lo \<noteq> JUndef \<longrightarrow> bindE r (temperature_of ''targetTemperatureLow'') = Inr lo) \<and>
            (\<forall>a b. hi = JNum a \<and> lo = JNum b \<longrightarrow>
               bindE r (temperature_of ''targetTemperature'') = Inr (JNum ((a + b) / 2))) \<and>
            (prop_of t ''awayMode'' \<noteq> JUndef \<longrightarrow> bindE r (\<lambda>s. js_get s ''awayMode'') = Inr (prop_of t ''awayMode'')) \<and>
            (md \<noteq> JUndef \<longrightarrow>
               bindE r (\<lambda>s. bindE (js_get s ''hvacMode'') (\<lambda>h. js_get h ''modes'')) = Inr (JArr [md]))"
proof -
  let ?hi = "prop_of (prop_of t ''targetTemperatureHigh'') ''temperature''"
  let ?lo = "prop_of (prop_of t ''targetTemperatureLow'') ''temperature''"
  let ?md = "prop_of (prop_of (prop_of t ''hvacMode'') ''modes'') ''0''"
  let ?ds = "desired_entries t"
  let ?nf = "field_if (prop_of t ''n'') ''name'' (prop_of t ''n'')"
  obtain d' where post: "snd (postThermostatResURI wink_service t m (JObj d)) = deviceSchemaToTranslatorSchema (JObj d')"
    and m': "map_of d' ''desired_state'' = Some (JObj (merge_props ?ds dd))"
    and f': "\<And>k. k \<noteq> ''desired_state'' \<Longrightarrow> map_of d' k = (map_of d ++ (map_of ?nf |` {''name''})) k"
    using post_world_fields [OF assms(2,3) translatorSchemaToDeviceSchema_fields [OF assms(4)]] by blast
  have ds': "prop_of (JObj d') ''desired_state'' = JObj (merge_props ?ds dd)"
    using m' by simp
  have lr': "prop_of (JObj d') ''last_reading'' = prop_of (JObj d) ''last_reading''"
    using f' [of "''last_reading''"] by (simp add: map_add_def restrict_map_def)
  have nm': "prop_of t ''n'' \<noteq> JUndef \<Longrightarrow> prop_of (JObj d') ''name'' = prop_of t ''n''"
    using f' [of "''name''"] by (simp add: map_add_def restrict_map_def field_if_def)
  have rec: "reconciled (JObj d') k =
      (if prop_of (JObj (merge_props ?ds dd)) k = JUndef then prop_of (prop_of (JObj d) ''last_reading'') k
       else prop_of (JObj (merge_props ?ds dd)) k)" for k
    unfolding reconciled_def ds' lr' by (rule refl)
  have rec_units: "reconciled (JObj d') ''units'' = reconciled (JObj d) ''units''"
  proof -
    have "''units'' \<notin> fst ` set ?ds" using desired_entries_keys(1) [of t] by auto
    then show ?thesis using assms(2) by (simp only: rec) (simp add: reconciled_def merge_props_other)
  qed
  have rec_w: "reconciled (JObj d') k = v" if "(k, v) \<in> set ?ds" "v \<noteq> JUndef" for k v
    using that by (simp add: rec merge_props_written [OF desired_entries_keys(2)])
  have "wink_wf (JObj d')"
    using assms(1) rec_units unfolding wink_wf_def ds' lr' by (simp add: js_nullish_def)
  then have r: "snd (postThermostatResURI wink_service t m (JObj d)) = Inr (wink_view (JObj d'))"
    by (simp add: post normalize_wf)
  have up: "prop_of v k \<noteq> JUndef \<Longrightarrow> v \<noteq> JUndef" for v k by auto
  have hi: "?hi \<noteq> JUndef \<Longrightarrow> reconciled (JObj d') ''max_set_point'' = ?hi"
    by (rule rec_w) (auto simp: desired_entries_def field_if_def dest: up)
  have lo: "?lo \<noteq> JUndef \<Longrightarrow> reconciled (JObj d') ''min_set_point'' = ?lo"
    by (rule rec_w) (auto simp: desired_entries_def field_if_def dest: up)
  have aw: "prop_of t ''awayMode'' \<noteq> JUndef \<Longrightarrow> reconciled (JObj d') ''users_away'' = prop_of t ''awayMode''"
    by (rule rec_w) (auto simp: desired_entries_def field_if_def)
  have md: "?md \<noteq> JUndef \<Longrightarrow> reconciled (JObj d') ''mode'' = ?md"
    by (rule rec_w) (auto simp: desired_entries_def field_if_def dest: up)
  show ?thesis
    unfolding Let_def r using nm' hi lo aw md
    by (simp add: wink_view_def thermostat_literal_def temperature_of_def Let_def js_div_add_num)
qed

theorem wink_roundtrip_witness:
  "let r = snd (postThermostatResURI wink_service
              (JObj [(''n'', JStr ''Den''), (''targetTemperatureHigh'', JObj [(''temperature'', JNum 26)]),
                     (''targetTemperatureLow'', JObj [(''temperature'', JNum 17)]), (''awayMode'', JBool True),
                     (''hvacMode'', JObj [(''modes'', JArr [JStr ''heat_only''])])])
              thermo_module (JObj thermo_fields))
   in bindE r (\<lambda>s. js_get s ''n'') = Inr (JStr ''Den'') \<and>
      bindE r (temperature_of ''targetTemperatureHigh'') = Inr (JNum 26) \<and>
      bindE r (temperature_of ''targetTemperatureLow'') = Inr (JNum 17) \<and>
      bindE r (temperature_of ''targetTemperature'') = Inr (JNum (43 / 2)) \<and>
      bindE r (\<lambda>s. js_get s ''awayMode'') = Inr (JBool True) \<and>
      bindE r (\<lambda>s. bindE (js_get s ''hvacMode'') (\<lambda>h. js_get h ''modes'')) = Inr (JArr [JStr ''heat_only''])"
  using wink_roundtrip [where d = thermo_fields
      and dd = "[(''max_set_point'', JNum 24), (''min_set_point'', JNum 19)]"
      and m = thermo_module and tok = "JStr ''tok''"
      and t = "JObj [(''n'', JStr ''Den''), (''targetTemperatureHigh'', JObj [(''temperature'', JNum 26)]),
                     (''targetTemperatureLow'', JObj [(''temperature'', JNum 17)]), (''awayMode'', JBool True),
                     (''hvacMode'', JObj [(''modes'', JArr [JStr ''heat_only''])])]"]
  by (simp add: thermo_example_simps mappable_def js_nullish_def)

text \<open>
  C13 (writes to unrelated fields commute): two payloads the Reverse Mapper accepts that
  set disjoint writable fields, posted one after the other through the Wink service,
  leave a device that normalizes to the same translator object in either order. The
  Reverse Mapper sends only the fields a payload specifies, so neither write clobbers
  the other.
\<close>

theorem wink_posts_commute:
  assumes "map_of d ''desired_state'' = Some (JObj dd)" "winkHelper m = Some tok"
    and "mappable ta" "mappable tb" "set (written_fields ta) \<inter> set (written_fields tb) = {}"
  shows "deviceSchemaToTranslatorSchema
           (fst (postThermostatResURI wink_service tb m (fst (postThermostatResURI wink_service ta m (JObj d))))) =
         deviceSchemaToTranslatorSchema
           (fst (postThermostatResURI wink_service ta m (fst (postThermostatResURI wink_service tb m (JObj d)))))"
  using written_fields_disjoint [OF assms(5)]
  by (rule wink_posts_commute_puts [OF assms(1,2) translatorSchemaToDeviceSchema_fields [OF assms(3)]
        translatorSchemaToDeviceSchema_fields [OF assms(4)]])

theorem wink_posts_commute_witness:
  "deviceSchemaToTranslatorSchema
     (fst (postThermostatResURI wink_service (JObj [(''targetTemperatureLow'', JObj [(''temperature'', JNum 17)])])
        thermo_module (fst (postThermostatResURI wink_service
          (JObj [(''n'', JStr ''Den''), (''targetTemperatureHigh'', JObj [(''temperature'', JNum 26)])])
          thermo_module (JObj thermo_fields))))) =
   deviceSchemaToTranslatorSchema
     (fst (postThermostatResURI wink_service
          (JObj [(''n'', JStr ''Den''), (''targetTemperatureHigh'', JObj [(''temperature'', JNum 26)])])
        thermo_module (fst (postThermostatResURI wink_service (JObj [(''targetTemperatureLow'', JObj [(''temperature'', JNum 17)])])
          thermo_module (JObj thermo_fields)))))"
  using wink_posts_commute [where d = thermo_fields
      and dd = "[(''max_set_point'', JNum 24), (''min_set_point'', JNum 19)]"
      and m = thermo_module and tok = "JStr ''tok''"
      and ta = "JObj [(''n'', JStr ''Den''), (''targetTemperatureHigh'', JObj [(''temperature'', JNum 26)])]"
      and tb = "JObj [(''targetTemperatureLow'', JObj [(''temperature'', JNum 17)])]"]
  by (simp add: thermo_example_simps mappable_def written_fields_def js_nullish_def)

text \<open>
  Constructor: a device whose \<open>props\<close> is an object with string \<open>access_token\<close>
  and \<open>id\<close> configures the module with that id and a helper holding the token.
\<close>

theorem thermostat_Translator_ok:
  assumes "js_typeof dev = ''object''" "\<not> js_nullish dev"
    and "js_typeof (prop_of dev ''props'') = ''object''" "\<not> js_nullish (prop_of dev ''props'')"
    and "js_typeof (prop_of (prop_of dev ''props'') ''access_token'') = ''string''"
    and "js_typeof (prop_of (prop_of dev ''props'') ''id'') = ''string''"
  shows "thermostat_Translator dev m =
    Inr (m\<lparr>deviceId := prop_of (prop_of dev ''props'') ''id'',
           winkHelper := Some (prop_of (prop_of dev ''props'') ''access_token'')\<rparr>)"
  using assms by (simp add: thermostat_Translator_def wink_validateArgumentType_def js_get_prop_of)

theorem thermostat_Translator_ok_witness:
  "thermostat_Translator (JObj [(''props'', JObj [(''access_token'', JStr ''tok''), (''id'', JStr ''42'')])])
     wink_module_init =
   Inr \<lparr>deviceId = JStr ''42'', deviceType = ''thermostats'', winkHelper = Some (JStr ''tok'')\<rparr>"
  using thermostat_Translator_ok
    [of "JObj [(''props'', JObj [(''access_token'', JStr ''tok''), (''id'', JStr ''42'')])]" wink_module_init]
  by (simp add: wink_module_init_def)

text \<open>
  C14 (shared module state): \<open>deviceId\<close> and \<open>winkHelper\<close> are module variables, so
  constructing a second thermostat translator leaves no trace of the first. Every later
  call, through either instance, addresses the second device with the second device's
  access token: reads and writes meant for the first thermostat reach the second one.
\<close>

theorem wink_second_translator_redirects:
  assumes "thermostat_Translator devA m0 = Inr mA" "thermostat_Translator devB mA = Inr mB"
  shows "thermostat_Translator devB m0 = Inr mB \<and>
         deviceId mB = prop_of (prop_of devB ''props'') ''id'' \<and>
         call_wink env mB c w = env (prop_of (prop_of devB ''props'') ''access_token'') c w"
  using thermostat_Translator_Inr [OF assms(1), of m0] thermostat_Translator_Inr [OF assms(2), of m0]
  by (simp add: call_wink_def)

theorem wink_second_translator_redirects_witness:
  "thermostat_Translator (JObj [(''props'', JObj [(''access_token'', JStr ''tokA''), (''id'', JStr ''41'')])])
     wink_module_init = Inr \<lparr>deviceId = JStr ''41'', deviceType = ''thermostats'', winkHelper = Some (JStr ''tokA'')\<rparr> \<and>
   thermostat_Translator (JObj [(''props'', JObj [(''access_token'', JStr ''tokB''), (''id'', JStr ''42'')])])
     \<lparr>deviceId = JStr ''41'', deviceType = ''thermostats'', winkHelper = Some (JStr ''tokA'')\<rparr> =
     Inr \<lparr>deviceId = JStr ''42'', deviceType = ''thermostats'', winkHelper = Some (JStr ''tokB'')\<rparr> \<and>
   call_wink wink_service \<lparr>deviceId = JStr ''42'', deviceType = ''thermostats'', winkHelper = Some (JStr ''tokB'')\<rparr>
     (WGetDeviceDetails ''thermostats'' (JStr ''42'')) (JObj thermo_fields) =
     wink_service (JStr ''tokB'') (WGetDeviceDetails ''thermostats'' (JStr ''42'')) (JObj thermo_fields)"
proof -
  have a: "thermostat_Translator (JObj [(''props'', JObj [(''access_token'', JStr ''tokA''), (''id'', JStr ''41'')])])
     wink_module_init = Inr \<lparr>deviceId = JStr ''41'', deviceType = ''thermostats'', winkHelper = Some (JStr ''tokA'')\<rparr>"
    by (simp add: thermostat_Translator_def wink_validateArgumentType_def wink_module_init_def)
  have b: "thermostat_Translator (JObj [(''props'', JObj [(''access_token'', JStr ''tokB''), (''id'', JStr ''42'')])])
     \<lparr>deviceId = JStr ''41'', deviceType = ''thermostats'', winkHelper = Some (JStr ''tokA'')\<rparr> =
     Inr \<lparr>deviceId = JStr ''42'', deviceType = ''thermostats'', winkHelper = Some (JStr ''tokB'')\<rparr>"
    by (simp add: thermostat_Translator_def wink_validateArgumentType_def)
  show ?thesis
    using wink_second_translator_redirects [OF a b, of wink_service "WGetDeviceDetails ''thermostats'' (JStr ''42'')"
        "JObj thermo_fields"] a b by simp
qed

end
