(* ===== verification/SmartThingsHub.thy ===== *)
theory SmartThingsHub
  imports JsValue "HOL-Library.State_Monad"
begin

named_theorems hub_run \<open>run_state equations of the hub combinators\<close>
named_theorems hub_frame \<open>frame rules: the hub fields a computation can change\<close>

text \<open>
  The SmartThings hub translator,
  src/org.opent2t.sample.hub.superpopular/com.smartthings.hub/js/thingTranslator.js.
  A \<open>Translator\<close> instance is the record \<open>st_hub\<close> of its five fields; the only field a
  method assigns is \<open>_baseUrl\<close>, the endpoint cache. Each asynchronous method is a
  computation of HOL-Library's state monad over the instance and the world of the network,
  whose value is \<open>jval js\<close>: a rejected promise is \<open>Inl\<close>, a resolved one \<open>Inr\<close>,
  and \<open>st_bind\<close> is \<open>.then\<close>. The \<open>request-promise\<close> transport and the builtins
  \<open>JSON.parse\<close> and \<open>JSON.stringify\<close> are parameters collected in \<open>st_env\<close>.
\<close>

section \<open>Instance state, requests and environment\<close>

record st_hub =
  st_accessToken :: jval
  st_baseUrl :: jval
  st_devicesPath :: string
  st_updatePath :: string
  st_name :: string

text \<open>The \<open>options\<close> object \<open>_makeRequest\<close> passes to \<open>request\<close>.\<close>

record req_options =
  ro_url :: jval
  ro_method :: string
  ro_headers :: "(string \<times> jval) list"
  ro_followAllRedirects :: bool
  ro_body :: "jval option"

text \<open>
  \<open>st_request opts w\<close> is \<open>request(opts)\<close> in world \<open>w\<close>: the body of the answer or
  the rejection; \<open>json_parse\<close> throws \<open>SyntaxError\<close> as \<open>Inl\<close>; \<open>json_stringify\<close>
  answers a string, or \<open>undefined\<close> for \<open>undefined\<close>.
\<close>

record 'n st_env =
  st_request :: "req_options \<Rightarrow> 'n \<Rightarrow> 'n \<times> string js"
  json_parse :: "string \<Rightarrow> jval js"
  json_stringify :: "jval \<Rightarrow> jval"

type_synonym ('n, 'a) hubM = "(st_hub \<times> 'n, 'a js) state"

section \<open>Promise combinators\<close>

definition st_return :: "'a \<Rightarrow> ('n, 'a) hubM" where
  "st_return x = State_Monad.return (Inr x)"

definition st_lift :: "'a js \<Rightarrow> ('n, 'a) hubM" where
  "st_lift r = State_Monad.return r"

text \<open>\<open>p.then(f)\<close>: a rejection skips \<open>f\<close>.\<close>

definition st_bind :: "('n, 'a) hubM \<Rightarrow> ('a \<Rightarrow> ('n, 'b) hubM) \<Rightarrow> ('n, 'b) hubM" where
  "st_bind m f = State_Monad.bind m (\<lambda>r. case r of Inl e \<Rightarrow> State_Monad.return (Inl e) | Inr x \<Rightarrow> f x)"

text \<open>Reading \<open>this\<close>, and assigning \<open>this._baseUrl\<close>.\<close>

definition st_this :: "('n, st_hub) hubM" where
  "st_this = State (\<lambda>s. (Inr (fst s), s))"

definition st_set_baseUrl :: "jval \<Rightarrow> ('n, unit) hubM" where
  "st_set_baseUrl u = State (\<lambda>(h, w). (Inr (), (h\<lparr>st_baseUrl := u\<rparr>, w)))"

section \<open>Constructor, \<open>getN\<close>, \<open>refreshAuthToken\<close>, \<open>_getOpent2tInfo\<close>\<close>

definition smartthings_Translator :: "jval \<Rightarrow> st_hub" where
  "smartthings_Translator accessTokenInfo =
     \<lparr>st_accessToken = accessTokenInfo, st_baseUrl = JStr '''', st_devicesPath = ''/devices'',
      st_updatePath = ''/update'', st_name = ''SmartThings Hub''\<rparr>"

definition getN :: "st_hub \<Rightarrow> jval" where
  "getN h = JStr (st_name h)"

text \<open>\<open>x == undefined || x == null\<close> holds exactly for the nullish values.\<close>

definition refreshAuthToken :: "jval \<Rightarrow> jval js" where
  "refreshAuthToken accessTokenInfo =
     (if js_nullish accessTokenInfo \<or> js_nullish accessTokenInfo
      then Inl (Error ''Invalid accessTokenInfo object: Undefined/Null object'')
      else bindE (js_get accessTokenInfo ''length'') (\<lambda>len.
        if \<not> js_seq len (JNum 5) then Inl (Error ''Invalid accessTokenInfo object: missing element(s).'')
        else Inr accessTokenInfo))"

definition getOpent2tInfo :: "jval \<Rightarrow> jval" where
  "getOpent2tInfo deviceType =
     (if js_seq deviceType (JStr ''light'') then
        JObj [(''schema'', JStr ''org.opent2t.sample.lamp.superpopular''),
              (''translator'', JStr ''opent2t-translator-com-smartthings-lightbulb'')]
      else if js_seq deviceType (JStr ''switch'') then
        JObj [(''schema'', JStr ''org.opent2t.sample.binaryswitch.superpopular''),
              (''translator'', JStr ''opent2t-translator-com-smartthings-binaryswitch'')]
      else if js_seq deviceType (JStr ''thermostat'') then
        JObj [(''schema'', JStr ''org.opent2t.sample.thermostat.superpopular''),
              (''translator'', JStr ''opent2t-translator-com-smartthings-thermostat'')]
      else JUndef)"

section \<open>\<open>_makeRequest\<close>\<close>

text \<open>The synchronous part: the request URI, the headers and the options object.\<close>

definition request_options :: "st_hub \<Rightarrow> jval \<Rightarrow> string \<Rightarrow> jval \<Rightarrow> req_options js" where
  "request_options h path method content =
     (let requestUri = js_add (st_baseUrl h) path in
      bindE (js_get (st_accessToken h) ''accessToken'') (\<lambda>accessToken.
      let headers = [(''Authorization'', js_add (JStr ''Bearer '') accessToken), (''Accept'', JStr ''application/json'')] in
      bindE (if js_truthy content then
               bindE (js_get content ''length'') (\<lambda>len.
                 Inr (set_prop (set_prop headers ''Content-Type'' (JStr ''application/json'')) ''Content-length'' len))
             else Inr headers) (\<lambda>headers'.
      Inr \<lparr>ro_url = requestUri, ro_method = method, ro_headers = headers', ro_followAllRedirects = True,
           ro_body = (if js_truthy content then Some content else None)\<rparr>)))"

text \<open>The \<open>.then\<close> handler of the request: PUT and DELETE report success by an empty body.\<close>

definition response_value :: "'n st_env \<Rightarrow> string \<Rightarrow> string \<Rightarrow> jval js" where
  "response_value env method body =
     (if method = ''PUT'' \<or> method = ''DELETE'' then
        (if length body = 0 then Inr (JStr ''succeed'') else Inr (JStr ''Unkown error''))
      else json_parse env body)"

text \<open>The \<open>.catch\<close> handler logs and rethrows, so a rejection passes through unchanged.\<close>

definition makeRequest :: "'n st_env \<Rightarrow> jval \<Rightarrow> string \<Rightarrow> jval \<Rightarrow> ('n, jval) hubM" where
  "makeRequest env path method content =
     State (\<lambda>(h, w).
       case request_options h path method content of
         Inl e \<Rightarrow> (Inl e, (h, w))
       | Inr options \<Rightarrow>
           (case st_request env options w of
              (w', Inl err) \<Rightarrow> (Inl err, (h, w'))
            | (w', Inr body) \<Rightarrow> (response_value env method body, (h, w'))))"

section \<open>The endpoint cache\<close>

definition endpoint_url :: "jval \<Rightarrow> jval js" where
  "endpoint_url accessToken =
     bindE (js_get accessToken ''clientId'') (\<lambda>clientId.
     bindE (js_get accessToken ''accessToken'') (\<lambda>token.
       Inr (js_add (js_add (js_add (JStr ''https://graph.api.smartthings.com/api/smartapps/endpoints/'') clientId)
                           (JStr ''?access_token='')) token)))"

text \<open>The handler of the endpoint lookup: the \<open>uri\<close> of the first answer, if any.\<close>

definition endpoint_of_responses :: "jval \<Rightarrow> jval js" where
  "endpoint_of_responses responses =
     bindE (js_get responses ''length'') (\<lambda>len.
       if \<not> js_seq len (JNum 0) then
         bindE (js_get responses ''0'') (\<lambda>r0. bindE (js_get r0 ''uri'') (\<lambda>uri.
           if \<not> js_seq uri JUndef then bindE (js_get responses ''0'') (\<lambda>r0'. js_get r0' ''uri'')
           else Inr JUndef))
       else Inr JUndef)"

definition getEndpoint :: "'n st_env \<Rightarrow> ('n, jval) hubM" where
  "getEndpoint env =
     st_bind st_this (\<lambda>h.
     st_bind (st_lift (endpoint_url (st_accessToken h))) (\<lambda>endpointUrl.
     st_bind (makeRequest env endpointUrl ''GET'' JUndef) (\<lambda>responses.
       st_lift (endpoint_of_responses responses))))"

definition hasValidEndpoint :: "'n st_env \<Rightarrow> ('n, jval) hubM" where
  "hasValidEndpoint env =
     st_bind st_this (\<lambda>h.
       if js_seq (st_baseUrl h) (JStr '''') then
         st_bind (getEndpoint env) (\<lambda>endpointURI.
           if js_seq endpointURI JUndef then st_return (JBool False)
           else st_bind (st_set_baseUrl endpointURI) (\<lambda>_. st_return (JBool True)))
       else st_return (JBool True))"

section \<open>Device operations\<close>

text \<open>
  \<open>isValid\<close> is always a boolean, so \<open>isValid == false\<close> is \<open>isValid = JBool False\<close>.
\<close>

definition getDeviceDetailsAsync :: "'n st_env \<Rightarrow> jval \<Rightarrow> ('n, jval) hubM" where
  "getDeviceDetailsAsync env deviceId =
     st_bind (hasValidEndpoint env) (\<lambda>isValid.
       if isValid = JBool False then st_return JUndef
       else st_bind st_this (\<lambda>h.
         st_bind (makeRequest env (js_add (js_add (JStr (st_devicesPath h)) (JStr ''/'')) deviceId) ''GET'' JUndef)
           (\<lambda>device. st_return device)))"

definition putDeviceDetailsAsync :: "'n st_env \<Rightarrow> jval \<Rightarrow> jval \<Rightarrow> ('n, jval) hubM" where
  "putDeviceDetailsAsync env deviceId putPayload =
     st_bind (hasValidEndpoint env) (\<lambda>isValid.
       if isValid = JBool False then st_return JUndef
       else st_bind st_this (\<lambda>h.
         let putPayloadString = json_stringify env putPayload in
         st_bind (makeRequest env (js_add (js_add (JStr (st_updatePath h)) (JStr ''/'')) deviceId) ''PUT'' putPayloadString)
           (\<lambda>result. if js_seq result (JStr ''succeed'') then getDeviceDetailsAsync env deviceId
                     else st_return JUndef)))"

definition subscribe :: "'n st_env \<Rightarrow> jval \<Rightarrow> ('n, jval) hubM" where
  "subscribe env deviceId =
     st_bind (hasValidEndpoint env) (\<lambda>isValid.
       if isValid = JBool False then st_return JUndef
       else makeRequest env (js_add (JStr ''/subscription/'') deviceId) ''POST'' (JStr ''''))"

definition unsubscribe :: "'n st_env \<Rightarrow> jval \<Rightarrow> ('n, jval) hubM" where
  "unsubscribe env deviceId =
     st_bind (hasValidEndpoint env) (\<lambda>isValid.
       if isValid = JBool False then st_return JUndef
       else makeRequest env (js_add (JStr ''/subscription/'') deviceId) ''DELETE'' JUndef)"

section \<open>Device listing\<close>

text \<open>
  The class defines no method \<open>_providerSchemaToPlatformSchema\<close>: the property is
  \<open>undefined\<close> on the instance and calling it throws a \<open>TypeError\<close>.
\<close>

definition providerSchemaToPlatformSchema_call :: "jval \<Rightarrow> jval \<Rightarrow> jval js" where
  "providerSchemaToPlatformSchema_call providerSchema expand =
     Inl (TypeError ''this._providerSchemaToPlatformSchema is not a function'')"

text \<open>With a payload the call throws synchronously; without, after the device list arrives.\<close>

definition getPlatforms :: "'n st_env \<Rightarrow> jval \<Rightarrow> jval \<Rightarrow> ('n, jval) hubM" where
  "getPlatforms env expand payload =
     (if \<not> js_nullish payload then st_lift (providerSchemaToPlatformSchema_call payload expand)
      else st_bind (hasValidEndpoint env) (\<lambda>isValid.
        if isValid = JBool False then st_return JUndef
        else st_bind st_this (\<lambda>h.
          st_bind (makeRequest env (JStr (st_devicesPath h)) ''GET'' JUndef) (\<lambda>devices.
            st_lift (providerSchemaToPlatformSchema_call devices expand)))))"

definition hub_get :: "'n st_env \<Rightarrow> jval \<Rightarrow> jval \<Rightarrow> ('n, jval) hubM" where
  "hub_get env expand payload = getPlatforms env expand payload"

section \<open>Operations in sequence\<close>

text \<open>
  The methods a caller can start on a hub instance, and the states reachable from a
  freshly constructed instance by running them one after another, each awaited before the
  next starts.
\<close>

datatype hub_op =
    OpGetPlatforms jval jval
  | OpGetDeviceDetails jval
  | OpPutDeviceDetails jval jval
  | OpSubscribe jval
  | OpUnsubscribe jval

fun run_op :: "'n st_env \<Rightarrow> hub_op \<Rightarrow> ('n, jval) hubM" where
  "run_op env (OpGetPlatforms e p) = getPlatforms env e p"
| "run_op env (OpGetDeviceDetails d) = getDeviceDetailsAsync env d"
| "run_op env (OpPutDeviceDetails d p) = putDeviceDetailsAsync env d p"
| "run_op env (OpSubscribe d) = subscribe env d"
| "run_op env (OpUnsubscribe d) = unsubscribe env d"

inductive hub_reach :: "'n st_env \<Rightarrow> jval \<Rightarrow> st_hub \<times> 'n \<Rightarrow> bool" for env tok where
  init: "hub_reach env tok (smartthings_Translator tok, w)"
| step: "hub_reach env tok s \<Longrightarrow> run_state (run_op env op) s = (r, s') \<Longrightarrow> hub_reach env tok s'"

text \<open>
  The final state after running operations one after another, and the operations that
  consult the endpoint: all except \<open>getPlatforms\<close> with a payload.
\<close>

fun run_ops :: "'n st_env \<Rightarrow> hub_op list \<Rightarrow> st_hub \<times> 'n \<Rightarrow> st_hub \<times> 'n" where
  "run_ops env [] s = s"
| "run_ops env (op # ops) s = run_ops env ops (snd (run_state (run_op env op) s))"

definition uses_endpoint :: "hub_op \<Rightarrow> bool" where
  "uses_endpoint op = (case op of OpGetPlatforms e p \<Rightarrow> js_nullish p | _ \<Rightarrow> True)"

section \<open>Frame predicates\<close>

text \<open>
  \<open>changes_only_baseUrl m\<close>: running \<open>m\<close> leaves every field but \<open>_baseUrl\<close> as it
  was. \<open>keeps_cached m\<close>: on an instance whose endpoint is cached, \<open>m\<close> leaves the
  instance unchanged.
\<close>

definition changes_only_baseUrl :: "('n, 'a) hubM \<Rightarrow> bool" where
  "changes_only_baseUrl m \<longleftrightarrow>
     (\<forall>h w. (fst (snd (run_state m (h, w))))\<lparr>st_baseUrl := JStr ''''\<rparr> = h\<lparr>st_baseUrl := JStr ''''\<rparr>)"

definition keeps_cached :: "('n, 'a) hubM \<Rightarrow> bool" where
  "keeps_cached m \<longleftrightarrow> (\<forall>h w. st_baseUrl h \<noteq> JStr '''' \<longrightarrow> fst (snd (run_state m (h, w))) = h)"

section \<open>A server answering by URL, and examples\<close>

text \<open>
  \<open>server_env srv parse stringify\<close> is a transport whose world is the list of requests
  sent so far and whose answer depends on the URL and the method.
\<close>

definition server_env ::
  "(jval \<Rightarrow> string \<Rightarrow> string js) \<Rightarrow> (string \<Rightarrow> jval js) \<Rightarrow> (jval \<Rightarrow> jval) \<Rightarrow> req_options list st_env" where
  "server_env srv parse stringify =
     \<lparr>st_request = (\<lambda>opts reqs. (reqs @ [opts], srv (ro_url opts) (ro_method opts))),
      json_parse = parse, json_stringify = stringify\<rparr>"

abbreviation endpoint_request_url :: "st_hub \<Rightarrow> jval" where
  "endpoint_request_url h \<equiv> js_add (JStr '''') (js_add (js_add (js_add
     (JStr ''https://graph.api.smartthings.com/api/smartapps/endpoints/'') (prop_of (st_accessToken h) ''clientId''))
     (JStr ''?access_token='')) (prop_of (st_accessToken h) ''accessToken''))"

definition demo_token :: jval where
  "demo_token = JObj [(''accessToken'', JStr ''tok''), (''clientId'', JStr ''cid'')]"

definition demo_srv :: "jval \<Rightarrow> string \<Rightarrow> string js" where
  "demo_srv url method =
     (if method = ''GET'' then
        (if url = JStr ''https://graph.api.smartthings.com/api/smartapps/endpoints/cid?access_token=tok''
         then Inr ''endpoints'' else Inr ''device'')
      else Inr '''')"

definition demo_parse :: "string \<Rightarrow> jval js" where
  "demo_parse s =
     (if s = ''endpoints'' then Inr (JArr [JObj [(''uri'', JStr ''https://st.example/api'')]])
      else if s = ''device'' then Inr (JObj [(''id'', JStr ''d1'')])
      else if s = ''none'' then Inr (JArr [])
      else Inl SyntaxError)"

definition demo_env :: "req_options list st_env" where
  "demo_env = server_env demo_srv demo_parse (\<lambda>v. JStr ''{}'')"

definition demo_hub :: st_hub where
  "demo_hub = (smartthings_Translator demo_token)\<lparr>st_baseUrl := JStr ''https://st.example/api''\<rparr>"

definition demo_get_opts :: req_options where
  "demo_get_opts =
     \<lparr>ro_url = JStr ''https://st.example/api/devices/d1'', ro_method = ''GET'',
      ro_headers = [(''Authorization'', JStr ''Bearer tok''), (''Accept'', JStr ''application/json'')],
      ro_followAllRedirects = True, ro_body = None\<rparr>"

definition demo_put_opts :: req_options where
  "demo_put_opts =
     \<lparr>ro_url = JStr ''https://st.example/api/update/d1'', ro_method = ''PUT'',
      ro_headers = [(''Authorization'', JStr ''Bearer tok''), (''Accept'', JStr ''application/json''),
                    (''Content-Type'', JStr ''application/json''), (''Content-length'', JNum 2)],
      ro_followAllRedirects = True, ro_body = Some (JStr ''{}'')\<rparr>"


section \<open>Lemmas\<close>

lemma run_st_return [simp, hub_run]: "run_state (st_return x) s = (Inr x, s)"
  by (simp add: st_return_def)

lemma run_st_lift [simp, hub_run]: "run_state (st_lift r) s = (r, s)"
  by (simp add: st_lift_def)

lemma run_st_this [simp, hub_run]: "run_state st_this s = (Inr (fst s), s)"
  by (simp add: st_this_def)

lemma run_st_set_baseUrl [simp, hub_run]: "run_state (st_set_baseUrl u) (h, w) = (Inr (), (h\<lparr>st_baseUrl := u\<rparr>, w))"
  by (simp add: st_set_baseUrl_def)

lemma run_st_bind [hub_run]:
  "run_state (st_bind m f) s =
     (case run_state m s of (Inl e, s') \<Rightarrow> (Inl e, s') | (Inr x, s') \<Rightarrow> run_state (f x) s')"
  by (simp add: st_bind_def split: prod.split sum.split)

lemma run_makeRequest [hub_run]:
  "run_state (makeRequest env path method content) (h, w) =
     (case request_options h path method content of
        Inl e \<Rightarrow> (Inl e, (h, w))
      | Inr options \<Rightarrow> (case st_request env options w of (w', r) \<Rightarrow> (bindE r (response_value env method), (h, w'))))"
  by (simp add: makeRequest_def split: sum.split prod.split)

lemma hasValidEndpoint_cached:
  "st_baseUrl h \<noteq> JStr '''' \<Longrightarrow> run_state (hasValidEndpoint env) (h, w) = (Inr (JBool True), (h, w))"
  by (simp add: hasValidEndpoint_def run_st_bind)

lemma hasValidEndpoint_fresh:
  "st_baseUrl h = JStr '''' \<Longrightarrow> run_state (hasValidEndpoint env) (h, w) =
     (case run_state (getEndpoint env) (h, w) of
        (Inl e, s') \<Rightarrow> (Inl e, s')
      | (Inr u, (h', w')) \<Rightarrow> if u = JUndef then (Inr (JBool False), (h', w')) else (Inr (JBool True), (h'\<lparr>st_baseUrl := u\<rparr>, w')))"
  by (simp add: hasValidEndpoint_def run_st_bind split: prod.split sum.split)

lemma changes_only_baseUrl_bind [intro]:
  "changes_only_baseUrl m \<Longrightarrow> (\<And>x. changes_only_baseUrl (f x)) \<Longrightarrow> changes_only_baseUrl (st_bind m f)"
  unfolding changes_only_baseUrl_def run_st_bind
  by (auto split: prod.split sum.split) (metis fst_conv snd_conv)+

lemma changes_only_baseUrl_atoms [hub_frame]:
  "changes_only_baseUrl (st_return x)" "changes_only_baseUrl (st_lift r)" "changes_only_baseUrl st_this"
  "changes_only_baseUrl (st_set_baseUrl u)" "changes_only_baseUrl (makeRequest env p m c)"
  by (auto simp: changes_only_baseUrl_def run_makeRequest split: sum.split prod.split)

lemma changes_only_baseUrl_if [hub_frame]:
  "changes_only_baseUrl a \<Longrightarrow> changes_only_baseUrl b \<Longrightarrow> changes_only_baseUrl (if c then a else b)"
  by simp

lemma changes_only_baseUrl_ops:
  "changes_only_baseUrl (hasValidEndpoint env)" "changes_only_baseUrl (getDeviceDetailsAsync env d)"
  "changes_only_baseUrl (putDeviceDetailsAsync env d p)" "changes_only_baseUrl (subscribe env d)"
  "changes_only_baseUrl (unsubscribe env d)" "changes_only_baseUrl (getPlatforms env e p)"
  "changes_only_baseUrl (getEndpoint env)"
proof -
  show ge: "changes_only_baseUrl (getEndpoint env)"
    unfolding getEndpoint_def by (intro hub_frame changes_only_baseUrl_bind)
  show hv: "changes_only_baseUrl (hasValidEndpoint env)"
    unfolding hasValidEndpoint_def by (intro hub_frame changes_only_baseUrl_bind ge)
  show gd: "changes_only_baseUrl (getDeviceDetailsAsync env d)" for d
    unfolding getDeviceDetailsAsync_def by (intro hub_frame changes_only_baseUrl_bind hv)
  show "changes_only_baseUrl (putDeviceDetailsAsync env d p)"
    unfolding putDeviceDetailsAsync_def Let_def by (intro hub_frame changes_only_baseUrl_bind hv gd)
  show "changes_only_baseUrl (subscribe env d)"
    unfolding subscribe_def by (intro hub_frame changes_only_baseUrl_bind hv)
  show "changes_only_baseUrl (unsubscribe env d)"
    unfolding unsubscribe_def by (intro hub_frame changes_only_baseUrl_bind hv)
  show "changes_only_baseUrl (getPlatforms env e p)"
    unfolding getPlatforms_def by (intro hub_frame changes_only_baseUrl_bind hv)
qed

lemma keeps_cached_bind [intro]:
  "keeps_cached m \<Longrightarrow> (\<And>x. keeps_cached (f x)) \<Longrightarrow> keeps_cached (st_bind m f)"
  unfolding keeps_cached_def run_st_bind
  by (auto split: prod.split sum.split) (metis fst_conv snd_conv)+

lemma keeps_cached_atoms [hub_frame]:
  "keeps_cached (st_return x)" "keeps_cached (st_lift r)" "keeps_cached st_this"
  "keeps_cached (makeRequest env p m c)" "keeps_cached (hasValidEndpoint env)"
  by (auto simp: keeps_cached_def run_makeRequest hasValidEndpoint_cached split: sum.split prod.split)

lemma keeps_cached_if [hub_frame]:
  "keeps_cached a \<Longrightarrow> keeps_cached b \<Longrightarrow> keeps_cached (if c then a else b)"
  by simp

lemma keeps_cached_ops:
  "keeps_cached (getDeviceDetailsAsync env d)"
  "keeps_cached (putDeviceDetailsAsync env d p)" "keeps_cached (subscribe env d)"
  "keeps_cached (unsubscribe env d)" "keeps_cached (getPlatforms env e p)"
proof -
  show gd: "keeps_cached (getDeviceDetailsAsync env d)" for d
    unfolding getDeviceDetailsAsync_def by (intro hub_frame keeps_cached_bind)
  show "keeps_cached (putDeviceDetailsAsync env d p)"
    unfolding putDeviceDetailsAsync_def Let_def by (intro hub_frame keeps_cached_bind gd)
  show "keeps_cached (subscribe env d)"
    unfolding subscribe_def by (intro hub_frame keeps_cached_bind)
  show "keeps_cached (unsubscribe env d)"
    unfolding unsubscribe_def by (intro hub_frame keeps_cached_bind)
  show "keeps_cached (getPlatforms env e p)"
    unfolding getPlatforms_def by (intro hub_frame keeps_cached_bind)
qed

lemma run_op_frame: "changes_only_baseUrl (run_op env op)" "keeps_cached (run_op env op)"
  by (cases op; simp add: changes_only_baseUrl_ops keeps_cached_ops)+

lemma server_env_simps [simp]:
  "st_request (server_env srv parse str) opts reqs = (reqs @ [opts], srv (ro_url opts) (ro_method opts))"
  "json_parse (server_env srv parse str) = parse" "json_stringify (server_env srv parse str) = str"
  by (simp_all add: server_env_def)

lemma response_value_parse:
  "method \<noteq> ''PUT'' \<Longrightarrow> method \<noteq> ''DELETE'' \<Longrightarrow> response_value env method = json_parse env"
  by (simp add: response_value_def fun_eq_iff)

lemma request_options_plain:
  "\<not> js_nullish (st_accessToken h) \<Longrightarrow> \<not> js_truthy c \<Longrightarrow>
   request_options h p m c = Inr \<lparr>ro_url = js_add (st_baseUrl h) p, ro_method = m,
      ro_headers = [(''Authorization'', js_add (JStr ''Bearer '') (prop_of (st_accessToken h) ''accessToken'')),
                    (''Accept'', JStr ''application/json'')], ro_followAllRedirects = True, ro_body = None\<rparr>"
  by (simp add: request_options_def js_get_prop_of)

lemma endpoint_url_ok:
  "\<not> js_nullish tok \<Longrightarrow> endpoint_url tok =
     Inr (js_add (js_add (js_add (JStr ''https://graph.api.smartthings.com/api/smartapps/endpoints/'')
        (prop_of tok ''clientId'')) (JStr ''?access_token='')) (prop_of tok ''accessToken''))"
  by (simp add: endpoint_url_def js_get_prop_of)

lemma endpoint_of_responses_first:
  "map_of r0 ''uri'' = Some u \<Longrightarrow> endpoint_of_responses (JArr (JObj r0 # rs)) = Inr u"
  by (simp add: endpoint_of_responses_def)

lemma endpoint_of_responses_empty: "endpoint_of_responses (JArr []) = Inr JUndef"
  by (simp add: endpoint_of_responses_def)

lemma getEndpoint_server:
  assumes "st_baseUrl h = JStr ''''" "\<not> js_nullish (st_accessToken h)"
  shows "run_state (getEndpoint (server_env srv parse str)) (h, reqs) =
    (bindE (bindE (srv (endpoint_request_url h) ''GET'') parse) endpoint_of_responses,
     (h, (reqs @ [\<lparr>ro_url = endpoint_request_url h, ro_method = ''GET'',
      ro_headers = [(''Authorization'', js_add (JStr ''Bearer '') (prop_of (st_accessToken h) ''accessToken'')),
                    (''Accept'', JStr ''application/json'')], ro_followAllRedirects = True, ro_body = None\<rparr>])))"
  using assms
  by (simp add: getEndpoint_def hub_run endpoint_url_ok request_options_plain response_value_parse
      split: sum.split)

lemma getDeviceDetailsAsync_valid:
  assumes "run_state (hasValidEndpoint env) s = (Inr (JBool True), (h', w'))"
  shows "run_state (getDeviceDetailsAsync env d) s =
         run_state (makeRequest env (js_add (js_add (JStr (st_devicesPath h')) (JStr ''/'')) d) ''GET'' JUndef) (h', w')"
  using assms by (simp add: getDeviceDetailsAsync_def run_st_bind split: prod.split sum.split)

lemma makeRequest_server:
  "request_options h p m c = Inr opts \<Longrightarrow>
   run_state (makeRequest (server_env srv parse str) p m c) (h, q) =
     (bindE (srv (ro_url opts) (ro_method opts)) (response_value (server_env srv parse str) m), (h, q @ [opts]))"
  by (simp add: run_makeRequest)

lemma hasValidEndpoint_server_found:
  assumes "st_baseUrl h = JStr ''''" "\<not> js_nullish (st_accessToken h)"
    and "srv (endpoint_request_url h) ''GET'' = Inr b" "parse b = Inr (JArr (JObj ep # rs))"
    and "map_of ep ''uri'' = Some u" "u \<noteq> JUndef"
  shows "\<exists>oE. ro_url oE = endpoint_request_url h \<and>
           run_state (hasValidEndpoint (server_env srv parse str)) (h, q) = (Inr (JBool True), (h\<lparr>st_baseUrl := u\<rparr>, q @ [oE]))"
  using assms by (simp add: hasValidEndpoint_fresh getEndpoint_server endpoint_of_responses_first)

lemma request_options_url:
  "\<not> js_nullish (st_accessToken h) \<Longrightarrow> \<exists>opts. request_options h p ''GET'' JUndef = Inr opts \<and> ro_url opts = js_add (st_baseUrl h) p \<and> ro_method opts = ''GET''"
  by (simp add: request_options_plain)


text \<open>
  C23 (device listing never lists): whatever the instance, the network, \<open>expand\<close> and
  the payload, the hub's \<open>get\<close> is rejected or resolves to \<open>undefined\<close>; it never
  resolves to a platform list, because the method it ends in does not exist.
\<close>

theorem hub_get_result:
  "fst (run_state (hub_get env expand payload) s) \<in> insert (Inr JUndef) (range Inl)"
  by (cases s)
     (auto simp: hub_get_def getPlatforms_def providerSchemaToPlatformSchema_call_def hub_run
       split: prod.split sum.split)

lemma run_op_via_endpoint:
  "uses_endpoint op \<Longrightarrow> \<exists>K. run_op env op = st_bind (hasValidEndpoint env) K"
  by (cases op)
     (auto simp: uses_endpoint_def getDeviceDetailsAsync_def putDeviceDetailsAsync_def subscribe_def
       unsubscribe_def getPlatforms_def)

lemma st_bind_valid_rerun:
  assumes "run_state (hasValidEndpoint env) s = (Inr (JBool True), (h1, w1))" "st_baseUrl h1 \<noteq> JStr ''''"
  shows "run_state (st_bind (hasValidEndpoint env) K) s = run_state (st_bind (hasValidEndpoint env) K) (h1, w1)"
  using assms by (simp add: run_st_bind hasValidEndpoint_cached)

lemma run_ops_cached: "st_baseUrl h \<noteq> JStr '''' \<Longrightarrow> fst (run_ops env ops (h, w)) = h"
proof (induction ops arbitrary: w)
  case Nil
  then show ?case by simp
next
  case (Cons op ops)
  obtain h' w' where s: "snd (run_state (run_op env op) (h, w)) = (h', w')" by fastforce
  have "fst (snd (run_state (run_op env op) (h, w))) = h"
    using run_op_frame(2) [of env op] Cons.prems unfolding keeps_cached_def by blast
  then have "h' = h" using s by simp
  then show ?case using Cons s by simp
qed

lemmas demo_simps = demo_env_def demo_hub_def demo_token_def smartthings_Translator_def demo_srv_def demo_parse_def
  demo_get_opts_def demo_put_opts_def

lemma hub_reach_after_one:
  "hub_reach env tok (snd (run_state (run_op env op) (smartthings_Translator tok, w)))"
  by (rule hub_reach.step [OF hub_reach.init, where r = "fst (run_state (run_op env op) (smartthings_Translator tok, w))"])
     simp

text \<open>
  C15 (instance invariant): in every state reachable from a freshly constructed hub by any
  sequence of operations, the access token, the two paths and the name are those the
  constructor set; \<open>_baseUrl\<close> is the only field that ever changes.
\<close>

theorem hub_reach_fields:
  assumes "hub_reach env tok (h, w)"
  shows "h\<lparr>st_baseUrl := JStr ''''\<rparr> = smartthings_Translator tok"
  using assms
proof (induction "(h, w)" arbitrary: h w)
  case init
  then show ?case by (simp add: smartthings_Translator_def)
next
  case (step s op r)
  obtain h0 w0 where s: "s = (h0, w0)" by (cases s)
  have "h\<lparr>st_baseUrl := JStr ''''\<rparr> = h0\<lparr>st_baseUrl := JStr ''''\<rparr>"
    using run_op_frame(1) [of env op] step.hyps(3) unfolding changes_only_baseUrl_def s
    by (metis fst_conv snd_conv)
  then show ?case using step.hyps(2) s by simp
qed

theorem hub_reach_fields_witness:
  "hub_reach demo_env demo_token
     (snd (run_state (run_op demo_env (OpGetDeviceDetails (JStr ''d1''))) (smartthings_Translator demo_token, []))) \<and>
   (fst (snd (run_state (run_op demo_env (OpGetDeviceDetails (JStr ''d1''))) (smartthings_Translator demo_token, []))))
     \<lparr>st_baseUrl := JStr ''''\<rparr> = smartthings_Translator demo_token"
  using hub_reach_after_one [of demo_env demo_token "OpGetDeviceDetails (JStr ''d1'')" "[]"]
    hub_reach_fields [of demo_env demo_token
      "fst (snd (run_state (run_op demo_env (OpGetDeviceDetails (JStr ''d1''))) (smartthings_Translator demo_token, [])))"
      "snd (snd (run_state (run_op demo_env (OpGetDeviceDetails (JStr ''d1''))) (smartthings_Translator demo_token, [])))"]
  by simp

text \<open>
  C16 (endpoint cache): on a fresh hub whose endpoint lookup answers a \<open>uri\<close>, a first
  \<open>getDeviceDetailsAsync\<close> sends the lookup and then the device request and caches the
  \<open>uri\<close>; a second call sends only the device request.
\<close>

theorem fresh_hub_caches_endpoint:
  assumes "st_baseUrl h = JStr ''''" "\<not> js_nullish (st_accessToken h)"
    and "srv (endpoint_request_url h) ''GET'' = Inr b" "parse b = Inr (JArr (JObj ep # rs))"
    and "map_of ep ''uri'' = Some u" "u \<noteq> JUndef" "u \<noteq> JStr ''''"
  shows "case run_state (getDeviceDetailsAsync (server_env srv parse str) d) (h, []) of (r1, h1, q1) \<Rightarrow>
         case run_state (getDeviceDetailsAsync (server_env srv parse str) d) (h1, q1) of (r2, h2, q2) \<Rightarrow>
           h2 = h\<lparr>st_baseUrl := u\<rparr> \<and>
           map ro_url q2 = [endpoint_request_url h,
                            js_add u (js_add (js_add (JStr (st_devicesPath h)) (JStr ''/'')) d),
                            js_add u (js_add (js_add (JStr (st_devicesPath h)) (JStr ''/'')) d)]"
proof -
  let ?E = "server_env srv parse str"
  let ?h1 = "h\<lparr>st_baseUrl := u\<rparr>"
  let ?D = "js_add (js_add (JStr (st_devicesPath h)) (JStr ''/'')) d"
  obtain oE where oE: "ro_url oE = endpoint_request_url h"
    "run_state (hasValidEndpoint ?E) (h, []) = (Inr (JBool True), (?h1, [oE]))"
    using hasValidEndpoint_server_found [where h = h and srv = srv and b = b and parse = parse and ep = ep
        and rs = rs and u = u and q = "[]" and str = str] assms by auto
  have tok: "\<not> js_nullish (st_accessToken ?h1)" using assms(2) by simp
  obtain oD where oD: "request_options ?h1 ?D ''GET'' JUndef = Inr oD" "ro_url oD = js_add u ?D" "ro_method oD = ''GET''"
    using request_options_url [OF tok, of ?D] by auto
  have first: "run_state (getDeviceDetailsAsync ?E d) (h, []) =
      (bindE (srv (ro_url oD) ''GET'') (response_value ?E ''GET''), (?h1, [oE, oD]))"
    using oE(2) oD by (simp add: getDeviceDetailsAsync_valid makeRequest_server)
  have second: "run_state (getDeviceDetailsAsync ?E d) (?h1, [oE, oD]) =
      (bindE (srv (ro_url oD) ''GET'') (response_value ?E ''GET''), (?h1, [oE, oD, oD]))"
    using oD assms(7) by (simp add: getDeviceDetailsAsync_valid hasValidEndpoint_cached makeRequest_server)
  show ?thesis using first second oE(1) oD(2) by simp
qed

theorem fresh_hub_caches_endpoint_witness:
  "case run_state (getDeviceDetailsAsync demo_env (JStr ''d1'')) (smartthings_Translator demo_token, []) of (r1, h1, q1) \<Rightarrow>
   case run_state (getDeviceDetailsAsync demo_env (JStr ''d1'')) (h1, q1) of (r2, h2, q2) \<Rightarrow>
     h2 = demo_hub \<and>
     map ro_url q2 = [JStr ''https://graph.api.smartthings.com/api/smartapps/endpoints/cid?access_token=tok'',
                      JStr ''https://st.example/api/devices/d1'', JStr ''https://st.example/api/devices/d1'']"
  using fresh_hub_caches_endpoint [where h = "smartthings_Translator demo_token" and srv = demo_srv and b = "''endpoints''"
      and parse = demo_parse and ep = "[(''uri'', JStr ''https://st.example/api'')]" and rs = "[]"
      and u = "JStr ''https://st.example/api''" and str = "\<lambda>v. JStr ''{}''" and d = "JStr ''d1''"]
  by (simp add: demo_simps)

text \<open>
  C35 (failed lookup): when the endpoint lookup answers an empty list,
  \<open>getDeviceDetailsAsync\<close> resolves to \<open>undefined\<close> after that one request and the
  hub stays uncached, so the next call looks the endpoint up again.
\<close>

theorem no_endpoint_resolves_undefined:
  assumes "st_baseUrl h = JStr ''''" "\<not> js_nullish (st_accessToken h)"
    and "srv (endpoint_request_url h) ''GET'' = Inr b" "parse b = Inr (JArr [])"
  shows "case run_state (getDeviceDetailsAsync (server_env srv parse str) d) (h, q) of (r, h', q') \<Rightarrow>
           r = Inr JUndef \<and> h' = h \<and> map ro_url q' = map ro_url q @ [endpoint_request_url h]"
  using assms
  by (simp add: getDeviceDetailsAsync_def run_st_bind hasValidEndpoint_fresh getEndpoint_server endpoint_of_responses_empty)

theorem no_endpoint_resolves_undefined_witness:
  "case run_state (getDeviceDetailsAsync (server_env (\<lambda>url m. Inr ''none'') demo_parse (\<lambda>v. JStr ''{}'')) (JStr ''d1''))
          (smartthings_Translator demo_token, []) of (r, h', q') \<Rightarrow>
     r = Inr JUndef \<and> h' = smartthings_Translator demo_token \<and>
     map ro_url q' = [JStr ''https://graph.api.smartthings.com/api/smartapps/endpoints/cid?access_token=tok'']"
  using no_endpoint_resolves_undefined [where h = "smartthings_Translator demo_token" and srv = "\<lambda>url m. Inr ''none''"
      and b = "''none''" and parse = demo_parse and str = "\<lambda>v. JStr ''{}''" and d = "JStr ''d1''" and q = "[]"]
  by (simp add: demo_simps)

text \<open>
  C18 (cached read): on a hub with a cached endpoint, \<open>getDeviceDetailsAsync\<close> sends
  exactly the device request, leaves the hub unchanged, passes a transport rejection
  through unchanged and otherwise resolves to the parsed body.
\<close>

theorem getDeviceDetailsAsync_cached:
  assumes "st_baseUrl h \<noteq> JStr ''''"
    and "request_options h (js_add (js_add (JStr (st_devicesPath h)) (JStr ''/'')) d) ''GET'' JUndef = Inr opts"
  shows "run_state (getDeviceDetailsAsync env d) (h, w) =
         (case st_request env opts w of (w', r) \<Rightarrow> (bindE r (json_parse env), (h, w')))"
  using assms
  by (simp add: getDeviceDetailsAsync_valid hasValidEndpoint_cached run_makeRequest response_value_parse)

theorem getDeviceDetailsAsync_cached_witness:
  "run_state (getDeviceDetailsAsync demo_env (JStr ''d1'')) (demo_hub, []) =
     (Inr (JObj [(''id'', JStr ''d1'')]), (demo_hub, [demo_get_opts]))"
  using getDeviceDetailsAsync_cached [where h = demo_hub and d = "JStr ''d1''" and opts = demo_get_opts
      and env = demo_env and w = "[]"]
  by (simp add: demo_simps request_options_def js_get_prop_of)

text \<open>
  C19 (cached write): on a hub with a cached endpoint, \<open>putDeviceDetailsAsync\<close> sends the
  serialized payload; an empty answer (\<open>"succeed"\<close>) is followed by a re-read of the
  device, any other answer resolves to \<open>undefined\<close>, a rejection passes through.
\<close>

theorem putDeviceDetailsAsync_cached:
  assumes "st_baseUrl h \<noteq> JStr ''''"
    and "request_options h (js_add (js_add (JStr (st_updatePath h)) (JStr ''/'')) d) ''PUT'' (json_stringify env p) = Inr opts"
  shows "run_state (putDeviceDetailsAsync env d p) (h, w) =
         (case st_request env opts w of
            (w', Inl e) \<Rightarrow> (Inl e, (h, w'))
          | (w', Inr body) \<Rightarrow> if body = [] then run_state (getDeviceDetailsAsync env d) (h, w') else (Inr JUndef, (h, w')))"
  using assms
  by (simp add: putDeviceDetailsAsync_def run_st_bind hasValidEndpoint_cached run_makeRequest response_value_def
      split: prod.split sum.split)

theorem putDeviceDetailsAsync_cached_witness:
  "run_state (putDeviceDetailsAsync demo_env (JStr ''d1'') (JObj [])) (demo_hub, []) =
     run_state (getDeviceDetailsAsync demo_env (JStr ''d1'')) (demo_hub, [demo_put_opts])"
  using putDeviceDetailsAsync_cached [where h = demo_hub and d = "JStr ''d1''" and opts = demo_put_opts
      and env = demo_env and w = "[]" and p = "JObj []"]
  by (simp add: demo_simps request_options_def js_get_prop_of)

text \<open>
  C17 (the endpoint is eventually cached, for good): on a fresh hub whose endpoint lookup
  answers a non-empty \<open>uri\<close>, the first operation that consults the endpoint fills the
  cache. After that and any further operations, the hub holds that \<open>uri\<close> and is
  otherwise unchanged.
\<close>

theorem endpoint_cached_after_first_use:
  assumes "st_baseUrl h = JStr ''''" "\<not> js_nullish (st_accessToken h)"
    and "srv (endpoint_request_url h) ''GET'' = Inr b" "parse b = Inr (JArr (JObj ep # rs))"
    and "map_of ep ''uri'' = Some u" "u \<noteq> JUndef" "u \<noteq> JStr ''''"
    and "uses_endpoint op"
  shows "fst (run_ops (server_env srv parse str) (op # ops) (h, q)) = h\<lparr>st_baseUrl := u\<rparr>"
proof -
  let ?E = "server_env srv parse str"
  obtain oE where hv: "run_state (hasValidEndpoint ?E) (h, q) = (Inr (JBool True), (h\<lparr>st_baseUrl := u\<rparr>, q @ [oE]))"
    using hasValidEndpoint_server_found [where h = h and srv = srv and b = b and parse = parse and ep = ep
        and rs = rs and u = u and q = q and str = str] assms by auto
  obtain K where K: "run_op ?E op = st_bind (hasValidEndpoint ?E) K"
    using run_op_via_endpoint [OF assms(8)] by blast
  have "run_state (run_op ?E op) (h, q) = run_state (run_op ?E op) (h\<lparr>st_baseUrl := u\<rparr>, q @ [oE])"
    using st_bind_valid_rerun [OF hv] assms(7) K by simp
  moreover have "fst (snd (run_state (run_op ?E op) (h\<lparr>st_baseUrl := u\<rparr>, q @ [oE]))) = h\<lparr>st_baseUrl := u\<rparr>"
    using run_op_frame(2) [of ?E op] assms(7) unfolding keeps_cached_def by simp
  ultimately obtain w' where "snd (run_state (run_op ?E op) (h, q)) = (h\<lparr>st_baseUrl := u\<rparr>, w')"
    by (metis prod.collapse)
  then show ?thesis using run_ops_cached [of "h\<lparr>st_baseUrl := u\<rparr>" ?E ops w'] assms(7) by simp
qed

theorem endpoint_cached_after_first_use_witness:
  "fst (run_ops demo_env [OpGetDeviceDetails (JStr ''d1''), OpPutDeviceDetails (JStr ''d1'') (JObj []),
                          OpGetPlatforms (JBool True) (JObj [])]
          (smartthings_Translator demo_token, [])) = demo_hub"
  using endpoint_cached_after_first_use [where h = "smartthings_Translator demo_token" and srv = demo_srv
      and b = "''endpoints''" and parse = demo_parse and ep = "[(''uri'', JStr ''https://st.example/api'')]"
      and rs = "[]" and u = "JStr ''https://st.example/api''" and str = "\<lambda>v. JStr ''{}''"
      and op = "OpGetDeviceDetails (JStr ''d1'')" and q = "[]"
      and ops = "[OpPutDeviceDetails (JStr ''d1'') (JObj []), OpGetPlatforms (JBool True) (JObj [])]"]
  by (simp add: demo_simps uses_endpoint_def)

text \<open>
  Cache is final: once the endpoint is cached, no operation changes the hub.
\<close>

theorem cached_hub_unchanged:
  "st_baseUrl h \<noteq> JStr '''' \<Longrightarrow> fst (snd (run_state (run_op env op) (h, w))) = h"
  using run_op_frame(2) [of env op] by (simp add: keeps_cached_def)

theorem cached_hub_unchanged_witness:
  "fst (snd (run_state (run_op demo_env (OpPutDeviceDetails (JStr ''d1'') (JObj []))) (demo_hub, []))) = demo_hub"
  using cached_hub_unchanged [where h = demo_hub and env = demo_env and op = "OpPutDeviceDetails (JStr ''d1'') (JObj [])"
      and w = "[]"]
  by (simp add: demo_simps)

text \<open>
  Listing with a payload: given a payload, \<open>getPlatforms\<close> throws the
  \<open>TypeError\<close> of calling the missing method, without any request.
\<close>

theorem getPlatforms_payload_throws:
  "\<not> js_nullish payload \<Longrightarrow>
   run_state (getPlatforms env expand payload) s = (Inl (TypeError ''this._providerSchemaToPlatformSchema is not a function''), s)"
  by (simp add: getPlatforms_def providerSchemaToPlatformSchema_call_def)

theorem getPlatforms_payload_throws_witness:
  "run_state (getPlatforms demo_env (JBool True) (JObj [])) (demo_hub, []) =
     (Inl (TypeError ''this._providerSchemaToPlatformSchema is not a function''), (demo_hub, []))"
  using getPlatforms_payload_throws [where payload = "JObj []" and env = demo_env and expand = "JBool True"
      and s = "(demo_hub, [])"]
  by simp

text \<open>
  C34 (token refresh): \<open>refreshAuthToken\<close> returns its argument exactly when the
  argument is not nullish and its \<open>length\<close> property is the number 5.
\<close>

theorem refreshAuthToken_iff:
  "refreshAuthToken v = Inr v' \<longleftrightarrow> v' = v \<and> \<not> js_nullish v \<and> prop_of v ''length'' = JNum 5"
  by (auto simp: refreshAuthToken_def js_get_prop_of)

text \<open>
  Token refresh rejects tokens: the five-field token object of the onboarding flow
  has no \<open>length\<close> property and is rejected as missing elements.
\<close>

theorem refreshAuthToken_rejects_token_object:
  "refreshAuthToken (JObj [(''accessToken'', JStr ''t''), (''clientId'', JStr ''c''), (''tokenType'', JStr ''bearer''),
                         (''ttl'', JNum 1576799999), (''scopes'', JStr ''app'')]) =
   Inl (Error ''Invalid accessTokenInfo object: missing element(s).'')"
  by (simp add: refreshAuthToken_def)

text \<open>
  Request headers: a request with string content carries \<open>Content-Type\<close>,
  \<open>Content-length\<close> and the body exactly when the content is non-empty; the empty string
  of \<open>_subscribe\<close> sends neither.
\<close>

theorem request_options_content:
  "\<not> js_nullish (st_accessToken h) \<Longrightarrow>
   request_options h p m (JStr s) =
     Inr \<lparr>ro_url = js_add (st_baseUrl h) p, ro_method = m,
          ro_headers = [(''Authorization'', js_add (JStr ''Bearer '') (prop_of (st_accessToken h) ''accessToken'')),
                        (''Accept'', JStr ''application/json'')] @
                       (if s = [] then [] else [(''Content-Type'', JStr ''application/json''),
                                                (''Content-length'', JNum (of_nat (length s)))]),
          ro_followAllRedirects = True, ro_body = (if s = [] then None else Some (JStr s))\<rparr>"
  by (simp add: request_options_def js_get_prop_of)

theorem request_options_content_witness:
  "request_options demo_hub (JStr ''/update/d1'') ''PUT'' (JStr ''{}'') = Inr demo_put_opts"
  using request_options_content [where h = demo_hub and p = "JStr ''/update/d1''" and m = "''PUT''" and s = "''{}''"]
  by (simp add: demo_simps)

end
