(* ===== verification/SwitchTest.thy ===== *)
theory SwitchTest
  imports SmartThingsHub
begin

text \<open>
  The test of the SmartThings binary switch,
  src/opent2t.p.outlet/com.smartthings.binaryswitch/js/tests/test.js: the helper
  \<open>getBinarySwitch\<close>, which picks the first device of the hub's list that the binary
  switch translator handles. The setup \<open>test.before\<close>, which calls the SmartThings hub,
  is in the root theory.
\<close>

section \<open>\<open>getBinarySwitch\<close>\<close>

text \<open>
  The number of iterations of \<open>for (i = 0; i < devices.length; i++)\<close>: the naturals
  below \<open>ToNumber(devices.length)\<close>, none when it is \<open>NaN\<close>. The loop does not change
  \<open>devices\<close>, so its length is the same at every test.
\<close>

definition loop_count :: "jval \<Rightarrow> nat" where
  "loop_count len = (case js_to_number len of Some q \<Rightarrow> nat \<lceil>q\<rceil> | None \<Rightarrow> 0)"

fun getBinarySwitch_loop :: "jval \<Rightarrow> nat \<Rightarrow> nat \<Rightarrow> jval js" where
  "getBinarySwitch_loop devices i 0 = Inr JUndef"
| "getBinarySwitch_loop devices i (Suc n) =
     bindE (js_get devices (nat_to_string i)) (\<lambda>d.
     bindE (js_get d ''opent2t'') (\<lambda>ot.
     bindE (js_get ot ''translator'') (\<lambda>tr.
       if js_seq tr (JStr ''opent2t-translator-com-smartthings-binaryswitch'') then Inr d
       else getBinarySwitch_loop devices (Suc i) n)))"

definition getBinarySwitch :: "jval \<Rightarrow> jval js" where
  "getBinarySwitch devices =
     bindE (js_get devices ''length'') (\<lambda>len. getBinarySwitch_loop devices 0 (loop_count len))"

text \<open>The same search written with \<open>Array.prototype.find\<close>.\<close>

definition is_binaryswitch_entry :: "jval \<Rightarrow> bool js" where
  "is_binaryswitch_entry d =
     bindE (js_get d ''opent2t'') (\<lambda>ot.
     bindE (js_get ot ''translator'') (\<lambda>tr.
       Inr (js_seq tr (JStr ''opent2t-translator-com-smartthings-binaryswitch''))))"

section \<open>Lemmas\<close>

lemma getBinarySwitch_loop_find:
  "i + n = length xs \<Longrightarrow> getBinarySwitch_loop (JArr xs) i n = js_find is_binaryswitch_entry (drop i xs)"
proof (induction n arbitrary: i)
  case 0
  then show ?case by simp
next
  case (Suc n)
  then have "i < length xs" by simp
  then show ?case using Suc
    by (simp add: Cons_nth_drop_Suc [symmetric] is_binaryswitch_entry_def bindE_assoc
        cong: if_cong)
qed

lemma loop_count_length [simp]: "loop_count (JNum (of_nat n)) = n"
  by (simp add: loop_count_def)

text \<open>
  C26 (device search): on an array, \<open>getBinarySwitch\<close> is \<open>Array.prototype.find\<close> with the
  predicate \<open>d.opent2t.translator === 'opent2t-translator-com-smartthings-binaryswitch'\<close>,
  errors of the predicate included.
\<close>

theorem getBinarySwitch_is_find:
  "getBinarySwitch (JArr xs) = js_find is_binaryswitch_entry xs"
  using getBinarySwitch_loop_find [of 0 "length xs" xs] by (simp add: getBinarySwitch_def)

end
