(* ===== verification/InsteonHubConstants.thy ===== *)
theory InsteonHubConstants
  imports JsValue
begin

text \<open>
  src/org.opent2t.sample.hub.superpopular/com.insteon.hub/js/constants.js: the helper
  \<open>define(name, value)\<close>, which adds a read-only property to the module's \<open>exports\<close>
  object with \<open>Object.defineProperty\<close>, and the one constant it defines,
  \<open>CommandTimeout\<close>. The \<open>exports\<close> object is the list of its own properties with their
  descriptors, in insertion order. A module that imports the constants can try to
  assign, redefine or delete a property; \<open>exports_reach\<close> is the set of \<open>exports\<close>
  objects such attempts can produce. The lemmas show that \<open>CommandTimeout\<close> keeps its
  value and attributes in every one of them.
\<close>

section \<open>Property descriptors and the operations on them\<close>

record prop_desc =
  pd_value :: jval
  pd_enumerable :: bool
  pd_writable :: bool
  pd_configurable :: bool

type_synonym js_exports = "(string \<times> prop_desc) list"

text \<open>
  \<open>Object.defineProperty(o, name, desc)\<close> with a complete data descriptor, following
  ValidateAndApplyPropertyDescriptor of ECMA-262. A new property is appended. A
  configurable property is replaced. A non-configurable one may only lose
  writability or, while it is writable, change its value. Any other change throws a
  \<open>TypeError\<close>. Values are compared by HOL equality, which is SameValue on the strings
  used here.
\<close>

definition defineProperty :: "js_exports \<Rightarrow> string \<Rightarrow> prop_desc \<Rightarrow> js_exports js" where
  "defineProperty obj name desc =
     (case map_of obj name of
        None \<Rightarrow> Inr (obj @ [(name, desc)])
      | Some cur \<Rightarrow>
          if pd_configurable cur then Inr (set_prop obj name desc)
          else if pd_configurable desc \<or> pd_enumerable desc \<noteq> pd_enumerable cur \<or>
                  (\<not> pd_writable cur \<and> (pd_writable desc \<or> pd_value desc \<noteq> pd_value cur))
          then Inl (TypeError (''Cannot redefine property: '' @ name))
          else Inr (set_prop obj name desc))"

text \<open>\<open>define(name, value)\<close>: an enumerable, read-only, non-configurable property.\<close>

definition define_export :: "js_exports \<Rightarrow> string \<Rightarrow> jval \<Rightarrow> js_exports js" where
  "define_export exports name value =
     defineProperty exports name
       \<lparr>pd_value = value, pd_enumerable = True, pd_writable = False, pd_configurable = False\<rparr>"

text \<open>The module body: \<open>define("CommandTimeout", 'Command timeout')\<close> on the empty \<open>exports\<close>.\<close>

definition constants_module :: "js_exports js" where
  "constants_module = define_export [] ''CommandTimeout'' (JStr ''Command timeout'')"

section \<open>What an importing module can attempt\<close>

text \<open>
  \<open>exports.name = v\<close>: a read-only property is left unchanged, silently in sloppy mode
  and with a \<open>TypeError\<close> in strict mode; a writable one takes the value; a missing one
  is added as an ordinary property.
\<close>

definition assign_export :: "bool \<Rightarrow> js_exports \<Rightarrow> string \<Rightarrow> jval \<Rightarrow> js_exports js" where
  "assign_export strict obj name v =
     (case map_of obj name of
        None \<Rightarrow> Inr (obj @ [(name, \<lparr>pd_value = v, pd_enumerable = True, pd_writable = True, pd_configurable = True\<rparr>)])
      | Some cur \<Rightarrow>
          if pd_writable cur then Inr (set_prop obj name (cur\<lparr>pd_value := v\<rparr>))
          else if strict then Inl (TypeError (''Cannot assign to read only property '' @ name))
          else Inr obj)"

text \<open>\<open>delete exports.name\<close>: a non-configurable property stays (a \<open>TypeError\<close> in strict mode).\<close>

definition delete_export :: "bool \<Rightarrow> js_exports \<Rightarrow> string \<Rightarrow> js_exports js" where
  "delete_export strict obj name =
     (case map_of obj name of
        None \<Rightarrow> Inr obj
      | Some cur \<Rightarrow>
          if pd_configurable cur then Inr (filter (\<lambda>kv. fst kv \<noteq> name) obj)
          else if strict then Inl (TypeError (''Cannot delete property '' @ name))
          else Inr obj)"

inductive exports_reach :: "js_exports \<Rightarrow> bool" where
  load: "constants_module = Inr e \<Longrightarrow> exports_reach e"
| assign: "exports_reach e \<Longrightarrow> assign_export strict e n v = Inr e' \<Longrightarrow> exports_reach e'"
| redefine: "exports_reach e \<Longrightarrow> defineProperty e n d = Inr e' \<Longrightarrow> exports_reach e'"
| remove: "exports_reach e \<Longrightarrow> delete_export strict e n = Inr e' \<Longrightarrow> exports_reach e'"

definition command_timeout_desc :: prop_desc where
  "command_timeout_desc =
     \<lparr>pd_value = JStr ''Command timeout'', pd_enumerable = True, pd_writable = False, pd_configurable = False\<rparr>"

section \<open>Lemmas\<close>

text \<open>
  Each attempt leaves a read-only, non-configurable property as it is: this is the frame
  condition the invariant needs.
\<close>

lemma assign_export_frame:
  "map_of e n0 = Some cur \<Longrightarrow> \<not> pd_writable cur \<Longrightarrow> assign_export strict e n v = Inr e' \<Longrightarrow>
   map_of e' n0 = Some cur"
  by (auto simp: assign_export_def split: option.splits if_splits)

lemma defineProperty_frame:
  assumes "map_of e n0 = Some cur" "\<not> pd_writable cur" "\<not> pd_configurable cur"
    and "defineProperty e n d = Inr e'"
  shows "map_of e' n0 = Some cur"
proof (cases "n = n0")
  case True
  then have "\<not> pd_configurable d" "pd_enumerable d = pd_enumerable cur" "\<not> pd_writable d"
    "pd_value d = pd_value cur" "e' = set_prop e n d"
    using assms by (auto simp: defineProperty_def split: if_splits)
  moreover have "d = cur" using calculation(1-4) assms(2,3) by (intro prop_desc.equality) simp_all
  ultimately show ?thesis using True by simp
next
  case False
  then show ?thesis using assms by (auto simp: defineProperty_def split: option.splits if_splits)
qed

lemma map_of_filter_key: "map_of (filter (\<lambda>kv. fst kv \<noteq> n) e) k = (if k = n then None else map_of e k)"
  by (induction e) auto

lemma delete_export_frame:
  "map_of e n0 = Some cur \<Longrightarrow> \<not> pd_configurable cur \<Longrightarrow> delete_export strict e n = Inr e' \<Longrightarrow>
   map_of e' n0 = Some cur"
  by (auto simp: delete_export_def map_of_filter_key split: option.splits if_splits)

text \<open>
  C25 (the exported constant is constant): in every \<open>exports\<close> object reachable from
  loading constants.js by any sequence of assignments, redefinitions and deletions,
  \<open>CommandTimeout\<close> is \<open>'Command timeout'\<close>, enumerable, read-only and non-configurable.
\<close>

theorem exports_reach_CommandTimeout:
  assumes "exports_reach e"
  shows "map_of e ''CommandTimeout'' = Some command_timeout_desc"
  using assms
proof (induction rule: exports_reach.induct)
  case (load e)
  then show ?case by (auto simp: constants_module_def define_export_def defineProperty_def command_timeout_desc_def)
next
  case (assign e strict n v e')
  then show ?case using assign_export_frame [OF assign.IH _ assign.hyps(2)] by (simp add: command_timeout_desc_def)
next
  case (redefine e n d e')
  then show ?case using defineProperty_frame [OF redefine.IH _ _ redefine.hyps(2)] by (simp add: command_timeout_desc_def)
next
  case (remove e strict n e')
  then show ?case using delete_export_frame [OF remove.IH _ remove.hyps(2)] by (simp add: command_timeout_desc_def)
qed

theorem exports_reach_CommandTimeout_witness:
  "exports_reach [(''CommandTimeout'', command_timeout_desc)] \<and>
   map_of [(''CommandTimeout'', command_timeout_desc)] ''CommandTimeout'' = Some command_timeout_desc"
proof -
  have l: "exports_reach [(''CommandTimeout'', command_timeout_desc)]"
    by (rule exports_reach.load) (simp add: constants_module_def define_export_def defineProperty_def command_timeout_desc_def)
  have "exports_reach [(''CommandTimeout'', command_timeout_desc)]"
    by (rule exports_reach.assign [OF l, where strict = False and n = "''CommandTimeout''" and v = "JStr ''x''"])
       (simp add: assign_export_def command_timeout_desc_def)
  then show ?thesis using exports_reach_CommandTimeout by blast
qed

end
