(* ===== verification/SmartThingsConcurrency.thy ===== *)
theory SmartThingsConcurrency
  imports SmartThingsHub
begin

text \<open>
  Concurrent calls of \<open>_hasValidEndpoint\<close> on one SmartThings hub instance
  (src/org.opent2t.sample.hub.superpopular/com.smartthings.hub/js/thingTranslator.js,
  lines 131-140 and 163-173). A call runs synchronously until the endpoint request is
  sent: it reads \<open>this._baseUrl\<close>, builds the lookup URL and calls \<open>request\<close>. The
  rest runs later as \<open>.then\<close> jobs, when the answer arrives: it parses the answer,
  takes the first \<open>uri\<close> and assigns \<open>this._baseUrl\<close>. Between the two halves other
  calls may run. The jobs of one answer touch no shared state except that final
  assignment, so the second half is one step. \<open>hve_start\<close> and \<open>hve_resume\<close> are the
  two halves. Their sequential composition is \<open>hasValidEndpoint\<close>. \<open>conc_step\<close>
  interleaves the halves of any number of calls.
\<close>

section \<open>The two halves of \<open>_hasValidEndpoint\<close>\<close>

text \<open>A call is about to start, waits for the transport's answer, or has finished.\<close>

datatype lookup_task = LStart | LWait "string js" | LDone "jval js"

text \<open>
  The synchronous half: with a cached endpoint the call is finished with \<open>true\<close>.
  Otherwise the lookup request is built and handed to the transport (a synchronous throw
  finishes the call with that error).
\<close>

definition hve_start :: "'n st_env \<Rightarrow> st_hub \<times> 'n \<Rightarrow> lookup_task \<times> (st_hub \<times> 'n)" where
  "hve_start env s =
     (case s of (h, w) \<Rightarrow>
        if \<not> js_seq (st_baseUrl h) (JStr '''') then (LDone (Inr (JBool True)), (h, w))
        else case endpoint_url (st_accessToken h) of
               Inl e \<Rightarrow> (LDone (Inl e), (h, w))
             | Inr endpointUrl \<Rightarrow>
                 (case request_options h endpointUrl ''GET'' JUndef of
                    Inl e \<Rightarrow> (LDone (Inl e), (h, w))
                  | Inr options \<Rightarrow> (case st_request env options w of (w', r) \<Rightarrow> (LWait r, (h, w')))))"

text \<open>
  The asynchronous half, given the transport's outcome: parse the body, take the first
  \<open>uri\<close>, and either report \<open>false\<close> or store the endpoint and report \<open>true\<close>.
\<close>

definition hve_resume :: "'n st_env \<Rightarrow> string js \<Rightarrow> st_hub \<Rightarrow> jval js \<times> st_hub" where
  "hve_resume env r h =
     (case bindE (bindE r (response_value env ''GET'')) endpoint_of_responses of
        Inl e \<Rightarrow> (Inl e, h)
      | Inr endpointURI \<Rightarrow>
          if js_seq endpointURI JUndef then (Inr (JBool False), h)
          else (Inr (JBool True), h\<lparr>st_baseUrl := endpointURI\<rparr>))"

text \<open>One call run to completion with nothing in between.\<close>

definition hve_seq :: "'n st_env \<Rightarrow> st_hub \<times> 'n \<Rightarrow> jval js \<times> (st_hub \<times> 'n)" where
  "hve_seq env s =
     (case hve_start env s of
        (LWait r, (h, w)) \<Rightarrow> (case hve_resume env r h of (v, h') \<Rightarrow> (v, (h', w)))
      | (LDone v, s') \<Rightarrow> (v, s')
      | (LStart, s') \<Rightarrow> (Inr JUndef, s'))"

section \<open>Interleaved calls\<close>

text \<open>
  The state of the instance, the network world and the calls in flight. A step moves
  one call, chosen freely: it runs the synchronous half of a call that has not started,
  or the asynchronous half of a call whose answer has arrived.
\<close>

type_synonym 'n conc = "st_hub \<times> 'n \<times> lookup_task list"

inductive conc_step :: "'n st_env \<Rightarrow> 'n conc \<Rightarrow> 'n conc \<Rightarrow> bool" for env where
  start: "i < length ts \<Longrightarrow> ts ! i = LStart \<Longrightarrow> hve_start env (h, w) = (t, (h', w')) \<Longrightarrow>
          conc_step env (h, w, ts) (h', w', ts[i := t])"
| resume: "i < length ts \<Longrightarrow> ts ! i = LWait r \<Longrightarrow> hve_resume env r h = (v, h') \<Longrightarrow>
          conc_step env (h, w, ts) (h', w, ts[i := LDone v])"

text \<open>
  The number of calls that have run their synchronous half, and the invariant of the
  interleavings on a transport that answers from a fixed server: each started call has
  sent at most one request, the number of calls is fixed, and only \<open>_baseUrl\<close> changes.
\<close>

definition started :: "lookup_task list \<Rightarrow> nat" where
  "started ts = length (filter (\<lambda>t. t \<noteq> LStart) ts)"

definition conc_inv :: "st_hub \<Rightarrow> 'n list \<Rightarrow> nat \<Rightarrow> 'n list conc \<Rightarrow> bool" where
  "conc_inv h0 q0 k s =
     (case s of (h, q, ts) \<Rightarrow> length q \<le> length q0 + started ts \<and> length ts = k \<and>
        h\<lparr>st_baseUrl := JStr ''''\<rparr> = h0\<lparr>st_baseUrl := JStr ''''\<rparr>)"

text \<open>
  The invariant of the interleavings from a fresh instance, against a server whose
  lookup answer \<open>b\<close> names the endpoint \<open>u\<close>: the instance is the initial one or
  has \<open>u\<close> cached, every call is about to start, waits for \<open>b\<close> or has answered
  \<open>true\<close>, and once one call has answered the endpoint is cached.
\<close>

definition conc_agree_inv :: "st_hub \<Rightarrow> jval \<Rightarrow> string \<Rightarrow> nat \<Rightarrow> 'n conc \<Rightarrow> bool" where
  "conc_agree_inv h0 u b k s =
     (case s of (h, q, ts) \<Rightarrow> (h = h0 \<or> h = h0\<lparr>st_baseUrl := u\<rparr>) \<and> length ts = k \<and>
        set ts \<subseteq> {LStart, LWait (Inr b), LDone (Inr (JBool True))} \<and>
        (LDone (Inr (JBool True)) \<in> set ts \<longrightarrow> h = h0\<lparr>st_baseUrl := u\<rparr>))"

section \<open>Lemmas\<close>

lemma hve_start_not_start: "fst (hve_start env s) \<noteq> LStart"
  by (auto simp: hve_start_def split: prod.splits sum.splits)

lemma hve_start_server_lookup:
  assumes "st_baseUrl h = JStr ''''" "endpoint_url (st_accessToken h) = Inr url"
    and "request_options h url ''GET'' JUndef = Inr oE"
  shows "hve_start (server_env srv parse str) (h, q) = (LWait (srv (ro_url oE) (ro_method oE)), (h, q @ [oE]))"
  using assms by (simp add: hve_start_def)

lemma hve_start_server_fresh:
  assumes "st_baseUrl h = JStr ''''" "\<not> js_nullish (st_accessToken h)"
  shows "\<exists>oE. ro_url oE = endpoint_request_url h \<and>
     hve_start (server_env srv parse str) (h, q) = (LWait (srv (endpoint_request_url h) ''GET''), (h, q @ [oE]))"
  using assms by (simp add: hve_start_def endpoint_url_ok request_options_plain)

lemma hve_start_cached:
  "\<not> js_seq (st_baseUrl h) (JStr '''') \<Longrightarrow> hve_start env (h, w) = (LDone (Inr (JBool True)), (h, w))"
  by (simp add: hve_start_def)

lemma hve_resume_found:
  assumes "parse b = Inr (JArr (JObj ep # rs))" "map_of ep ''uri'' = Some u" "u \<noteq> JUndef"
  shows "hve_resume (server_env srv parse str) (Inr b) h = (Inr (JBool True), h\<lparr>st_baseUrl := u\<rparr>)"
  using assms by (simp add: hve_resume_def response_value_parse endpoint_of_responses_first)

lemma hve_start_server_log:
  "hve_start (server_env srv parse str) (h, q) = (t, (h', q')) \<Longrightarrow> h' = h \<and> (q' = q \<or> (\<exists>x. q' = q @ [x]))"
  by (auto simp: hve_start_def split: if_splits sum.splits)

lemma hve_resume_fields:
  "hve_resume env r h = (v, h') \<Longrightarrow> h'\<lparr>st_baseUrl := JStr ''''\<rparr> = h\<lparr>st_baseUrl := JStr ''''\<rparr>"
  by (auto simp: hve_resume_def split: sum.splits if_splits)

lemma started_update:
  "i < length ts \<Longrightarrow> ts ! i = LStart \<Longrightarrow> t \<noteq> LStart \<Longrightarrow> started (ts[i := t]) = Suc (started ts)"
  "i < length ts \<Longrightarrow> ts ! i \<noteq> LStart \<Longrightarrow> t \<noteq> LStart \<Longrightarrow> started (ts[i := t]) = started ts"
  by (induction ts arbitrary: i) (auto simp: started_def split: nat.splits)

lemma set_update_cases: "x \<in> set (ts[i := t]) \<Longrightarrow> x = t \<or> x \<in> set ts"
  using set_update_subset_insert by fastforce

lemma conc_inv_step:
  assumes "conc_step (server_env srv parse str) y z" "conc_inv h0 q0 k y"
  shows "conc_inv h0 q0 k z"
  using assms(1)
proof cases
  case (start i ts1 h1 q1 t h' q')
  then show ?thesis
    using hve_start_server_log [OF start(5)] hve_start_not_start [of "server_env srv parse str" "(h1, q1)"]
      started_update(1) [of i ts1 t] assms(2) by (auto simp: conc_inv_def)
next
  case (resume i ts1 r h1 v h' q1)
  then show ?thesis using hve_resume_fields [OF resume(5)] started_update(2) [of i ts1 "LDone v"] assms(2)
    by (auto simp: conc_inv_def)
qed

lemma conc_agree_inv_step:
  assumes "st_baseUrl h0 = JStr ''''" "\<not> js_nullish (st_accessToken h0)"
    and "srv (endpoint_request_url h0) ''GET'' = Inr b" "parse b = Inr (JArr (JObj ep # rs))"
    and "map_of ep ''uri'' = Some u" "u \<noteq> JUndef" "u \<noteq> JStr ''''"
    and "conc_step (server_env srv parse str) y z" "conc_agree_inv h0 u b k y"
  shows "conc_agree_inv h0 u b k z"
  using assms(8)
proof cases
  case (start i ts h w t h' w')
  have "h = h0 \<and> t = LWait (Inr b) \<and> h' = h0 \<or> h = h0\<lparr>st_baseUrl := u\<rparr> \<and> t = LDone (Inr (JBool True)) \<and> h' = h"
  proof (cases "h = h0")
    case True
    then show ?thesis using hve_start_server_fresh [OF assms(1,2), of srv parse str w] start(5) assms(3) by auto
  next
    case False
    then have "h = h0\<lparr>st_baseUrl := u\<rparr>" using assms(9) start(1) by (simp add: conc_agree_inv_def)
    then show ?thesis using hve_start_cached [of h "server_env srv parse str" w] start(5) assms(7) by simp
  qed
  then show ?thesis using assms(9) start(1-3) by (auto simp: conc_agree_inv_def dest!: set_update_cases)
next
  case (resume i ts r h v h' w)
  have "LWait r \<in> set ts" using resume(3,4) by (metis nth_mem)
  then have "r = Inr b" using assms(9) resume(1) by (auto simp: conc_agree_inv_def)
  then have "v = Inr (JBool True) \<and> h' = h0\<lparr>st_baseUrl := u\<rparr>"
    using hve_resume_found [where parse = parse and b = b, OF assms(4-6), of srv str h] resume(5) assms(9) resume(1)
    by (auto simp: conc_agree_inv_def)
  then show ?thesis using assms(9) resume(1-3) by (auto simp: conc_agree_inv_def dest!: set_update_cases)
qed

lemma conc_step_start_at:
  "i < length ts \<Longrightarrow> ts ! i = LStart \<Longrightarrow> hve_start env (h, w) = (t, (h', w')) \<Longrightarrow> ts' = ts[i := t] \<Longrightarrow>
   conc_step env (h, w, ts) (h', w', ts')"
  by (simp add: conc_step.start)

lemma conc_step_resume_at:
  "i < length ts \<Longrightarrow> ts ! i = LWait r \<Longrightarrow> hve_resume env r h = (v, h') \<Longrightarrow> ts' = ts[i := LDone v] \<Longrightarrow>
   conc_step env (h, w, ts) (h', w, ts')"
  by (simp add: conc_step.resume)

text \<open>
  Split at the await: running the synchronous half of \<open>_hasValidEndpoint\<close> and then
  its asynchronous half, with nothing in between, is the whole method as the hub
  theory models it: same result, same hub, same requests.
\<close>

theorem hve_seq_eq: "hve_seq env s = run_state (hasValidEndpoint env) s"
  by (cases s)
     (auto simp: hve_seq_def hve_start_def hve_resume_def hasValidEndpoint_def getEndpoint_def hub_run
       split: prod.splits sum.splits)

text \<open>
  C22 (lookups are bounded): in every interleaving of \<open>k\<close> calls of \<open>_hasValidEndpoint\<close>
  on one instance, against a server that answers by URL and method, the number of
  requests sent is at most the number of calls that have started, the calls are the
  same \<open>k\<close>, and no field of the instance but \<open>_baseUrl\<close> has changed.
\<close>

theorem conc_lookups_bounded:
  assumes "(conc_step (server_env srv parse str))\<^sup>*\<^sup>* (h0, q0, replicate k LStart) (h, q, ts)"
  shows "length q \<le> length q0 + started ts \<and> length ts = k \<and>
         h\<lparr>st_baseUrl := JStr ''''\<rparr> = h0\<lparr>st_baseUrl := JStr ''''\<rparr>"
proof -
  have "conc_inv h0 q0 k (h, q, ts)"
    using assms
  proof (induction rule: rtranclp_induct)
    case base
    then show ?case by (simp add: conc_inv_def started_def)
  next
    case (step y z)
    then show ?case using conc_inv_step by blast
  qed
  then show ?thesis by (simp add: conc_inv_def)
qed

theorem conc_lookups_bounded_witness:
  "case hve_start demo_env (smartthings_Translator demo_token, []) of (t, h', q') \<Rightarrow>
     (conc_step demo_env)\<^sup>*\<^sup>* (smartthings_Translator demo_token, [], [LStart, LStart]) (h', q', [t, LStart]) \<and>
     length q' \<le> started [t, LStart] \<and> h' = smartthings_Translator demo_token"
proof -
  obtain t h' q' where e: "hve_start demo_env (smartthings_Translator demo_token, []) = (t, h', q')"
    by (metis prod.exhaust)
  have "conc_step demo_env (smartthings_Translator demo_token, [], [LStart, LStart]) (h', q', [t, LStart])"
    by (rule conc_step_start_at [where i = 0, OF _ _ e]) simp_all
  then have r: "(conc_step demo_env)\<^sup>*\<^sup>* (smartthings_Translator demo_token, [], [LStart, LStart]) (h', q', [t, LStart])"
    by simp
  have r2: "(conc_step (server_env demo_srv demo_parse (\<lambda>v. JStr ''{}'')))\<^sup>*\<^sup>*
      (smartthings_Translator demo_token, [], replicate 2 LStart) (h', q', [t, LStart])"
    using r by (simp add: demo_env_def numeral_2_eq_2)
  have "h' = smartthings_Translator demo_token"
    using hve_start_server_log [of demo_srv demo_parse "\<lambda>v. JStr ''{}''"] e by (simp add: demo_env_def)
  then show ?thesis using conc_lookups_bounded [OF r2] r e by simp
qed

text \<open>
  C20 (duplicate lookups): two calls of \<open>_hasValidEndpoint\<close> on a fresh instance
  (\<open>_baseUrl\<close> empty), against a server whose lookup answer names an endpoint, end in
  the same instance state along both schedules below, but interleaved (both start
  before either answer arrives) they send the endpoint lookup twice, while one after
  the other they send it once. The cache in \<open>_baseUrl\<close> does not prevent duplicate
  lookups by concurrent calls.
\<close>

theorem conc_double_lookup:
  assumes "st_baseUrl h = JStr ''''" "\<not> js_nullish (st_accessToken h)"
    and "srv (endpoint_request_url h) ''GET'' = Inr b" "parse b = Inr (JArr (JObj ep # rs))"
    and "map_of ep ''uri'' = Some u" "u \<noteq> JUndef" "u \<noteq> JStr ''''"
  shows "\<exists>oE. ro_url oE = endpoint_request_url h \<and>
    (conc_step (server_env srv parse str))\<^sup>*\<^sup>* (h, [], [LStart, LStart])
       (h\<lparr>st_baseUrl := u\<rparr>, [oE, oE], [LDone (Inr (JBool True)), LDone (Inr (JBool True))]) \<and>
    (conc_step (server_env srv parse str))\<^sup>*\<^sup>* (h, [], [LStart, LStart])
       (h\<lparr>st_baseUrl := u\<rparr>, [oE], [LDone (Inr (JBool True)), LDone (Inr (JBool True))])"
proof -
  let ?E = "server_env srv parse str"
  let ?h1 = "h\<lparr>st_baseUrl := u\<rparr>"
  let ?T = "LDone (Inr (JBool True))"
  obtain url where url: "endpoint_url (st_accessToken h) = Inr url"
    "js_add (st_baseUrl h) url = endpoint_request_url h"
    using assms(1,2) by (simp add: endpoint_url_ok)
  obtain oE where oE: "request_options h url ''GET'' JUndef = Inr oE" "ro_url oE = endpoint_request_url h"
    "ro_method oE = ''GET''"
    using request_options_url [OF assms(2), of url] url(2) by auto
  have start: "hve_start ?E (h, q) = (LWait (Inr b), (h, q @ [oE]))" for q
    using hve_start_server_lookup [OF assms(1) url(1) oE(1)] oE(2,3) assms(3) by simp
  have resume: "hve_resume ?E (Inr b) h' = (Inr (JBool True), h'\<lparr>st_baseUrl := u\<rparr>)" for h'
    using assms(4-6) by (rule hve_resume_found)
  have cached: "hve_start ?E (?h1, q) = (?T, (?h1, q))" for q
    using assms(7) by (simp add: hve_start_cached)
  have s1: "conc_step ?E (h, [], [LStart, LStart]) (h, [oE], [LWait (Inr b), LStart])"
    by (rule conc_step_start_at [where i = 0, OF _ _ start [of "[]", simplified]]) simp_all
  have s2: "conc_step ?E (h, [oE], [LWait (Inr b), LStart]) (h, [oE, oE], [LWait (Inr b), LWait (Inr b)])"
    by (rule conc_step_start_at [where i = 1, OF _ _ start [of "[oE]", simplified]]) simp_all
  have s3: "conc_step ?E (h, [oE, oE], [LWait (Inr b), LWait (Inr b)]) (?h1, [oE, oE], [?T, LWait (Inr b)])"
    by (rule conc_step_resume_at [where i = 0, OF _ _ resume]) simp_all
  have s4: "conc_step ?E (?h1, [oE, oE], [?T, LWait (Inr b)]) (?h1, [oE, oE], [?T, ?T])"
    by (rule conc_step_resume_at [where i = 1, OF _ _ resume [of ?h1, simplified]]) simp_all
  have t2: "conc_step ?E (h, [oE], [LWait (Inr b), LStart]) (?h1, [oE], [?T, LStart])"
    by (rule conc_step_resume_at [where i = 0, OF _ _ resume]) simp_all
  have t3: "conc_step ?E (?h1, [oE], [?T, LStart]) (?h1, [oE], [?T, ?T])"
    by (rule conc_step_start_at [where i = 1, OF _ _ cached]) simp_all
  have "(conc_step ?E)\<^sup>*\<^sup>* (h, [], [LStart, LStart]) (?h1, [oE, oE], [?T, ?T])"
    using s1 s2 s3 s4 by (meson rtranclp.rtrancl_into_rtrancl rtranclp.rtrancl_refl)
  moreover have "(conc_step ?E)\<^sup>*\<^sup>* (h, [], [LStart, LStart]) (?h1, [oE], [?T, ?T])"
    using s1 t2 t3 by (meson rtranclp.rtrancl_into_rtrancl rtranclp.rtrancl_refl)
  ultimately show ?thesis using oE(2) by blast
qed

theorem conc_double_lookup_witness:
  "\<exists>oE. ro_url oE = JStr ''https://graph.api.smartthings.com/api/smartapps/endpoints/cid?access_token=tok'' \<and>
    (conc_step demo_env)\<^sup>*\<^sup>* (smartthings_Translator demo_token, [], [LStart, LStart])
       (demo_hub, [oE, oE], [LDone (Inr (JBool True)), LDone (Inr (JBool True))]) \<and>
    (conc_step demo_env)\<^sup>*\<^sup>* (smartthings_Translator demo_token, [], [LStart, LStart])
       (demo_hub, [oE], [LDone (Inr (JBool True)), LDone (Inr (JBool True))])"
  using conc_double_lookup [where h = "smartthings_Translator demo_token" and srv = demo_srv and b = "''endpoints''"
      and parse = demo_parse and ep = "[(''uri'', JStr ''https://st.example/api'')]" and rs = "[]"
      and u = "JStr ''https://st.example/api''" and str = "\<lambda>v. JStr ''{}''"]
  by (simp add: demo_simps)

text \<open>
  C21 (the race is benign for results): from a fresh instance, against a server whose
  lookup answer names an endpoint, every interleaving of \<open>k > 0\<close> calls in which
  all calls have finished ends with every call answering \<open>true\<close> and the endpoint
  cached. Concurrent calls cost duplicate lookups (the previous theorem) but never a
  wrong answer or a different instance.
\<close>

theorem conc_lookups_agree:
  assumes "st_baseUrl h0 = JStr ''''" "\<not> js_nullish (st_accessToken h0)"
    and "srv (endpoint_request_url h0) ''GET'' = Inr b" "parse b = Inr (JArr (JObj ep # rs))"
    and "map_of ep ''uri'' = Some u" "u \<noteq> JUndef" "u \<noteq> JStr ''''"
    and "(conc_step (server_env srv parse str))\<^sup>*\<^sup>* (h0, q0, replicate k LStart) (h, q, ts)"
    and "0 < k" "\<forall>t\<in>set ts. \<exists>v. t = LDone v"
  shows "ts = replicate k (LDone (Inr (JBool True))) \<and> h = h0\<lparr>st_baseUrl := u\<rparr>"
proof -
  have "conc_agree_inv h0 u b k (h, q, ts)"
    using assms(8)
  proof (induction rule: rtranclp_induct)
    case base
    then show ?case by (auto simp: conc_agree_inv_def)
  next
    case (step y z)
    then show ?case using conc_agree_inv_step [where srv = srv and parse = parse, OF assms(1-7)] by blast
  qed
  then have inv: "length ts = k" "set ts \<subseteq> {LStart, LWait (Inr b), LDone (Inr (JBool True))}"
    "LDone (Inr (JBool True)) \<in> set ts \<longrightarrow> h = h0\<lparr>st_baseUrl := u\<rparr>"
    by (auto simp: conc_agree_inv_def)
  have all: "\<forall>t\<in>set ts. t = LDone (Inr (JBool True))" using inv(2) assms(10) by fastforce
  then have "ts = replicate k (LDone (Inr (JBool True)))" using inv(1) replicate_length_same [of ts] by simp
  moreover have "ts \<noteq> []" using inv(1) assms(9) by auto
  ultimately show ?thesis using inv(3) by (cases ts) auto
qed

theorem conc_lookups_agree_witness:
  "\<exists>q. (conc_step demo_env)\<^sup>*\<^sup>* (smartthings_Translator demo_token, [], [LStart])
         (demo_hub, q, [LDone (Inr (JBool True))]) \<and>
     [LDone (Inr (JBool True))] = replicate 1 (LDone (Inr (JBool True))) \<and>
     demo_hub = (smartthings_Translator demo_token)\<lparr>st_baseUrl := JStr ''https://st.example/api''\<rparr>"
proof -
  let ?h0 = "smartthings_Translator demo_token"
  let ?E = "server_env demo_srv demo_parse (\<lambda>v. JStr ''{}'')"
  let ?u = "JStr ''https://st.example/api''"
  have fresh: "st_baseUrl ?h0 = JStr ''''" "\<not> js_nullish (st_accessToken ?h0)"
    and srv: "demo_srv (endpoint_request_url ?h0) ''GET'' = Inr ''endpoints''"
    and parse: "demo_parse ''endpoints'' = Inr (JArr [JObj [(''uri'', ?u)]])"
    by (simp_all add: demo_simps)
  obtain oE where s: "hve_start ?E (?h0, []) = (LWait (Inr ''endpoints''), (?h0, [oE]))"
    using hve_start_server_fresh [OF fresh, of demo_srv demo_parse "\<lambda>v. JStr ''{}''" "[]"] srv by auto
  have r: "hve_resume ?E (Inr ''endpoints'') ?h0 = (Inr (JBool True), ?h0\<lparr>st_baseUrl := ?u\<rparr>)"
    by (rule hve_resume_found [where parse = demo_parse and b = "''endpoints''", OF parse]) simp_all
  have "conc_step ?E (?h0, [], [LStart]) (?h0, [oE], [LWait (Inr ''endpoints'')])"
    by (rule conc_step_start_at [where i = 0, OF _ _ s]) simp_all
  moreover have "conc_step ?E (?h0, [oE], [LWait (Inr ''endpoints'')]) (?h0\<lparr>st_baseUrl := ?u\<rparr>, [oE], [LDone (Inr (JBool True))])"
    by (rule conc_step_resume_at [where i = 0, OF _ _ r]) simp_all
  ultimately have reach: "(conc_step ?E)\<^sup>*\<^sup>* (?h0, [], replicate 1 LStart) (?h0\<lparr>st_baseUrl := ?u\<rparr>, [oE], [LDone (Inr (JBool True))])"
    by (simp add: converse_rtranclp_into_rtranclp)
  have "[LDone (Inr (JBool True))] = replicate 1 (LDone (Inr (JBool True))) \<and> ?h0\<lparr>st_baseUrl := ?u\<rparr> = ?h0\<lparr>st_baseUrl := ?u\<rparr>"
    by (rule conc_lookups_agree [where srv = demo_srv and parse = demo_parse, OF fresh srv parse _ _ _ reach]) simp_all
  then show ?thesis using reach by (auto simp: demo_simps)
qed

end
