(* ===== verification/Spec2Isabelle.thy ===== *)
theory Spec2Isabelle
  imports InsteonLightbulb WinkThermostat SwitchTest InsteonHubConstants SmartThingsConcurrency
begin

text \<open>
  A verification library for the OpenT2T translators of this repository. A translator
  turns a vendor's device record into the OCF-style platform graph (platform, entities,
  resources) and turns a write to one resource back into a vendor update. A hub
  translator is the transport a device translator calls. Every definition below
  translates JavaScript of src/ into HOL functions over an explicit model of JavaScript
  values.

  \<^bold>\<open>How the parts interact.\<close> A caller constructs a device translator with a
  configuration object; the constructor validates it (\<open>validateArgumentType\<close>) and stores
  the device id and a hub or helper object in module-level variables. A read asks the hub
  for the device record, normalizes it into the platform graph and, for a single
  resource, locates the resource in the graph. A write maps the resource payload to a
  vendor payload, sends it through the hub and normalizes the answer.

  \<^bold>\<open>Theories and what they model.\<close>
  \<^item> \<open>Prelude\<close>: the exception monad \<open>bindE\<close> on \<open>'e + 'a\<close> in which a throw is
    \<open>Inl\<close>, association lists with JavaScript's insertion-order property assignment
    (\<open>set_prop\<close>), and list lemmas shared by the components.
  \<^item> \<open>JsValue\<close>: JavaScript values \<open>jval\<close> (objects as association lists, host objects
    by reference) and the semantics the sources rely on: \<open>typeof\<close>, truthiness,
    \<open>===\<close>, ToString, ToNumber (decimal literals), \<open>+\<close>, \<open>/\<close>, property reads that throw a
    \<open>TypeError\<close> on \<open>undefined\<close> or \<open>null\<close>, \<open>Array.prototype.find\<close>, and
    the lightbulb's \<open>validateArgumentType\<close> (the thermostat's verbatim copy is shown
    equal to it). ToString of a number follows Number::toString: plain digits, a decimal
    point, a \<open>0.000\<close> prefix or the exponent form, chosen by the decimal exponent as
    ECMA-262 prescribes, so that \<open>10^21\<close> prints as \<open>1e+21\<close> and \<open>10^-7\<close> as \<open>1e-7\<close>.
  \<^item> \<open>Guid\<close>: \<open>generateGUID\<close> of the Insteon lightbulb translator (the Identity
    Deriver). SHA-1 is a parameter \<open>sha1\<close> producing a byte list; hex encoding and the
    8-4-4-4-12 grouping are modelled exactly. The lemmas show that the identity has the
    GUID shape, that it can be decoded back to the first 16 bytes of the digest, and that
    two identities agree exactly when those bytes agree. They also show that a
    numeric control id below \<open>10^21\<close> gives the identity of its decimal string.
  \<^item> \<open>InsteonLightbulb\<close>: src/org.opent2t.sample.lamp.superpopular/com.insteon.lightbulb/js/thingTranslator.js.
    \<open>findResource\<close> is the Resource Locator, \<open>providerSchemaToPlatformSchema\<close> the
    Schema Normalizer and \<open>resourceSchemaToProviderSchema\<close> the Reverse Mapper. The
    module variables \<open>controlId\<close> and \<open>insteonHub\<close> are the record
    \<open>insteon_module\<close>, shared by all instances. The \<open>Translator\<close> methods take the hub
    environment \<open>hub_env\<close>, the module state and the hub's state; a promise is modelled
    by its outcome. The lemmas cover the spec's lamp scenario, both lookup failures, the
    expand subset property, the data-model shape of the normalized graph (it holds
    exactly for expanded graphs), the power and dim round trips through a conforming hub
    (\<open>insteon_hub\<close>, modelled from the spec, section 6), and the defects listed in the
    findings.
  \<^item> \<open>WinkThermostat\<close>: src/org.opent2t.sample.thermostat.superpopular/com.wink.thermostat/js/thingTranslator.js.
    \<open>StateReader_get\<close> is the State Reconciler and \<open>deviceSchemaToTranslatorSchema\<close> the
    normalizer, with the midpoint target temperature. \<open>translatorSchemaToDeviceSchema\<close>
    is the Reverse Mapper; the module variables are the record \<open>wink_module\<close>. The
    Wink helper is reached through \<open>wink_env\<close>; \<open>wink_service\<close> is a conforming service
    that merges \<open>desired_state\<close>, as the Wink API does. The lemmas cover per-field
    reconciliation and its refinement of the specification's merge (\<open>map_add\<close> on
    partial maps, \<open>obj_view\<close> the abstraction), the midpoint and the partial-update shape of
    the reverse mapping. They also show the round trip of every writable field through
    the service (spec, section 8), and that two writes of disjoint fields commute
    (section 4.3): the service merges \<open>desired_state\<close> key by key, and the normalizer
    reads fields, not key order. Like the lightbulb, the thermostat keeps its device in
    module variables, so a second translator redirects the first one's reads and writes.
    The lemmas also cover missing set points and units.
  \<^item> \<open>SmartThingsHub\<close>: src/org.opent2t.sample.hub.superpopular/com.smartthings.hub/js/thingTranslator.js.
    The instance is the record \<open>st_hub\<close>. Each asynchronous method is a computation of
    HOL-Library's \<open>State_Monad\<close> over the instance and the network world, with
    \<open>st_bind\<close> for \<open>.then\<close>. \<open>request-promise\<close>, \<open>JSON.parse\<close> and
    \<open>JSON.stringify\<close> are parameters (\<open>st_env\<close>). \<open>hub_reach\<close> is the set of states
    reachable by sequences of operations. The lemmas show that only the endpoint cache
    \<open>_baseUrl\<close> ever changes, that the first operation consulting the endpoint fills it
    and that it then stays filled (\<open>run_ops\<close> runs operations in sequence), and the exact
    requests of the device reads and writes. They also show that device listing never
    succeeds and that \<open>refreshAuthToken\<close> rejects real tokens.
  \<^item> \<open>SmartThingsConcurrency\<close>: concurrent calls on one SmartThings instance.
    \<open>_hasValidEndpoint\<close> is split at its await into \<open>hve_start\<close> (the synchronous
    part up to the endpoint request) and \<open>hve_resume\<close> (the \<open>.then\<close> jobs after the
    answer). \<open>conc_step\<close> is an inductive step relation that advances any one of the
    calls in flight, so its reflexive transitive closure contains every interleaving the
    JavaScript event loop can produce. The lemmas show three things. Running the two
    halves back to back is \<open>hasValidEndpoint\<close>. Every interleaving sends at most one
    request per started call and changes nothing but \<open>_baseUrl\<close>. Two calls on a fresh
    instance that start before either answer arrives send the endpoint lookup twice,
    where one after the other they send it once. The race is benign for results: every
    interleaving in which all calls have finished gives each call the answer \<open>true\<close>
    and leaves the endpoint cached.
  \<^item> \<open>InsteonHubConstants\<close>: src/org.opent2t.sample.hub.superpopular/com.insteon.hub/js/constants.js.
    The \<open>exports\<close> object is a list of properties with descriptors (\<open>prop_desc\<close>);
    \<open>define\<close> is \<open>define_export\<close>, built on \<open>Object.defineProperty\<close>. What an
    importing module can attempt (assign, redefine, delete, in sloppy or strict mode) forms
    the step relation \<open>exports_reach\<close>. By rule induction, \<open>CommandTimeout\<close> keeps
    its value and attributes in every reachable state.
  \<^item> \<open>SwitchTest\<close>: \<open>getBinarySwitch\<close> of
    src/opent2t.p.outlet/com.smartthings.binaryswitch/js/tests/test.js. Its index loop
    is shown equal to \<open>Array.prototype.find\<close> on arrays, which needs the round trip
    between a natural number and its decimal array index (in \<open>JsValue\<close>).
  \<^item> This theory: a theorem that spans both device translators. A failure of the hub or
    helper they call reaches the caller unchanged (spec, section 7).

  \<^bold>\<open>Bounds and fuel.\<close> The only fuel is in ToString of a number (\<open>frac_digits\<close>,
  1100 digits of the decimal expansion). A finite double is a rational with denominator
  \<open>2^j\<close>, \<open>j \<le> 1074\<close>. A lemma of \<open>JsValue\<close> proves that the long division then
  stops within \<open>j\<close> digits, so the fuel never cuts the expansion of a double short. Every other
  function is structurally recursive or non-recursive; each asynchronous chain is
  finite, so every operation returns a value and no partiality is modelled. The
  interleavings of \<open>conc_step\<close> are finite too: each step moves one call forward from
  \<open>LStart\<close> to \<open>LWait\<close> to \<open>LDone\<close>.

  \<^bold>\<open>Not modelled.\<close> SHA-1 itself (a parameter; the lemmas hold for every digest
  function), the HTTP transport, JSON parsing and printing (parameters), and
  \<open>console.log\<close> (no effect on state). Also not modelled are the OpenT2T runtime that
  loads translators by name (not in this repository), and the setup and ava cases of
  the SmartThings binary switch test: \<open>test.before\<close> loads the hub from
  \<open>../../../../opent2t.p.hub/com.smartthings.hub/js\<close>, a path that is not in this
  repository, and builds the switch through that runtime, so only \<open>getBinarySwitch\<close>
  is modelled. Interleavings are modelled only for
  \<open>_hasValidEndpoint\<close>. The other SmartThings methods only read \<open>_baseUrl\<close>, after
  their own lookup has finished, and each is modelled as one step. The Insteon hub and the Wink service are
  not in the repository; they are modelled from the spec as conforming collaborators.
  Numbers are rationals plus \<open>NaN\<close>; rounding of doubles is not modelled because the
  translators only copy, add and halve the numbers they are given. ToString prints the
  exact value of that rational in the formats of Number::toString, which is what
  JavaScript prints whenever the value has at most 15 significant digits (the shortest
  decimal of the nearest double is then the value itself); a value such as \<open>1/3\<close>,
  which is no double, prints with more digits than JavaScript's 17.
\<close>


section \<open>Transport failures reach the caller\<close>

text \<open>
  C24 (transport errors propagate): when the collaborator a device translator calls
  (the Insteon hub object of the lightbulb, the Wink helper of the thermostat) rejects a
  call with an error \<open>e\<close>, the translator's read and write reject with the same \<open>e\<close>
  and leave the collaborator's state as the failed call left it. No translator catches,
  rewrites or retries the failure, and no answer is normalized. A write reaches the
  collaborator only when its resource payload maps to a vendor payload and, for the
  lightbulb, when the identity is that of the current control id.
\<close>

theorem transport_errors_propagate:
  assumes "insteonHub m = JHost n" "\<forall>c. env n c w = (w', Inl e)"
    and "winkHelper m2 = Some tok" "\<forall>c. wenv tok c v = (v', Inl e)"
  shows "getDeviceResource sha1 env di r m w = (w', Inl e) \<and>
    (js_seq di (JStr (generateGUID sha1 (controlId m))) \<longrightarrow> resourceSchemaToProviderSchema r p = Inr pp \<longrightarrow>
       postDeviceResource sha1 env di r p m w = (w', Inl e)) \<and>
    getThermostatResURI wenv m2 v = (v', Inl e) \<and>
    (translatorSchemaToDeviceSchema q = Inr qq \<longrightarrow> postThermostatResURI wenv q m2 v = (v', Inl e))"
  using assms by (simp add: op_simps getThermostatResURI_def postThermostatResURI_def call_wink_def wink_then_def)

theorem transport_errors_propagate_witness:
  "postDeviceResource demo_digest (\<lambda>n c w. (w, Inl (Rejected (JStr ''ETIMEDOUT''))))
       (JStr (generateGUID demo_digest (JStr ''X1''))) (JStr ''power'') (JObj [(''value'', JBool True)])
       \<lparr>controlId = JStr ''X1'', insteonHub = JHost 0\<rparr> () =
     ((), Inl (Rejected (JStr ''ETIMEDOUT''))) \<and>
   getDeviceResource demo_digest (\<lambda>n c w. (w, Inl (Rejected (JStr ''ETIMEDOUT''))))
       (JStr (generateGUID demo_digest (JStr ''X1''))) (JStr ''power'') \<lparr>controlId = JStr ''X1'', insteonHub = JHost 0\<rparr> () =
     ((), Inl (Rejected (JStr ''ETIMEDOUT''))) \<and>
   postThermostatResURI (\<lambda>t c w. (w, Inl (Rejected (JStr ''ETIMEDOUT''))))
       (JObj [(''targetTemperatureHigh'', JObj [(''temperature'', JNum 70)])]) thermo_module () =
     ((), Inl (Rejected (JStr ''ETIMEDOUT'')))"
  using transport_errors_propagate [of "\<lparr>controlId = JStr ''X1'', insteonHub = JHost 0\<rparr>" 0
      "\<lambda>n c w. (w, Inl (Rejected (JStr ''ETIMEDOUT'')))" "()" "()"
      "Rejected (JStr ''ETIMEDOUT'')" thermo_module "JStr ''tok''" "\<lambda>t c w. (w, Inl (Rejected (JStr ''ETIMEDOUT'')))" "()" "()"
      demo_digest "JStr (generateGUID demo_digest (JStr ''X1''))" "JStr ''power''" "JObj [(''value'', JBool True)]"
      "JObj [(''command'', JStr ''on'')]"]
  by (simp add: thermo_module_def translatorSchemaToDeviceSchema_def put_if_defined_def
      resourceSchemaToProviderSchema_def js_get_prop_of)

end
